theory Spec2Isabelle
  imports Complex_Main "HOL-Library.Sublist" "HOL-Library.AList"
begin

section \<open>Python values\<close>

text \<open>
  The scripts work on the values that \<^verbatim>\<open>json.load\<close> produces: \<^verbatim>\<open>None\<close>, booleans,
  integers, floats, strings, lists and dictionaries. A dictionary is an association list
  in insertion order, read with \<open>map_of\<close>. A string is a list of characters, one per code
  point. A float is carried as its numeric value.
\<close>

datatype json =
    JNull
  | JBool bool
  | JInt int
  | JFloat rat
  | JStr string
  | JArr "json list"
  | JObj "(string \<times> json) list"

type_synonym dict = "(string \<times> json) list"

text \<open>
  The exceptions the modelled code can meet; \<open>FileError\<close> stands for an \<^verbatim>\<open>OSError\<close> of
  the file system.
\<close>

datatype py_error =
    AttributeError
  | TypeError
  | KeyError
  | JSONDecodeError
  | FileError
  | ClientError string

text \<open>A raise is \<open>Inl\<close>; \<open>bind_err\<close> sequences two steps and stops at the first raise.\<close>

definition bind_err :: "py_error + 'a \<Rightarrow> ('a \<Rightarrow> py_error + 'b) \<Rightarrow> py_error + 'b" where
  "bind_err m f = (case m of Inl e \<Rightarrow> Inl e | Inr x \<Rightarrow> f x)"

text \<open>Truth value of a Python object, as \<^verbatim>\<open>if x:\<close> tests it.\<close>

fun truthy :: "json \<Rightarrow> bool" where
  "truthy JNull = False"
| "truthy (JBool b) = b"
| "truthy (JInt i) = (i \<noteq> 0)"
| "truthy (JFloat q) = (q \<noteq> 0)"
| "truthy (JStr s) = (s \<noteq> [])"
| "truthy (JArr xs) = (xs \<noteq> [])"
| "truthy (JObj kvs) = (kvs \<noteq> [])"

text \<open>
  \<^verbatim>\<open>str(x)\<close>, as an f-string applies it. For strings, \<^verbatim>\<open>None\<close> and booleans it is
  written out; the rendering of numbers and containers is the runtime's and is taken as
  the parameter \<open>str_of\<close>.
\<close>

definition py_str :: "(json \<Rightarrow> string) \<Rightarrow> json \<Rightarrow> string" where
  "py_str str_of v =
     (case v of
        JStr s \<Rightarrow> s
      | JNull \<Rightarrow> ''None''
      | JBool b \<Rightarrow> (if b then ''True'' else ''False'')
      | _ \<Rightarrow> str_of v)"

text \<open>\<^verbatim>\<open>d.get(k, default)\<close> on a dictionary, and on an arbitrary value.\<close>

definition dict_get :: "dict \<Rightarrow> string \<Rightarrow> json \<Rightarrow> json" where
  "dict_get d k dflt = (case map_of d k of None \<Rightarrow> dflt | Some v \<Rightarrow> v)"

definition py_get :: "json \<Rightarrow> string \<Rightarrow> json \<Rightarrow> py_error + json" where
  "py_get v k dflt = (case v of JObj d \<Rightarrow> Inr (dict_get d k dflt) | _ \<Rightarrow> Inl AttributeError)"

text \<open>\<^verbatim>\<open>v[k]\<close> with a string key.\<close>

definition py_getitem :: "json \<Rightarrow> string \<Rightarrow> py_error + json" where
  "py_getitem v k =
     (case v of
        JObj d \<Rightarrow> (case map_of d k of None \<Rightarrow> Inl KeyError | Some x \<Rightarrow> Inr x)
      | _ \<Rightarrow> Inl TypeError)"

text \<open>Iteration: a list yields its items, a string its characters, a dictionary its keys.\<close>

definition py_iter :: "json \<Rightarrow> py_error + json list" where
  "py_iter v =
     (case v of
        JArr xs \<Rightarrow> Inr xs
      | JStr s \<Rightarrow> Inr (map (\<lambda>c. JStr [c]) s)
      | JObj kvs \<Rightarrow> Inr (map (\<lambda>kv. JStr (fst kv)) (AList.clearjunk kvs))
      | _ \<Rightarrow> Inl TypeError)"

text \<open>\<^verbatim>\<open>sep.join(v)\<close>: every item must be a string.\<close>

fun str_join :: "string \<Rightarrow> string list \<Rightarrow> string" where
  "str_join sep [] = []"
| "str_join sep [x] = x"
| "str_join sep (x # y # ys) = x @ sep @ str_join sep (y # ys)"

fun str_items :: "json list \<Rightarrow> py_error + string list" where
  "str_items [] = Inr []"
| "str_items (JStr s # xs) = bind_err (str_items xs) (\<lambda>ss. Inr (s # ss))"
| "str_items (_ # xs) = Inl TypeError"

definition py_join :: "string \<Rightarrow> json \<Rightarrow> py_error + string" where
  "py_join sep v =
     bind_err (py_iter v) (\<lambda>xs. bind_err (str_items xs) (\<lambda>ss. Inr (str_join sep ss)))"

text \<open>\<^verbatim>\<open>v[:n]\<close>; a dictionary or a scalar cannot be sliced.\<close>

definition py_slice_to :: "nat \<Rightarrow> json \<Rightarrow> py_error + json" where
  "py_slice_to n v =
     (case v of
        JArr xs \<Rightarrow> Inr (JArr (take n xs))
      | JStr s \<Rightarrow> Inr (JStr (take n s))
      | _ \<Rightarrow> Inl TypeError)"

text \<open>\<^verbatim>\<open>len(v)\<close>.\<close>

definition py_len :: "json \<Rightarrow> py_error + nat" where
  "py_len v =
     (case v of
        JArr xs \<Rightarrow> Inr (length xs)
      | JStr s \<Rightarrow> Inr (length s)
      | JObj kvs \<Rightarrow> Inr (length (AList.clearjunk kvs))
      | _ \<Rightarrow> Inl TypeError)"

section \<open>The embedding text builders\<close>

text \<open>The line break and indentation of the triple-quoted summary templates.\<close>

definition nl_indent :: string where
  "nl_indent = CHR 0x0A # ''        ''"

text \<open>
  \<^verbatim>\<open>EmbeddingGenerator.build_embedding_text\<close> (generate_embeddings.py). \<open>parts\<close> holds
  Python objects: the description is appended as it is, and the final join raises when it
  is not a string.
\<close>

definition eg_build_embedding_text :: "(json \<Rightarrow> string) \<Rightarrow> dict \<Rightarrow> py_error + string" where
  "eg_build_embedding_text str_of metadata =
    (let parts = [];
         parts = parts @ [JStr (''Industry: '' @ py_str str_of (dict_get metadata ''industry'' (JStr ''general'')))];
         parts = parts @ [JStr (''CTA Intent: '' @ py_str str_of (dict_get metadata ''cta_intent'' (JStr ''contact'')))];
         parts = parts @ [JStr (''Design Style: '' @ py_str str_of (dict_get metadata ''design_style'' (JStr ''modern'')))];
         sections = dict_get metadata ''sections'' (JArr [])
     in bind_err
          (if truthy sections
           then bind_err (py_join '', '' sections) (\<lambda>j. Inr (parts @ [JStr (''Sections: '' @ j)]))
           else Inr parts)
       (\<lambda>parts.
        let color_palette = dict_get metadata ''color_palette'' (JObj [])
        in bind_err
          (if truthy color_palette
           then bind_err (py_get color_palette ''primary'' (JStr ''''))
                  (\<lambda>primary. Inr (parts @ [JStr (''Color Palette: '' @ py_str str_of primary @ '' primary'')]))
           else Inr parts)
       (\<lambda>parts.
        let keywords = dict_get metadata ''keywords'' (JArr [])
        in bind_err
          (if truthy keywords
           then bind_err (py_join '', '' keywords) (\<lambda>j. Inr (parts @ [JStr (''Tags: '' @ j)]))
           else Inr parts)
       (\<lambda>parts.
        let description = dict_get metadata ''description'' (JStr '''');
            parts = (if truthy description then parts @ [description] else parts);
            industry = dict_get metadata ''industry'' (JStr ''general'');
            cta_intent = dict_get metadata ''cta_intent'' (JStr ''contact'');
            design_style = dict_get metadata ''design_style'' (JStr ''modern'')
        in bind_err
          (if truthy sections
           then bind_err (py_slice_to 3 sections) (py_join '', '')
           else Inr ''standard'')
       (\<lambda>sections_preview.
        let semantic_summary =
              nl_indent @ ''This is a '' @ py_str str_of design_style
                @ '' website template for the '' @ py_str str_of industry @ '' industry,''
                @ nl_indent @ ''optimized for '' @ py_str str_of cta_intent
                @ '' conversions with sections including '' @ sections_preview @ ''.''
                @ nl_indent;
            parts = parts @ [JStr semantic_summary]
        in py_join '' '' (JArr parts))))))"

text \<open>
  \<^verbatim>\<open>ExistingTemplateProcessor.build_embedding_text\<close> (process_existing_templates.py).
  \<^verbatim>\<open>template['pages_count']\<close> and \<^verbatim>\<open>template['name']\<close> are read only after
  \<^verbatim>\<open>template.get\<close> found them truthy, so they are present.
\<close>

definition etp_build_embedding_text :: "(json \<Rightarrow> string) \<Rightarrow> dict \<Rightarrow> py_error + string" where
  "etp_build_embedding_text str_of template =
    (let parts =
           [''Industry: '' @ py_str str_of (dict_get template ''industry'' (JStr ''general'')),
            ''CTA Intent: '' @ py_str str_of (dict_get template ''cta_intent'' (JStr ''contact'')),
            ''Design Style: '' @ py_str str_of (dict_get template ''design_style'' (JStr ''modern''))];
         parts = (if truthy (dict_get template ''pages_count'' JNull)
                  then parts @ [''Pages: '' @ py_str str_of (dict_get template ''pages_count'' JNull) @ '' pages'']
                  else parts)
     in bind_err
          (if truthy (dict_get template ''features'' JNull)
           then bind_err (py_join '', '' (dict_get template ''features'' JNull))
                  (\<lambda>j. Inr (parts @ [''Features: '' @ j]))
           else Inr parts)
       (\<lambda>parts.
        let parts = (if truthy (dict_get template ''name'' JNull)
                     then parts @ [''Name: '' @ py_str str_of (dict_get template ''name'' JNull)]
                     else parts);
            industry = dict_get template ''industry'' (JStr ''general'');
            cta_intent = dict_get template ''cta_intent'' (JStr ''contact'');
            design_style = dict_get template ''design_style'' (JStr ''modern'');
            summary =
              nl_indent @ ''This is a '' @ py_str str_of design_style
                @ '' website template for the '' @ py_str str_of industry @ '' industry,''
                @ nl_indent @ ''optimized for '' @ py_str str_of cta_intent @ '' conversions.''
                @ nl_indent;
            parts = parts @ [summary]
        in Inr (str_join '' '' parts)))"

section \<open>The world the scripts run in\<close>

text \<open>
  A \<^verbatim>\<open>pathlib.Path\<close> is its list of components. Objects in S3 hold JSON documents,
  addressed by bucket and key; DynamoDB items are addressed by table, \<^verbatim>\<open>PK\<close> and
  \<^verbatim>\<open>SK\<close>. The log keeps the records of level WARNING and above, each with the
  exception it reports, if any. \<open>tick\<close> counts the readings of the clock.
\<close>

type_synonym path = "string list"

definition path_name :: "path \<Rightarrow> string" where
  "path_name p = (if p = [] then [] else last p)"

definition path_parent :: "path \<Rightarrow> path" where
  "path_parent p = butlast p"

definition path_str :: "path \<Rightarrow> string" where
  "path_str p = str_join ''/'' p"

datatype level = WARNING | ERROR

datatype log_record = Log level string "py_error option"

record world =
  s3 :: "string \<times> string \<Rightarrow> json option"
  dynamodb :: "string \<times> string \<times> string \<Rightarrow> dict option"
  logged :: "log_record list"
  tick :: nat

text \<open>
  What the scripts are given and cannot control: the constructor arguments, the Python
  runtime's \<^verbatim>\<open>str\<close> and \<^verbatim>\<open>str.title\<close>, the clock, the template directory tree
  (\<^verbatim>\<open>Path.exists\<close>, \<^verbatim>\<open>Path.is_dir\<close> and \<^verbatim>\<open>Path.iterdir\<close> answer, or raise the
  error of the file system that they do not take for an answer), the embedding model (its
  parsed response for an input text, or the exception of the call after the client's own
  retries), and the failures of the stores.
\<close>

record env =
  region_name :: string
  environment :: string
  py_str_of :: "json \<Rightarrow> string"
  str_title :: "string \<Rightarrow> string"
  clock :: "nat \<Rightarrow> string"
  path_exists :: "path \<Rightarrow> py_error + bool"
  path_is_dir :: "path \<Rightarrow> py_error + bool"
  path_iterdir :: "path \<Rightarrow> py_error + string list"
  load_json_file :: "path \<Rightarrow> py_error + json"
  invoke_model :: "string \<Rightarrow> py_error + json"
  get_object_error :: "string \<times> string \<Rightarrow> py_error option"
  put_object_error :: "string \<times> string \<Rightarrow> py_error option"
  put_item_error :: "string \<times> string \<times> string \<Rightarrow> py_error option"

definition templates_bucket :: "env \<Rightarrow> string" where
  "templates_bucket e = ''bbws-templates-'' @ environment e"

definition vectors_bucket :: "env \<Rightarrow> string" where
  "vectors_bucket e = ''bbws-'' @ environment e @ ''-vectors''"

definition templates_table :: "env \<Rightarrow> string" where
  "templates_table e = ''rag-templates-'' @ environment e"

definition logger :: "level \<Rightarrow> string \<Rightarrow> py_error option \<Rightarrow> world \<Rightarrow> world" where
  "logger lvl msg exc w = w\<lparr>logged := logged w @ [Log lvl msg exc]\<rparr>"

text \<open>\<^verbatim>\<open>datetime.utcnow().isoformat() + "Z"\<close>.\<close>

definition utcnow_z :: "env \<Rightarrow> world \<Rightarrow> string \<times> world" where
  "utcnow_z e w = (clock e (tick w) @ ''Z'', w\<lparr>tick := Suc (tick w)\<rparr>)"

text \<open>\<^verbatim>\<open>get_object\<close> followed by \<^verbatim>\<open>json.loads\<close> of the body.\<close>

definition get_object :: "env \<Rightarrow> string \<Rightarrow> string \<Rightarrow> world \<Rightarrow> py_error + json" where
  "get_object e bucket key w =
     (case get_object_error e (bucket, key) of
        Some err \<Rightarrow> Inl err
      | None \<Rightarrow> (case s3 w (bucket, key) of
                   None \<Rightarrow> Inl (ClientError ''NoSuchKey'')
                 | Some doc \<Rightarrow> Inr doc))"

text \<open>\<^verbatim>\<open>put_object\<close> with the body \<^verbatim>\<open>json.dumps(doc)\<close>: the object is replaced.\<close>

definition put_object ::
  "env \<Rightarrow> string \<Rightarrow> string \<Rightarrow> json \<Rightarrow> world \<Rightarrow> (py_error + unit) \<times> world" where
  "put_object e bucket key doc w =
     (case put_object_error e (bucket, key) of
        Some err \<Rightarrow> (Inl err, w)
      | None \<Rightarrow> (Inr (), w\<lparr>s3 := (s3 w)((bucket, key) \<mapsto> doc)\<rparr>))"

text \<open>\<^verbatim>\<open>Table.put_item\<close>: the item with the same \<^verbatim>\<open>PK\<close> and \<^verbatim>\<open>SK\<close> is replaced.\<close>

definition put_item ::
  "env \<Rightarrow> string \<Rightarrow> string \<Rightarrow> string \<Rightarrow> dict \<Rightarrow> world \<Rightarrow> (py_error + unit) \<times> world" where
  "put_item e table pk sk item w =
     (case put_item_error e (table, pk, sk) of
        Some err \<Rightarrow> (Inl err, w)
      | None \<Rightarrow> (Inr (), w\<lparr>dynamodb := (dynamodb w)((table, pk, sk) \<mapsto> item)\<rparr>))"

text \<open>\<^verbatim>\<open>d[k]\<close> on a dictionary, and a dictionary literal that copies the keys \<open>ks\<close> of \<open>d\<close>.\<close>

definition dict_index :: "dict \<Rightarrow> string \<Rightarrow> py_error + json" where
  "dict_index d k = (case map_of d k of None \<Rightarrow> Inl KeyError | Some v \<Rightarrow> Inr v)"

fun dict_pick :: "dict \<Rightarrow> string list \<Rightarrow> py_error + dict" where
  "dict_pick d [] = Inr []"
| "dict_pick d (k # ks) =
     bind_err (dict_index d k) (\<lambda>v. bind_err (dict_pick d ks) (\<lambda>r. Inr ((k, v) # r)))"

declare dict_pick.simps [simp del]

section \<open>generate\_embeddings.py\<close>

definition EMBEDDING_MODEL_ID :: string where
  "EMBEDDING_MODEL_ID = ''amazon.titan-embed-text-v2:0''"

definition EMBEDDING_DIMENSION :: nat where
  "EMBEDDING_DIMENSION = 1024"

definition MAX_INPUT_TOKENS :: nat where
  "MAX_INPUT_TOKENS = 8192"

definition VALID_INDUSTRIES :: "string list" where
  "VALID_INDUSTRIES =
     [''restaurant'', ''healthcare'', ''technology'', ''ecommerce'', ''real_estate'',
      ''professional_services'', ''creative_agency'', ''education'', ''nonprofit'',
      ''fitness'', ''hospitality'', ''finance'', ''retail'', ''automotive'', ''beauty_spa'',
      ''other'']"

text \<open>
  \<^verbatim>\<open>EmbeddingGenerator.generate_embedding\<close>: every exception is logged and raised again;
  a vector of another length than the dimension is logged and returned.
\<close>

definition eg_generate_embedding :: "env \<Rightarrow> string \<Rightarrow> world \<Rightarrow> (py_error + json) \<times> world" where
  "eg_generate_embedding e text w =
    (let text = (if length text > MAX_INPUT_TOKENS * 4 then take (MAX_INPUT_TOKENS * 4) text else text)
     in case bind_err (invoke_model e text) (\<lambda>response_body.
             bind_err (py_get response_body ''embedding'' (JArr [])) (\<lambda>embedding.
             bind_err (py_len embedding) (\<lambda>n. Inr (embedding, n)))) of
          Inl err \<Rightarrow> (Inl err, logger ERROR ''Error generating embedding: '' (Some err) w)
        | Inr (embedding, n) \<Rightarrow>
            (Inr embedding,
             if n \<noteq> EMBEDDING_DIMENSION
             then logger WARNING
                    (''Unexpected embedding dimension: '' @ py_str_of e (JInt (int n))
                       @ '', expected '' @ py_str_of e (JInt (int EMBEDDING_DIMENSION))) None w
             else w))"

text \<open>The dictionary \<^verbatim>\<open>result\<close> of \<^verbatim>\<open>process_template\<close>.\<close>

definition eg_result ::
  "env \<Rightarrow> path \<Rightarrow> dict \<Rightarrow> string \<Rightarrow> json \<Rightarrow> string \<Rightarrow> string \<Rightarrow> dict" where
  "eg_result e template_path metadata embedding_text embedding now1 now2 =
     [(''template_id'', dict_get metadata ''template_id'' (JStr (path_name template_path))),
      (''name'', dict_get metadata ''name'' (JStr [])),
      (''industry'', dict_get metadata ''industry'' (JStr ''other'')),
      (''cta_intent'', dict_get metadata ''cta_intent'' (JStr ''contact'')),
      (''design_style'', dict_get metadata ''design_style'' (JStr ''modern'')),
      (''sections'', dict_get metadata ''sections'' (JArr [])),
      (''keywords'', dict_get metadata ''keywords'' (JArr [])),
      (''color_palette'', dict_get metadata ''color_palette'' (JObj [])),
      (''customizable_fields'', dict_get metadata ''customizable_fields'' (JArr [])),
      (''css_variables'', dict_get metadata ''css_variables'' (JArr [])),
      (''description'', dict_get metadata ''description'' (JStr [])),
      (''figma_source'', dict_get metadata ''figma_source'' (JStr [])),
      (''s3_path'', JStr (''website-templates/'' @ path_name (path_parent template_path) @ ''/''
                           @ path_name template_path @ ''/'')),
      (''preview_url'', JStr (''https://'' @ templates_bucket e @ ''.s3.'' @ region_name e
                           @ ''.amazonaws.com/website-templates/''
                           @ path_name (path_parent template_path) @ ''/''
                           @ path_name template_path @ ''/preview.png'')),
      (''embedding_text'', JStr (take 500 embedding_text)),
      (''embedding'', embedding),
      (''embedding_model'', JStr EMBEDDING_MODEL_ID),
      (''embedding_dimension'', JInt (int EMBEDDING_DIMENSION)),
      (''status'', JStr ''PUBLISHED''),
      (''created_at'', dict_get metadata ''created_at'' (JStr now1)),
      (''updated_at'', JStr now2)]"

text \<open>
  \<^verbatim>\<open>EmbeddingGenerator.process_template\<close>. The body of the \<^verbatim>\<open>try\<close> is
  \<open>eg_process_template_try\<close>; a value that is not a dictionary has no \<^verbatim>\<open>get\<close>.
  The test \<^verbatim>\<open>metadata_path.exists()\<close> stands before the \<^verbatim>\<open>try\<close>: what it raises is
  not caught.
\<close>

definition eg_process_template_try :: "env \<Rightarrow> path \<Rightarrow> world \<Rightarrow> (py_error + dict) \<times> world" where
  "eg_process_template_try e template_path w =
    (case load_json_file e (template_path @ [''metadata.json'']) of
       Inl err \<Rightarrow> (Inl err, w)
     | Inr (JObj metadata) \<Rightarrow>
         (case eg_build_embedding_text (py_str_of e) metadata of
            Inl err \<Rightarrow> (Inl err, w)
          | Inr embedding_text \<Rightarrow>
              (case eg_generate_embedding e embedding_text w of
                 (Inl err, w1) \<Rightarrow> (Inl err, w1)
               | (Inr embedding, w1) \<Rightarrow>
                   (let (now1, w2) = utcnow_z e w1;
                        (now2, w3) = utcnow_z e w2
                    in (Inr (eg_result e template_path metadata embedding_text embedding now1 now2),
                        w3))))
     | Inr _ \<Rightarrow> (Inl AttributeError, w))"

definition eg_process_template ::
  "env \<Rightarrow> path \<Rightarrow> world \<Rightarrow> (py_error + dict option) \<times> world" where
  "eg_process_template e template_path w =
    (case path_exists e (template_path @ [''metadata.json'']) of
       Inl err \<Rightarrow> (Inl err, w)
     | Inr False \<Rightarrow>
         (Inr None, logger WARNING (''No metadata.json found in '' @ path_str template_path) None w)
     | Inr True \<Rightarrow>
         (case eg_process_template_try e template_path w of
            (Inl err, w') \<Rightarrow>
              (Inr None,
               logger ERROR (''Error processing template '' @ path_str template_path @ '': '')
                 (Some err) w')
          | (Inr result, w') \<Rightarrow> (Inr (Some result), w')))"

text \<open>
  \<^verbatim>\<open>process_all_templates\<close>: the inner loop over the entries of one industry directory,
  then the outer loop over the industries. Nothing is caught here: an exception that
  \<^verbatim>\<open>process_template\<close> lets through, or one of \<^verbatim>\<open>is_dir\<close>, \<^verbatim>\<open>exists\<close> or
  \<^verbatim>\<open>iterdir\<close>, ends both loops.
\<close>

fun eg_process_template_dirs ::
  "env \<Rightarrow> path \<Rightarrow> string list \<Rightarrow> dict list \<Rightarrow> world \<Rightarrow> (py_error + dict list) \<times> world" where
  "eg_process_template_dirs e industry_path [] embeddings w = (Inr embeddings, w)"
| "eg_process_template_dirs e industry_path (name # names) embeddings w =
    (case path_is_dir e (industry_path @ [name]) of
       Inl err \<Rightarrow> (Inl err, w)
     | Inr is_dir \<Rightarrow>
         (if \<not> is_dir \<or> take 1 name = ''.''
          then eg_process_template_dirs e industry_path names embeddings w
          else case eg_process_template e (industry_path @ [name]) w of
                 (Inl err, w') \<Rightarrow> (Inl err, w')
               | (Inr None, w') \<Rightarrow> eg_process_template_dirs e industry_path names embeddings w'
               | (Inr (Some result), w') \<Rightarrow>
                   eg_process_template_dirs e industry_path names
                     (if truthy (JObj result) then embeddings @ [result] else embeddings) w'))"

fun eg_process_industries ::
  "env \<Rightarrow> path \<Rightarrow> string list \<Rightarrow> dict list \<Rightarrow> world \<Rightarrow> (py_error + dict list) \<times> world" where
  "eg_process_industries e base_path [] embeddings w = (Inr embeddings, w)"
| "eg_process_industries e base_path (industry # industries) embeddings w =
    (case path_exists e (base_path @ [industry]) of
       Inl err \<Rightarrow> (Inl err, w)
     | Inr False \<Rightarrow> eg_process_industries e base_path industries embeddings w
     | Inr True \<Rightarrow>
         (case path_iterdir e (base_path @ [industry]) of
            Inl err \<Rightarrow> (Inl err, w)
          | Inr names \<Rightarrow>
              (case eg_process_template_dirs e (base_path @ [industry]) names embeddings w of
                 (Inl err, w') \<Rightarrow> (Inl err, w')
               | (Inr embeddings', w') \<Rightarrow>
                   eg_process_industries e base_path industries embeddings' w')))"

definition eg_process_all_templates ::
  "env \<Rightarrow> path \<Rightarrow> world \<Rightarrow> (py_error + dict list) \<times> world" where
  "eg_process_all_templates e base_path w =
     eg_process_industries e base_path VALID_INDUSTRIES [] w"

text \<open>
  \<^verbatim>\<open>EmbeddingGenerator.save_to_s3_vectors\<close>. \<open>eg_vector_doc\<close> is the dictionary
  \<^verbatim>\<open>vector_doc\<close> built in the loop, returned with \<^verbatim>\<open>template_id\<close>; a missing key
  raises.
\<close>

definition eg_vector_doc :: "dict \<Rightarrow> py_error + json \<times> dict" where
  "eg_vector_doc embedding_data =
     bind_err (dict_index embedding_data ''template_id'') (\<lambda>template_id.
     bind_err (dict_index embedding_data ''embedding'') (\<lambda>vector.
     bind_err (dict_pick embedding_data
                 [''name'', ''industry'', ''cta_intent'', ''design_style'', ''sections'',
                  ''keywords'', ''status'', ''s3_path'', ''preview_url'']) (\<lambda>fields.
     Inr (template_id,
          [(''id'', template_id),
           (''vector'', vector),
           (''metadata'', JObj ((''template_id'', template_id) # fields))]))))"

fun eg_save_vectors_loop :: "env \<Rightarrow> dict list \<Rightarrow> world \<Rightarrow> (py_error + unit) \<times> world" where
  "eg_save_vectors_loop e [] w = (Inr (), w)"
| "eg_save_vectors_loop e (embedding_data # rest) w =
    (case eg_vector_doc embedding_data of
       Inl err \<Rightarrow> (Inl err, w)
     | Inr (template_id, vector_doc) \<Rightarrow>
         (case put_object e (vectors_bucket e)
                 (''template-embeddings/'' @ py_str (py_str_of e) template_id @ ''.json'')
                 (JObj vector_doc) w of
            (Inl err, w') \<Rightarrow> (Inl err, w')
          | (Inr _, w') \<Rightarrow> eg_save_vectors_loop e rest w'))"

text \<open>The list comprehension of the index: one summary per embedding.\<close>

fun eg_index_templates :: "dict list \<Rightarrow> py_error + json list" where
  "eg_index_templates [] = Inr []"
| "eg_index_templates (e # embeddings) =
     bind_err (dict_pick e [''template_id'', ''name'', ''industry'']) (\<lambda>entry.
     bind_err (eg_index_templates embeddings) (\<lambda>entries. Inr (JObj entry # entries)))"

definition eg_save_to_s3_vectors :: "env \<Rightarrow> dict list \<Rightarrow> world \<Rightarrow> (py_error + unit) \<times> world" where
  "eg_save_to_s3_vectors e embeddings w =
    (case eg_save_vectors_loop e embeddings w of
       (Inl err, w1) \<Rightarrow> (Inl err, w1)
     | (Inr _, w1) \<Rightarrow>
         (let (generated_at, w2) = utcnow_z e w1
          in case eg_index_templates embeddings of
               Inl err \<Rightarrow> (Inl err, w2)
             | Inr templates \<Rightarrow>
                 put_object e (vectors_bucket e) ''template-embeddings/index.json''
                   (JObj [(''vectors_count'', JInt (int (length embeddings))),
                          (''model'', JStr EMBEDDING_MODEL_ID),
                          (''dimension'', JInt (int EMBEDDING_DIMENSION)),
                          (''generated_at'', JStr generated_at),
                          (''templates'', JArr templates)]) w2))"

text \<open>
  \<^verbatim>\<open>EmbeddingGenerator.save_to_dynamodb\<close>. \<open>eg_item\<close> is the dictionary \<^verbatim>\<open>item\<close>,
  returned with \<^verbatim>\<open>template_id\<close>.
\<close>

definition eg_item :: "(json \<Rightarrow> string) \<Rightarrow> dict \<Rightarrow> py_error + json \<times> dict" where
  "eg_item str_of embedding_data =
     bind_err (dict_index embedding_data ''template_id'') (\<lambda>template_id.
     bind_err (dict_pick embedding_data
                 [''name'', ''industry'', ''cta_intent'', ''design_style'', ''sections'',
                  ''keywords'', ''color_palette'', ''customizable_fields'', ''css_variables'',
                  ''description'', ''figma_source'', ''s3_path'', ''preview_url'']) (\<lambda>fields1.
     bind_err (dict_pick embedding_data
                 [''embedding_model'', ''status'', ''created_at'', ''updated_at'']) (\<lambda>fields2.
     bind_err (dict_index embedding_data ''industry'') (\<lambda>industry.
     bind_err (dict_index embedding_data ''status'') (\<lambda>status.
     Inr (template_id,
          [(''PK'', JStr ''TEMPLATE''),
           (''SK'', JStr (''TEMPLATE#'' @ py_str str_of template_id)),
           (''template_id'', template_id)]
          @ fields1
          @ [(''vector_id'', template_id)]
          @ fields2
          @ [(''GSI1PK'', JStr (''INDUSTRY#'' @ py_str str_of industry)),
             (''GSI1SK'', JStr (''STATUS#'' @ py_str str_of status @ ''#''
                                 @ py_str str_of template_id))]))))))"

fun eg_save_to_dynamodb :: "env \<Rightarrow> dict list \<Rightarrow> world \<Rightarrow> (py_error + unit) \<times> world" where
  "eg_save_to_dynamodb e [] w = (Inr (), w)"
| "eg_save_to_dynamodb e (embedding_data # rest) w =
    (case eg_item (py_str_of e) embedding_data of
       Inl err \<Rightarrow> (Inl err, w)
     | Inr (template_id, item) \<Rightarrow>
         (case put_item e (templates_table e) ''TEMPLATE''
                 (''TEMPLATE#'' @ py_str (py_str_of e) template_id) item w of
            (Inl err, w') \<Rightarrow> (Inl err, w')
          | (Inr _, w') \<Rightarrow> eg_save_to_dynamodb e rest w'))"

text \<open>
  \<^verbatim>\<open>main\<close> of generate_embeddings.py, writing to the remote stores (without
  \<^verbatim>\<open>--local\<close>). \<open>template\<close> is the \<^verbatim>\<open>--template\<close> argument, a path below
  \<open>base_path\<close>. The result is the exit status, or the exception that ended the run.
  \<open>eg_main_save\<close> is the part of \<^verbatim>\<open>main\<close> after the embeddings are known.
\<close>

definition eg_main_save :: "env \<Rightarrow> dict list \<Rightarrow> world \<Rightarrow> (py_error + nat) \<times> world" where
  "eg_main_save e embeddings w =
    (if embeddings = [] then (Inr 0, logger WARNING ''No embeddings generated'' None w)
     else case eg_save_to_s3_vectors e embeddings w of
            (Inl err, w1) \<Rightarrow> (Inl err, w1)
          | (Inr _, w1) \<Rightarrow>
              (case eg_save_to_dynamodb e embeddings w1 of
                 (Inl err, w2) \<Rightarrow> (Inl err, w2)
               | (Inr _, w2) \<Rightarrow> (Inr 0, w2)))"

definition eg_main :: "env \<Rightarrow> path \<Rightarrow> path option \<Rightarrow> world \<Rightarrow> (py_error + nat) \<times> world" where
  "eg_main e base_path template w =
    (case template of
       Some rel \<Rightarrow>
         (case path_exists e (base_path @ rel) of
            Inl err \<Rightarrow> (Inl err, w)
          | Inr False \<Rightarrow>
              (Inr 1, logger ERROR (''Template not found: '' @ path_str (base_path @ rel)) None w)
          | Inr True \<Rightarrow>
              (case eg_process_template e (base_path @ rel) w of
                 (Inl err, w') \<Rightarrow> (Inl err, w')
               | (Inr None, w') \<Rightarrow> eg_main_save e [] w'
               | (Inr (Some result), w') \<Rightarrow>
                   eg_main_save e (if truthy (JObj result) then [result] else []) w'))
     | None \<Rightarrow>
         (case eg_process_all_templates e base_path w of
            (Inl err, w') \<Rightarrow> (Inl err, w')
          | (Inr embeddings, w') \<Rightarrow> eg_main_save e embeddings w'))"

section \<open>process\_existing\_templates.py\<close>

text \<open>
  The constants \<^verbatim>\<open>EMBEDDING_MODEL_ID\<close>, \<^verbatim>\<open>EMBEDDING_DIMENSION\<close> and
  \<^verbatim>\<open>MAX_INPUT_TOKENS\<close> have the values they have in generate_embeddings.py.
\<close>

definition FIGMA_ASSETS_BUCKET :: string where
  "FIGMA_ASSETS_BUCKET = ''site-builder-dev-design-assets-536580886816''"

definition MIGRATED_SITES_BUCKET :: string where
  "MIGRATED_SITES_BUCKET = ''bigbeard-migrated-site-dev''"

text \<open>\<^verbatim>\<open>ExistingTemplateProcessor.generate_embedding\<close>: nothing is caught or checked.\<close>

definition etp_generate_embedding :: "env \<Rightarrow> string \<Rightarrow> py_error + json" where
  "etp_generate_embedding e text =
    (let text = (if length text > MAX_INPUT_TOKENS * 4 then take (MAX_INPUT_TOKENS * 4) text else text)
     in bind_err (invoke_model e text) (\<lambda>response_body.
          py_get response_body ''embedding'' (JArr [])))"

definition fetch_registry :: "env \<Rightarrow> world \<Rightarrow> py_error + json" where
  "fetch_registry e w = get_object e FIGMA_ASSETS_BUCKET ''templates/template-registry.json'' w"

text \<open>
  \<^verbatim>\<open>process_recreated_templates\<close>. \<open>etp_recreated_try\<close> is the body of the
  \<^verbatim>\<open>try\<close> for one registry entry, which is a dictionary once its \<^verbatim>\<open>template_id\<close>
  has been read.
\<close>

definition etp_recreated_try ::
  "env \<Rightarrow> dict \<Rightarrow> json \<Rightarrow> world \<Rightarrow> (py_error + dict) \<times> world" where
  "etp_recreated_try e template template_id w =
    (case bind_err (etp_build_embedding_text (py_str_of e) template) (\<lambda>embedding_text.
          bind_err (etp_generate_embedding e embedding_text) (\<lambda>embedding.
          Inr (embedding_text, embedding))) of
       Inl err \<Rightarrow> (Inl err, w)
     | Inr (embedding_text, embedding) \<Rightarrow>
         (let (now, w1) = utcnow_z e w
          in (Inr [(''template_id'', template_id),
                   (''name'', dict_get template ''name'' (JStr [])),
                   (''source'', JStr ''recreated''),
                   (''industry'', dict_get template ''industry'' (JStr ''general'')),
                   (''cta_intent'', dict_get template ''cta_intent'' (JStr ''contact'')),
                   (''design_style'', dict_get template ''design_style'' (JStr ''modern'')),
                   (''pages_count'', dict_get template ''pages_count'' (JInt 0)),
                   (''primary_color'', dict_get template ''primary_color'' (JStr [])),
                   (''secondary_color'', dict_get template ''secondary_color'' (JStr [])),
                   (''s3_bucket'', JStr FIGMA_ASSETS_BUCKET),
                   (''s3_path'', dict_get template ''s3_key'' (JStr [])),
                   (''preview_url'',
                      JStr (''https://'' @ FIGMA_ASSETS_BUCKET @ ''.s3.'' @ region_name e
                              @ ''.amazonaws.com/''
                              @ py_str (py_str_of e) (dict_get template ''s3_key'' (JStr []))
                              @ ''index.html'')),
                   (''embedding'', embedding),
                   (''embedding_text'', JStr (take 500 embedding_text)),
                   (''status'', JStr ''PUBLISHED''),
                   (''created_at'', JStr now)], w1)))"

fun etp_recreated_loop ::
  "env \<Rightarrow> json list \<Rightarrow> dict list \<Rightarrow> world \<Rightarrow> (py_error + dict list) \<times> world" where
  "etp_recreated_loop e [] embeddings w = (Inr embeddings, w)"
| "etp_recreated_loop e (JObj template # templates) embeddings w =
    (let template_id = dict_get template ''template_id'' JNull
     in case etp_recreated_try e template template_id w of
          (Inl err, w') \<Rightarrow>
            etp_recreated_loop e templates embeddings
              (logger ERROR (''Error processing '' @ py_str (py_str_of e) template_id @ '': '')
                 (Some err) w')
        | (Inr result, w') \<Rightarrow> etp_recreated_loop e templates (embeddings @ [result]) w')"
| "etp_recreated_loop e (_ # templates) embeddings w = (Inl AttributeError, w)"

definition etp_process_recreated_templates ::
  "env \<Rightarrow> json \<Rightarrow> world \<Rightarrow> (py_error + dict list) \<times> world" where
  "etp_process_recreated_templates e registry w =
    (case bind_err (py_get registry ''templates'' (JArr [])) py_iter of
       Inl err \<Rightarrow> (Inl err, w)
     | Inr templates \<Rightarrow> etp_recreated_loop e templates [] w)"

text \<open>
  \<^verbatim>\<open>process_migrated_templates\<close>. \<open>etp_migrated_try\<close> is the body of the \<^verbatim>\<open>try\<close>
  for one site: \<^verbatim>\<open>site_slug.replace\<close> exists only on a string. The fields of
  \<^verbatim>\<open>template_data\<close> that the result reads back are named.
\<close>

definition etp_migrated_try ::
  "env \<Rightarrow> dict \<Rightarrow> json \<Rightarrow> string \<Rightarrow> world \<Rightarrow> (py_error + dict) \<times> world" where
  "etp_migrated_try e site site_slug template_id w =
    (case site_slug of
       JStr slug \<Rightarrow>
         (let industry = dict_get site ''industry'' (JStr ''general'');
              cta_intent = JStr ''contact'';
              design_style = JStr ''wordpress-migrated'';
              pages_count = dict_get site ''pages'' (JInt 0);
              features = dict_get site ''features'' (JArr []);
              name = JStr (str_title e (map (\<lambda>c. if c = CHR ''-'' then CHR '' '' else c) slug)
                             @ '' Migrated Site'');
              template_data =
                [(''industry'', industry),
                 (''cta_intent'', cta_intent),
                 (''design_style'', design_style),
                 (''pages_count'', pages_count),
                 (''features'', features),
                 (''name'', name)]
          in case bind_err (etp_build_embedding_text (py_str_of e) template_data) (\<lambda>embedding_text.
                  bind_err (etp_generate_embedding e embedding_text) (\<lambda>embedding.
                  Inr (embedding_text, embedding))) of
               Inl err \<Rightarrow> (Inl err, w)
             | Inr (embedding_text, embedding) \<Rightarrow>
                 (let (now, w1) = utcnow_z e w
                  in (Inr [(''template_id'', JStr template_id),
                           (''name'', name),
                           (''source'', JStr ''migrated''),
                           (''industry'', industry),
                           (''cta_intent'', cta_intent),
                           (''design_style'', design_style),
                           (''pages_count'', pages_count),
                           (''features'', features),
                           (''s3_bucket'', JStr MIGRATED_SITES_BUCKET),
                           (''s3_path'', JStr (slug @ ''/'')),
                           (''preview_url'',
                              JStr (''https://'' @ MIGRATED_SITES_BUCKET @ ''.s3.'' @ region_name e
                                      @ ''.amazonaws.com/'' @ slug @ ''/index.html'')),
                           (''embedding'', embedding),
                           (''embedding_text'', JStr (take 500 embedding_text)),
                           (''status'', JStr ''PUBLISHED''),
                           (''created_at'', JStr now)], w1)))
     | _ \<Rightarrow> (Inl AttributeError, w))"

fun etp_migrated_loop ::
  "env \<Rightarrow> json list \<Rightarrow> dict list \<Rightarrow> world \<Rightarrow> (py_error + dict list) \<times> world" where
  "etp_migrated_loop e [] embeddings w = (Inr embeddings, w)"
| "etp_migrated_loop e (JObj site # sites) embeddings w =
    (let site_slug = dict_get site ''site_slug'' (dict_get site ''slug'' (JStr []))
     in if \<not> truthy site_slug then etp_migrated_loop e sites embeddings w
        else let template_id = ''migrated-'' @ py_str (py_str_of e) site_slug
             in case etp_migrated_try e site site_slug template_id w of
                  (Inl err, w') \<Rightarrow>
                    etp_migrated_loop e sites embeddings
                      (logger ERROR
                         (''Error processing migrated '' @ py_str (py_str_of e) site_slug @ '': '')
                         (Some err) w')
                | (Inr result, w') \<Rightarrow> etp_migrated_loop e sites (embeddings @ [result]) w')"
| "etp_migrated_loop e (_ # sites) embeddings w = (Inl AttributeError, w)"

definition etp_process_migrated_templates ::
  "env \<Rightarrow> json \<Rightarrow> world \<Rightarrow> (py_error + dict list) \<times> world" where
  "etp_process_migrated_templates e registry w =
    (let (catalog, w1) =
           (case get_object e FIGMA_ASSETS_BUCKET ''templates/migrated-sites-catalog.json'' w of
              Inl err \<Rightarrow>
                (JObj [(''sites'', JArr [])],
                 logger WARNING ''Could not fetch migrated sites catalog: '' (Some err) w)
            | Inr doc \<Rightarrow> (doc, w))
     in case bind_err (py_get registry ''migrated_sites_highlights'' (JArr [])) (\<lambda>highlights.
             bind_err (py_get catalog ''sites'' highlights) py_iter) of
          Inl err \<Rightarrow> (Inl err, w1)
        | Inr sites \<Rightarrow> etp_migrated_loop e sites [] w1)"

text \<open>
  Python's \<^verbatim>\<open>==\<close> on hashable values, as a set uses it: booleans and numbers compare by
  value, anything else only with its own kind. Lists and dictionaries cannot be hashed.
\<close>

fun hashable :: "json \<Rightarrow> bool" where
  "hashable (JArr _) = False"
| "hashable (JObj _) = False"
| "hashable _ = True"

fun num_val :: "json \<Rightarrow> rat option" where
  "num_val (JBool b) = Some (if b then 1 else 0)"
| "num_val (JInt i) = Some (of_int i)"
| "num_val (JFloat q) = Some q"
| "num_val _ = None"

definition py_eq :: "json \<Rightarrow> json \<Rightarrow> bool" where
  "py_eq a b =
     (case (num_val a, num_val b) of
        (Some x, Some y) \<Rightarrow> x = y
      | (None, None) \<Rightarrow> a = b
      | _ \<Rightarrow> False)"

definition py_in_set :: "json \<Rightarrow> json list \<Rightarrow> py_error + bool" where
  "py_in_set x ids = (if hashable x then Inr (list_ex (py_eq x) ids) else Inl TypeError)"

text \<open>
  \<^verbatim>\<open>d.setdefault(k, []).append(entry)\<close>: the attribute \<^verbatim>\<open>append\<close> is looked up
  before the entry is built.
\<close>

definition dict_setdefault :: "dict \<Rightarrow> string \<Rightarrow> json \<Rightarrow> json \<times> dict" where
  "dict_setdefault d k dflt =
     (case map_of d k of Some v \<Rightarrow> (v, d) | None \<Rightarrow> (dflt, d @ [(k, dflt)]))"

definition setdefault_append :: "dict \<Rightarrow> string \<Rightarrow> py_error + json \<Rightarrow> py_error + dict" where
  "setdefault_append d k entry =
     (case dict_setdefault d k (JArr []) of
        (JArr xs, d') \<Rightarrow> bind_err entry (\<lambda>x. Inr (AList.update k (JArr (xs @ [x])) d'))
      | (_, d') \<Rightarrow> Inl AttributeError)"

text \<open>\<^verbatim>\<open>ExistingTemplateProcessor.save_to_s3_vectors\<close> and \<^verbatim>\<open>_update_vectors_index\<close>.\<close>

definition etp_vector_doc :: "dict \<Rightarrow> py_error + json \<times> dict" where
  "etp_vector_doc embedding_data =
     bind_err (dict_index embedding_data ''template_id'') (\<lambda>template_id.
     bind_err (dict_index embedding_data ''embedding'') (\<lambda>vector.
     bind_err (dict_index embedding_data ''name'') (\<lambda>name.
     bind_err (dict_pick embedding_data [''industry'', ''cta_intent'', ''design_style'']) (\<lambda>fields.
     bind_err (dict_index embedding_data ''status'') (\<lambda>status.
     Inr (template_id,
          [(''id'', template_id),
           (''vector'', vector),
           (''metadata'',
              JObj ([(''template_id'', template_id),
                     (''name'', name),
                     (''source'', dict_get embedding_data ''source'' (JStr ''unknown''))]
                    @ fields
                    @ [(''pages_count'', dict_get embedding_data ''pages_count'' (JInt 0)),
                       (''s3_bucket'', dict_get embedding_data ''s3_bucket'' (JStr [])),
                       (''s3_path'', dict_get embedding_data ''s3_path'' (JStr [])),
                       (''preview_url'', dict_get embedding_data ''preview_url'' (JStr [])),
                       (''status'', status)]))]))))))"

fun etp_save_vectors_loop :: "env \<Rightarrow> dict list \<Rightarrow> world \<Rightarrow> (py_error + unit) \<times> world" where
  "etp_save_vectors_loop e [] w = (Inr (), w)"
| "etp_save_vectors_loop e (embedding_data # rest) w =
    (case etp_vector_doc embedding_data of
       Inl err \<Rightarrow> (Inl err, w)
     | Inr (template_id, vector_doc) \<Rightarrow>
         (case put_object e (vectors_bucket e)
                 (''template-embeddings/'' @ py_str (py_str_of e) template_id @ ''.json'')
                 (JObj vector_doc) w of
            (Inl err, w') \<Rightarrow> (Inl err, w')
          | (Inr _, w') \<Rightarrow> etp_save_vectors_loop e rest w'))"

text \<open>The set comprehension \<^verbatim>\<open>existing_ids\<close>, as the list of its members.\<close>

fun etp_existing_ids :: "json list \<Rightarrow> py_error + json list" where
  "etp_existing_ids [] = Inr []"
| "etp_existing_ids (t # ts) =
     bind_err (py_getitem t ''template_id'') (\<lambda>template_id.
       if hashable template_id
       then bind_err (etp_existing_ids ts) (\<lambda>ids. Inr (template_id # ids))
       else Inl TypeError)"

text \<open>The merge loop over \<^verbatim>\<open>new_embeddings\<close>; \<open>existing_ids\<close> is not updated by it.\<close>

fun etp_merge_templates :: "json list \<Rightarrow> dict list \<Rightarrow> dict \<Rightarrow> py_error + dict" where
  "etp_merge_templates existing_ids [] existing_index = Inr existing_index"
| "etp_merge_templates existing_ids (emb # new_embeddings) existing_index =
     bind_err (dict_index emb ''template_id'') (\<lambda>template_id.
     bind_err (py_in_set template_id existing_ids) (\<lambda>present.
       if \<not> present
       then bind_err
              (setdefault_append existing_index ''templates''
                 (bind_err (dict_pick emb [''template_id'', ''name'', ''industry'']) (\<lambda>fields.
                    Inr (JObj (fields @ [(''source'', dict_get emb ''source'' (JStr ''unknown''))])))))
              (etp_merge_templates existing_ids new_embeddings)
       else etp_merge_templates existing_ids new_embeddings existing_index))"

definition etp_update_vectors_index ::
  "env \<Rightarrow> dict list \<Rightarrow> world \<Rightarrow> (py_error + unit) \<times> world" where
  "etp_update_vectors_index e new_embeddings w =
    (let index_key = ''template-embeddings/index.json'';
         existing_index =
           (case get_object e (vectors_bucket e) index_key w of
              Inl err \<Rightarrow> JObj [(''templates'', JArr [])]
            | Inr doc \<Rightarrow> doc)
     in case (case existing_index of
                JObj d \<Rightarrow>
                  bind_err (py_iter (dict_get d ''templates'' (JArr []))) (\<lambda>ts.
                  bind_err (etp_existing_ids ts) (\<lambda>existing_ids.
                  etp_merge_templates existing_ids new_embeddings d))
              | _ \<Rightarrow> Inl AttributeError) of
          Inl err \<Rightarrow> (Inl err, w)
        | Inr merged \<Rightarrow>
            (case py_len (dict_get merged ''templates'' (JArr [])) of
               Inl err \<Rightarrow> (Inl err, w)
             | Inr n \<Rightarrow>
                 (let existing_index = AList.update ''vectors_count'' (JInt (int n)) merged;
                      existing_index = AList.update ''model'' (JStr EMBEDDING_MODEL_ID) existing_index;
                      existing_index =
                        AList.update ''dimension'' (JInt (int EMBEDDING_DIMENSION)) existing_index;
                      (now, w1) = utcnow_z e w;
                      existing_index = AList.update ''updated_at'' (JStr now) existing_index
                  in case put_object e (vectors_bucket e) index_key (JObj existing_index) w1 of
                       (Inl err, w2) \<Rightarrow> (Inl err, w2)
                     | (Inr _, w2) \<Rightarrow>
                         (case bind_err (dict_index existing_index ''templates'') py_len of
                            Inl err \<Rightarrow> (Inl err, w2)
                          | Inr _ \<Rightarrow> (Inr (), w2)))))"

definition etp_save_to_s3_vectors ::
  "env \<Rightarrow> dict list \<Rightarrow> world \<Rightarrow> (py_error + unit) \<times> world" where
  "etp_save_to_s3_vectors e embeddings w =
    (case etp_save_vectors_loop e embeddings w of
       (Inl err, w1) \<Rightarrow> (Inl err, w1)
     | (Inr _, w1) \<Rightarrow> etp_update_vectors_index e embeddings w1)"

text \<open>
  \<^verbatim>\<open>ExistingTemplateProcessor.save_to_dynamodb\<close>; \<open>etp_item\<close> is the dictionary
  \<^verbatim>\<open>item\<close>, returned with \<^verbatim>\<open>template_id\<close>. The clock is read for
  \<^verbatim>\<open>updated_at\<close> after the entries before it have been evaluated.
\<close>

definition etp_item :: "env \<Rightarrow> dict \<Rightarrow> world \<Rightarrow> (py_error + json \<times> dict) \<times> world" where
  "etp_item e embedding_data w =
    (case bind_err (dict_index embedding_data ''template_id'') (\<lambda>template_id.
          bind_err (dict_index embedding_data ''name'') (\<lambda>name.
          bind_err (dict_pick embedding_data [''industry'', ''cta_intent'', ''design_style'']) (\<lambda>fields1.
          bind_err (dict_pick embedding_data [''status'', ''created_at'']) (\<lambda>fields2.
          Inr (template_id, name, fields1, fields2))))) of
       Inl err \<Rightarrow> (Inl err, w)
     | Inr (template_id, name, fields1, fields2) \<Rightarrow>
         (let (now, w1) = utcnow_z e w
          in (bind_err (dict_index embedding_data ''industry'') (\<lambda>industry.
              bind_err (dict_index embedding_data ''status'') (\<lambda>status.
              Inr (template_id,
                   [(''PK'', JStr ''TEMPLATE''),
                    (''SK'', JStr (''TEMPLATE#'' @ py_str (py_str_of e) template_id)),
                    (''template_id'', template_id),
                    (''name'', name),
                    (''source'', dict_get embedding_data ''source'' (JStr ''unknown''))]
                   @ fields1
                   @ [(''pages_count'', dict_get embedding_data ''pages_count'' (JInt 0)),
                      (''features'', dict_get embedding_data ''features'' (JArr [])),
                      (''primary_color'', dict_get embedding_data ''primary_color'' (JStr [])),
                      (''secondary_color'', dict_get embedding_data ''secondary_color'' (JStr [])),
                      (''s3_bucket'', dict_get embedding_data ''s3_bucket'' (JStr [])),
                      (''s3_path'', dict_get embedding_data ''s3_path'' (JStr [])),
                      (''preview_url'', dict_get embedding_data ''preview_url'' (JStr [])),
                      (''vector_id'', template_id),
                      (''embedding_model'', JStr EMBEDDING_MODEL_ID)]
                   @ fields2
                   @ [(''updated_at'', JStr now),
                      (''GSI1PK'', JStr (''INDUSTRY#'' @ py_str (py_str_of e) industry)),
                      (''GSI1SK'', JStr (''STATUS#'' @ py_str (py_str_of e) status @ ''#''
                                          @ py_str (py_str_of e) template_id))]))), w1)))"

fun etp_save_to_dynamodb :: "env \<Rightarrow> dict list \<Rightarrow> world \<Rightarrow> (py_error + unit) \<times> world" where
  "etp_save_to_dynamodb e [] w = (Inr (), w)"
| "etp_save_to_dynamodb e (embedding_data # rest) w =
    (case etp_item e embedding_data w of
       (Inl err, w1) \<Rightarrow> (Inl err, w1)
     | (Inr (template_id, item), w1) \<Rightarrow>
         (case put_item e (templates_table e) ''TEMPLATE''
                 (''TEMPLATE#'' @ py_str (py_str_of e) template_id) item w1 of
            (Inl err, w') \<Rightarrow> (Inl err, w')
          | (Inr _, w') \<Rightarrow> etp_save_to_dynamodb e rest w'))"

text \<open>
  \<^verbatim>\<open>main\<close> of process_existing_templates.py with its two flags. The registry is read
  with \<^verbatim>\<open>registry.get\<close> before anything is processed.
\<close>

definition etp_main :: "env \<Rightarrow> bool \<Rightarrow> bool \<Rightarrow> world \<Rightarrow> (py_error + unit) \<times> world" where
  "etp_main e recreated_only migrated_only w =
    (case bind_err (fetch_registry e w) (\<lambda>registry.
          bind_err (py_get registry ''total_templates'' (JInt 0)) (\<lambda>_. Inr registry)) of
       Inl err \<Rightarrow> (Inl err, w)
     | Inr registry \<Rightarrow>
         (case (if \<not> migrated_only then etp_process_recreated_templates e registry w
                else (Inr [], w)) of
            (Inl err, w1) \<Rightarrow> (Inl err, w1)
          | (Inr recreated, w1) \<Rightarrow>
              (case (if \<not> recreated_only then etp_process_migrated_templates e registry w1
                     else (Inr [], w1)) of
                 (Inl err, w2) \<Rightarrow> (Inl err, w2)
               | (Inr migrated, w2) \<Rightarrow>
                   (let embeddings = recreated @ migrated
                    in if embeddings = []
                       then (Inr (), logger WARNING ''No embeddings generated'' None w2)
                       else case etp_save_to_s3_vectors e embeddings w2 of
                              (Inl err, w3) \<Rightarrow> (Inl err, w3)
                            | (Inr _, w3) \<Rightarrow> etp_save_to_dynamodb e embeddings w3))))"

section \<open>validate\_template.py\<close>

definition validator_VALID_INDUSTRIES :: "string list" where
  "validator_VALID_INDUSTRIES =
     [''restaurant'', ''healthcare'', ''technology'', ''ecommerce'', ''real_estate'',
      ''professional_services'', ''creative_agency'', ''education'', ''nonprofit'',
      ''fitness'', ''hospitality'', ''finance'', ''retail'', ''automotive'', ''beauty_spa'',
      ''manufacturing'', ''energy'', ''marketing'', ''other'']"

definition VALID_CTA_INTENTS :: "string list" where
  "VALID_CTA_INTENTS =
     [''contact'', ''purchase'', ''booking'', ''signup'', ''lead_generation'', ''download'',
      ''learn_more'']"

definition VALID_DESIGN_STYLES :: "string list" where
  "VALID_DESIGN_STYLES =
     [''modern'', ''classic'', ''minimal'', ''bold'', ''elegant'', ''playful'', ''corporate'',
      ''warm'', ''modern-industrial'', ''dark'']"

text \<open>The class \<^verbatim>\<open>ValidationError\<close>: a report, not an exception. Its attribute \<^verbatim>\<open>file\<close> is \<open>file_name\<close>.\<close>

record ValidationError =
  file_name :: string
  message :: string
  severity :: string

text \<open>\<^verbatim>\<open>v in xs\<close> for a list \<open>xs\<close> of strings: only a string can be equal to one.\<close>

definition in_str_list :: "json \<Rightarrow> string list \<Rightarrow> bool" where
  "in_str_list v xs = (case v of JStr s \<Rightarrow> s \<in> set xs | _ \<Rightarrow> False)"

text \<open>
  \<^verbatim>\<open>validate_metadata\<close>, given what reading and parsing the file produced: the message
  of the \<^verbatim>\<open>JSONDecodeError\<close>, or the parsed content. On content that is not a
  dictionary the membership test or \<^verbatim>\<open>content.get\<close> raises.
\<close>

definition validate_metadata ::
  "(json \<Rightarrow> string) \<Rightarrow> string + json \<Rightarrow> py_error + ValidationError list" where
  "validate_metadata str_of parsed =
    (case parsed of
       Inl msg \<Rightarrow>
         Inr [\<lparr>file_name = ''metadata.json'', message = ''Invalid JSON: '' @ msg, severity = ''error''\<rparr>]
     | Inr (JObj content) \<Rightarrow>
         (let errors = [];
              required_fields = [''template_id'', ''name'', ''industry'', ''cta_intent'', ''design_style''];
              errors = errors @
                map (\<lambda>field. \<lparr>file_name = ''metadata.json'',
                               message = ''Missing required field: '' @ field,
                               severity = ''error''\<rparr>)
                  (filter (\<lambda>field. map_of content field = None) required_fields);
              industry = dict_get content ''industry'' (JStr []);
              errors = (if truthy industry \<and> \<not> in_str_list industry validator_VALID_INDUSTRIES
                        then errors @ [\<lparr>file_name = ''metadata.json'',
                                         message = ''Invalid industry: '' @ py_str str_of industry,
                                         severity = ''error''\<rparr>]
                        else errors);
              cta_intent = dict_get content ''cta_intent'' (JStr []);
              errors = (if truthy cta_intent \<and> \<not> in_str_list cta_intent VALID_CTA_INTENTS
                        then errors @ [\<lparr>file_name = ''metadata.json'',
                                         message = ''Invalid cta_intent: '' @ py_str str_of cta_intent,
                                         severity = ''error''\<rparr>]
                        else errors);
              design_style = dict_get content ''design_style'' (JStr []);
              errors = (if truthy design_style \<and> \<not> in_str_list design_style VALID_DESIGN_STYLES
                        then errors @ [\<lparr>file_name = ''metadata.json'',
                                         message = ''Invalid design_style: '' @ py_str str_of design_style,
                                         severity = ''error''\<rparr>]
                        else errors);
              errors = (if \<not> truthy (dict_get content ''description'' JNull)
                        then errors @ [\<lparr>file_name = ''metadata.json'',
                                         message = ''Missing description field (important for RAG matching)'',
                                         severity = ''warning''\<rparr>]
                        else errors);
              errors = (if \<not> truthy (dict_get content ''keywords'' JNull)
                        then errors @ [\<lparr>file_name = ''metadata.json'',
                                         message = ''Consider adding keywords for better search matching'',
                                         severity = ''warning''\<rparr>]
                        else errors)
          in Inr errors)
     | Inr (JArr _) \<Rightarrow> Inl AttributeError
     | Inr (JStr _) \<Rightarrow> Inl AttributeError
     | Inr _ \<Rightarrow> Inl TypeError)"

section \<open>Concrete inputs\<close>

text \<open>The record of the end-to-end example, and the same record with its keys in another order.\<close>

definition t1 :: dict where
  "t1 = [(''template_id'', JStr ''t1''),
         (''industry'', JStr ''finance''),
         (''cta_intent'', JStr ''contact''),
         (''design_style'', JStr ''modern''),
         (''sections'', JArr [JStr ''hero'', JStr ''about'', JStr ''contact''])]"

definition t1_reordered :: dict where
  "t1_reordered = [(''sections'', JArr [JStr ''hero'', JStr ''about'', JStr ''contact'']),
                   (''design_style'', JStr ''modern''),
                   (''cta_intent'', JStr ''contact''),
                   (''industry'', JStr ''finance''),
                   (''template_id'', JStr ''t1'')]"

text \<open>A vector of the full dimension.\<close>

definition zero_vector :: json where
  "zero_vector = JArr (replicate EMBEDDING_DIMENSION (JFloat 0))"

text \<open>
  An environment in which nothing fails: every template directory holds the record \<open>t1\<close>,
  the model answers with \<open>zero_vector\<close>, and the clock shows its reading number as a
  string of that many strokes.
\<close>

definition demo_env :: env where
  "demo_env =
     \<lparr>region_name = ''eu-west-1'',
      environment = ''dev'',
      py_str_of = (\<lambda>v. ''?''),
      str_title = (\<lambda>s. s),
      clock = (\<lambda>n. replicate n CHR ''|''),
      path_exists = (\<lambda>p. Inr True),
      path_is_dir = (\<lambda>p. Inr True),
      path_iterdir = (\<lambda>p. Inr []),
      load_json_file = (\<lambda>p. Inr (JObj t1)),
      invoke_model = (\<lambda>text. Inr (JObj [(''embedding'', zero_vector)])),
      get_object_error = (\<lambda>k. None),
      put_object_error = (\<lambda>k. None),
      put_item_error = (\<lambda>k. None)\<rparr>"

definition world0 :: world where
  "world0 = \<lparr>s3 = Map.empty, dynamodb = Map.empty, logged = [], tick = 0\<rparr>"

text \<open>An embedding record with the keys both writers read, for the template \<open>tid\<close>.\<close>

definition demo_embedding :: "string \<Rightarrow> dict" where
  "demo_embedding tid =
     [(''template_id'', JStr tid),
      (''name'', JStr (''Template '' @ tid)),
      (''source'', JStr ''recreated''),
      (''industry'', JStr ''finance''),
      (''cta_intent'', JStr ''contact''),
      (''design_style'', JStr ''modern''),
      (''sections'', JArr []),
      (''keywords'', JArr []),
      (''color_palette'', JObj []),
      (''customizable_fields'', JArr []),
      (''css_variables'', JArr []),
      (''description'', JStr []),
      (''figma_source'', JStr []),
      (''s3_path'', JStr (''website-templates/finance/'' @ tid @ ''/'')),
      (''preview_url'', JStr []),
      (''embedding'', zero_vector),
      (''embedding_model'', JStr EMBEDDING_MODEL_ID),
      (''status'', JStr ''PUBLISHED''),
      (''created_at'', JStr ''Z''),
      (''updated_at'', JStr ''Z'')]"

text \<open>The \<^verbatim>\<open>template_id\<close>s listed by the index document of the vectors bucket.\<close>

definition index_template_ids :: "env \<Rightarrow> world \<Rightarrow> json list" where
  "index_template_ids e w =
     (case s3 w (vectors_bucket e, ''template-embeddings/index.json'') of
        Some (JObj index) \<Rightarrow>
          (case map_of index ''templates'' of
             Some (JArr ts) \<Rightarrow> map (\<lambda>t. case t of JObj d \<Rightarrow> dict_get d ''template_id'' JNull | _ \<Rightarrow> JNull) ts
           | _ \<Rightarrow> [])
      | _ \<Rightarrow> [])"

text \<open>The text that \<^verbatim>\<open>build_embedding_text\<close> of generate_embeddings.py produces for \<open>t1\<close>.\<close>

definition t1_text :: string where
  "t1_text =
     ''Industry: finance CTA Intent: contact Design Style: modern Sections: hero, about, contact ''
     @ nl_indent @ ''This is a modern website template for the finance industry,''
     @ nl_indent @ ''optimized for contact conversions with sections including hero, about, contact.''
     @ nl_indent"

text \<open>
  Environments in which the model fails, answers without a vector, answers with a vector
  of two components, answers with a list, or answers with \<^verbatim>\<open>null\<close> for the vector.
\<close>

definition short_vector_env :: env where
  "short_vector_env =
     demo_env\<lparr>invoke_model := (\<lambda>text. Inr (JObj [(''embedding'', JArr [JFloat 1, JFloat 0])]))\<rparr>"

definition failing_model_env :: env where
  "failing_model_env = demo_env\<lparr>invoke_model := (\<lambda>text. Inl (ClientError ''ThrottlingException''))\<rparr>"

definition empty_response_env :: env where
  "empty_response_env = demo_env\<lparr>invoke_model := (\<lambda>text. Inr (JObj []))\<rparr>"

definition list_response_env :: env where
  "list_response_env = demo_env\<lparr>invoke_model := (\<lambda>text. Inr (JArr []))\<rparr>"

definition null_embedding_env :: env where
  "null_embedding_env = demo_env\<lparr>invoke_model := (\<lambda>text. Inr (JObj [(''embedding'', JNull)]))\<rparr>"

text \<open>A metadata record with an industry outside every list of valid industries.\<close>

definition spaceflight_metadata :: dict where
  "spaceflight_metadata =
     [(''template_id'', JStr ''rocket''),
      (''name'', JStr ''Rocket''),
      (''industry'', JStr ''spaceflight''),
      (''cta_intent'', JStr ''contact''),
      (''design_style'', JStr ''modern'')]"

definition spaceflight_env :: env where
  "spaceflight_env = demo_env\<lparr>load_json_file := (\<lambda>p. Inr (JObj spaceflight_metadata))\<rparr>"

text \<open>Entries of a sites catalog: one with an empty \<^verbatim>\<open>site_slug\<close>, one with a slug.\<close>

definition site_empty_slug :: dict where
  "site_empty_slug = [(''site_slug'', JStr []), (''slug'', JStr ''abc''), (''industry'', JStr ''retail'')]"

definition site_abc :: dict where
  "site_abc = [(''slug'', JStr ''abc''), (''cta_intent'', JStr ''purchase''),
               (''design_style'', JStr ''bold'')]"

text \<open>
  A world whose design-assets bucket holds a registry with one recreated template and a
  catalog with the site \<open>site_abc\<close>.
\<close>

definition demo_registry :: json where
  "demo_registry =
     JObj [(''total_templates'', JInt 1),
           (''templates'',
              JArr [JObj [(''template_id'', JStr ''r1''),
                          (''name'', JStr ''Recreated one''),
                          (''industry'', JStr ''retail'')]])]"

definition demo_catalog :: json where
  "demo_catalog = JObj [(''sites'', JArr [JObj site_abc])]"

definition registry_world :: world where
  "registry_world =
     \<lparr>s3 = [(FIGMA_ASSETS_BUCKET, ''templates/template-registry.json'') \<mapsto> demo_registry,
            (FIGMA_ASSETS_BUCKET, ''templates/migrated-sites-catalog.json'') \<mapsto> demo_catalog],
      dynamodb = Map.empty,
      logged = [],
      tick = 0\<rparr>"

text \<open>
  Environments in which one store write fails: the vector of template A, or its item. Then
  the environments in which the template directory \<^verbatim>\<open>finance/b\<close> is the one that
  fails: its metadata does not parse, is missing, is a list, or has a number for its
  sections; the file system raises when the metadata file, or the directory, is looked at.
\<close>

definition put_failing_env :: env where
  "put_failing_env =
     demo_env\<lparr>put_object_error :=
       (\<lambda>k. if k = (''bbws-dev-vectors'', ''template-embeddings/A.json'')
            then Some (ClientError ''AccessDenied'') else None)\<rparr>"

definition item_failing_env :: env where
  "item_failing_env =
     demo_env\<lparr>put_item_error :=
       (\<lambda>k. if k = (''rag-templates-dev'', ''TEMPLATE'', ''TEMPLATE#A'')
            then Some (ClientError ''ProvisionedThroughputExceededException'') else None)\<rparr>"

definition bad_metadata_env :: env where
  "bad_metadata_env =
     demo_env\<lparr>load_json_file :=
       (\<lambda>p. if p = [''repo'', ''finance'', ''b'', ''metadata.json'']
            then Inl JSONDecodeError else Inr (JObj t1))\<rparr>"

text \<open>
  The environment in which nothing fails, with a clock that stands still; and the one in
  which the metadata of every template carries a \<^verbatim>\<open>created_at\<close>.
\<close>

definition frozen_env :: env where
  "frozen_env = demo_env\<lparr>clock := (\<lambda>n. ''2026-01-01T00:00:00'')\<rparr>"

definition t1_dated :: dict where
  "t1_dated = t1 @ [(''created_at'', JStr ''2020-02-02T00:00:00Z'')]"

definition dated_env :: env where
  "dated_env = demo_env\<lparr>load_json_file := (\<lambda>p. Inr (JObj t1_dated))\<rparr>"

definition missing_metadata_env :: env where
  "missing_metadata_env =
     demo_env\<lparr>path_exists :=
       (\<lambda>p. if p = [''repo'', ''finance'', ''b'', ''metadata.json''] then Inr False else Inr True)\<rparr>"

definition list_metadata_env :: env where
  "list_metadata_env =
     demo_env\<lparr>load_json_file :=
       (\<lambda>p. if p = [''repo'', ''finance'', ''b'', ''metadata.json'']
            then Inr (JArr []) else Inr (JObj t1))\<rparr>"

definition bad_sections_metadata :: dict where
  "bad_sections_metadata = [(''template_id'', JStr ''b''), (''sections'', JInt 5)]"

definition bad_sections_env :: env where
  "bad_sections_env =
     demo_env\<lparr>load_json_file :=
       (\<lambda>p. if p = [''repo'', ''finance'', ''b'', ''metadata.json'']
            then Inr (JObj bad_sections_metadata) else Inr (JObj t1))\<rparr>"

definition unreadable_file_env :: env where
  "unreadable_file_env =
     demo_env\<lparr>path_exists :=
       (\<lambda>p. if p = [''repo'', ''finance'', ''b'', ''metadata.json''] then Inl FileError else Inr True)\<rparr>"

definition unreadable_dir_env :: env where
  "unreadable_dir_env =
     demo_env\<lparr>path_is_dir :=
       (\<lambda>p. if p = [''repo'', ''finance'', ''b''] then Inl FileError else Inr True)\<rparr>"

text \<open>
  A tree with the one template directory \<^verbatim>\<open>finance/b\<close>, on which \<^verbatim>\<open>is_dir\<close> raises.
\<close>

definition unreadable_tree_env :: env where
  "unreadable_tree_env =
     demo_env\<lparr>path_iterdir := (\<lambda>p. if p = [''repo'', ''finance''] then Inr [''b''] else Inr []),
              path_is_dir :=
                (\<lambda>p. if p = [''repo'', ''finance'', ''b''] then Inl FileError else Inr True)\<rparr>"

section \<open>Properties of stored documents\<close>

text \<open>
  An index document counts its templates: \<^verbatim>\<open>vectors_count\<close> is the length of the value
  under \<^verbatim>\<open>templates\<close> (of the empty list, when the key is missing).
\<close>

definition index_count_ok :: "json \<Rightarrow> bool" where
  "index_count_ok doc =
     (case doc of
        JObj index \<Rightarrow>
          (case py_len (dict_get index ''templates'' (JArr [])) of
             Inr n \<Rightarrow> map_of index ''vectors_count'' = Some (JInt (int n))
           | Inl _ \<Rightarrow> False)
      | _ \<Rightarrow> False)"

text \<open>A field of an optional record, and a field of the item stored under a key.\<close>

definition field_of :: "string \<Rightarrow> dict option \<Rightarrow> json option" where
  "field_of k r = (case r of None \<Rightarrow> None | Some d \<Rightarrow> map_of d k)"

definition item_field :: "world \<Rightarrow> string \<times> string \<times> string \<Rightarrow> string \<Rightarrow> json option" where
  "item_field w key k = field_of k (dynamodb w key)"

text \<open>
  A record is published when its \<^verbatim>\<open>status\<close> is \<^verbatim>\<open>PUBLISHED\<close>. Between two worlds,
  the item under a key is kept, or it is a published one.
\<close>

definition published :: "dict \<Rightarrow> bool" where
  "published r = (map_of r ''status'' = Some (JStr ''PUBLISHED''))"

definition published_or_kept :: "world \<Rightarrow> world \<Rightarrow> string \<times> string \<times> string \<Rightarrow> bool" where
  "published_or_kept w w' k =
     (dynamodb w' k = dynamodb w k
      \<or> (case dynamodb w' k of Some item \<Rightarrow> published item | None \<Rightarrow> False))"

text \<open>
  The fields that take a reading of the clock. Two records, or two documents, are compared
  up to a list of fields by blanking the values of these fields: the keys, their order and
  all other values are kept.
\<close>

definition time_fields :: "string list" where
  "time_fields = [''created_at'', ''updated_at'', ''generated_at'']"

definition blank_fields :: "string list \<Rightarrow> dict \<Rightarrow> dict" where
  "blank_fields ks d = map (\<lambda>(k, v). (k, if k \<in> set ks then JNull else v)) d"

definition blank_doc :: "string list \<Rightarrow> json \<Rightarrow> json" where
  "blank_doc ks doc = (case doc of JObj d \<Rightarrow> JObj (blank_fields ks d) | _ \<Rightarrow> doc)"

definition untimed_item :: "dict \<Rightarrow> dict" where
  "untimed_item = blank_fields time_fields"

definition untimed_doc :: "json \<Rightarrow> json" where
  "untimed_doc = blank_doc time_fields"

text \<open>
  Two stores \<open>m\<close> and \<open>m'\<close> become \<open>m1\<close> and \<open>m1'\<close> by the same writes up to \<open>f\<close>:
  each is overridden by a set of entries, under the same keys, with values that \<open>f\<close> maps
  to the same value.
\<close>

definition same_writes ::
  "('v \<Rightarrow> 'v) \<Rightarrow> ('k \<rightharpoonup> 'v) \<Rightarrow> ('k \<rightharpoonup> 'v) \<Rightarrow> ('k \<rightharpoonup> 'v) \<Rightarrow> ('k \<rightharpoonup> 'v) \<Rightarrow> bool" where
  "same_writes f m m1 m' m1' \<longleftrightarrow>
     (\<exists>M M'. m1 = m ++ M \<and> m1' = m' ++ M' \<and> map_option f \<circ> M = map_option f \<circ> M')"

section \<open>Basic facts\<close>

lemma dict_get_cong_map: "map_of m1 = map_of m2 \<Longrightarrow> dict_get m1 = dict_get m2"
  by (simp add: dict_get_def fun_eq_iff)

lemma bind_err_Inr_iff: "bind_err m f = Inr y \<longleftrightarrow> (\<exists>x. m = Inr x \<and> f x = Inr y)"
  by (cases m) (simp_all add: bind_err_def)

lemma bind_err_simps [simp]: "bind_err (Inl e) f = Inl e" "bind_err (Inr x) f = f x"
  by (simp_all add: bind_err_def)

lemma put_object_s3:
  "s3 (snd (put_object e b k doc w)) =
     (if put_object_error e (b, k) = None then (s3 w)((b, k) \<mapsto> doc) else s3 w)"
  by (simp add: put_object_def split: option.splits)

lemma put_object_fst:
  "fst (put_object e b k doc w) = Inr () \<longleftrightarrow> put_object_error e (b, k) = None"
  by (simp add: put_object_def split: option.splits)

section \<open>The embedding text\<close>

lemma eg_build_embedding_text_t1: "eg_build_embedding_text str_of t1 = Inr t1_text"
  by (simp add: eg_build_embedding_text_def t1_def t1_text_def dict_get_def py_str_def
      py_join_def py_iter_def py_slice_to_def py_get_def bind_err_def)

text \<open>
  C4, as amended. For the record \<open>t1\<close> of the end-to-end example,
  \<^verbatim>\<open>build_embedding_text\<close> returns a string that contains \<^verbatim>\<open>Industry: finance\<close> and the
  summary the code synthesizes: ``This is a modern website template for the finance
  industry,'', a line break and eight spaces, then ``optimized for contact conversions with
  sections including hero, about, contact.''
\<close>

theorem build_embedding_text_example:
  "\<exists>out. eg_build_embedding_text str_of t1 = Inr out
     \<and> sublist ''Industry: finance'' out
     \<and> sublist (''This is a modern website template for the finance industry,'' @ nl_indent
          @ ''optimized for contact conversions with sections including hero, about, contact.'')
         out"
  unfolding eg_build_embedding_text_t1
  by (simp add: t1_text_def nl_indent_def sublist_Cons_right)

text \<open>C4, witness: the example at the rendering function of \<open>demo_env\<close>.\<close>

theorem build_embedding_text_example_witness:
  "\<exists>out. eg_build_embedding_text (py_str_of demo_env) t1 = Inr out
     \<and> sublist ''Industry: finance'' out
     \<and> sublist (''This is a modern website template for the finance industry,'' @ nl_indent
          @ ''optimized for contact conversions with sections including hero, about, contact.'')
         out"
  by (rule build_embedding_text_example)

text \<open>
  C4, counterexample: the output for \<open>t1\<close> is \<open>t1_text\<close>, and the sentence of the claim,
  without the word ``website'' and on one line, does not occur in it.
\<close>

theorem build_embedding_text_example_counterexample:
  "eg_build_embedding_text (py_str_of demo_env) t1 = Inr t1_text
   \<and> \<not> sublist ''This is a modern template for the finance industry, optimized for contact conversions with sections including hero, about, contact.'' t1_text"
  unfolding eg_build_embedding_text_t1
  by (simp add: t1_text_def nl_indent_def sublist_Cons_right)

text \<open>
  C8. \<^verbatim>\<open>build_embedding_text\<close> is deterministic. Neither builder reads the clock, the
  stores or any other state, so its model has the record as its only input (with the
  runtime's \<^verbatim>\<open>str\<close>); and of the record it reads only the value stored under each key:
  two records that hold the same values under the same keys, in whatever order they were
  built, give the same string, character by character.
\<close>

theorem build_embedding_text_deterministic:
  assumes "map_of m1 = map_of m2"
  shows "eg_build_embedding_text str_of m1 = eg_build_embedding_text str_of m2
       \<and> etp_build_embedding_text str_of m1 = etp_build_embedding_text str_of m2"
proof -
  have h: "dict_get m1 = dict_get m2"
    using assms by (rule dict_get_cong_map)
  show ?thesis
    unfolding eg_build_embedding_text_def etp_build_embedding_text_def h by (rule conjI; rule refl)
qed

text \<open>C8, witness: the record \<open>t1\<close> and the same record with its keys in reverse order.\<close>

theorem build_embedding_text_deterministic_witness:
  "map_of t1 = map_of t1_reordered
   \<and> eg_build_embedding_text (py_str_of demo_env) t1
       = eg_build_embedding_text (py_str_of demo_env) t1_reordered
   \<and> etp_build_embedding_text (py_str_of demo_env) t1
       = etp_build_embedding_text (py_str_of demo_env) t1_reordered"
proof -
  have h: "map_of t1 = map_of t1_reordered"
    by (simp add: t1_def t1_reordered_def fun_eq_iff)
  show ?thesis
    using h build_embedding_text_deterministic [OF h, of "py_str_of demo_env"] by simp
qed

section \<open>The index document\<close>

text \<open>The definitions a concrete run of the two index writers unfolds.\<close>

lemmas save_vectors_eval =
  demo_env_def world0_def demo_embedding_def index_template_ids_def
  eg_save_to_s3_vectors_def etp_save_to_s3_vectors_def eg_vector_doc_def etp_vector_doc_def
  put_object_def get_object_def utcnow_z_def vectors_bucket_def dict_index_def dict_get_def
  py_str_def etp_update_vectors_index_def py_iter_def py_getitem_def py_in_set_def py_eq_def
  setdefault_append_def dict_setdefault_def py_len_def EMBEDDING_MODEL_ID_def
  EMBEDDING_DIMENSION_def dict_pick.simps

text \<open>
  C1, the code at the failing input. Starting from empty stores, \<^verbatim>\<open>save_to_s3_vectors\<close>
  of generate_embeddings.py is run on the templates A and B and then, separately, on C: the
  index document lists C alone. The same two runs of \<^verbatim>\<open>save_to_s3_vectors\<close> of
  process_existing_templates.py, which updates the index by fetch, merge and write, leave
  an index that lists A, B and C.
\<close>

theorem index_merge_lost_by_batch_save:
  "index_template_ids demo_env
     (snd (eg_save_to_s3_vectors demo_env [demo_embedding ''C'']
        (snd (eg_save_to_s3_vectors demo_env [demo_embedding ''A'', demo_embedding ''B''] world0))))
     = [JStr ''C'']
   \<and> index_template_ids demo_env
     (snd (etp_save_to_s3_vectors demo_env [demo_embedding ''C'']
        (snd (etp_save_to_s3_vectors demo_env [demo_embedding ''A'', demo_embedding ''B''] world0))))
     = [JStr ''A'', JStr ''B'', JStr ''C'']"
  by (simp add: save_vectors_eval)

lemma eg_index_templates_length:
  "eg_index_templates embeddings = Inr templates \<Longrightarrow> length templates = length embeddings"
  by (induction embeddings arbitrary: templates) (auto simp: bind_err_Inr_iff)

lemma index_count_ok_eg:
  "length templates = n \<Longrightarrow>
   index_count_ok (JObj [(''vectors_count'', JInt (int n)), (''model'', m), (''dimension'', d),
                         (''generated_at'', g), (''templates'', JArr templates)])"
  by (simp add: index_count_ok_def dict_get_def py_len_def)

lemma eg_save_to_s3_vectors_index:
  "fst (eg_save_to_s3_vectors e embeddings w) = Inr () \<longrightarrow>
     (\<exists>doc. s3 (snd (eg_save_to_s3_vectors e embeddings w))
               (vectors_bucket e, ''template-embeddings/index.json'') = Some doc
          \<and> index_count_ok doc)"
proof (cases "eg_save_vectors_loop e embeddings w")
  case (Pair r w1)
  show ?thesis
  proof (cases r)
    case (Inl err)
    with Pair show ?thesis by (simp add: eg_save_to_s3_vectors_def)
  next
    case (Inr u)
    show ?thesis
    proof (cases "eg_index_templates embeddings")
      case (Inl err)
      with Pair Inr show ?thesis
        by (simp add: eg_save_to_s3_vectors_def split: prod.splits)
    next
      case templates: (Inr templates)
      then have "length templates = length embeddings"
        by (rule eg_index_templates_length)
      with Pair Inr templates show ?thesis
        by (simp add: eg_save_to_s3_vectors_def put_object_s3 put_object_fst index_count_ok_eg
            split: prod.splits)
    qed
  qed
qed

lemma index_count_ok_etp:
  "py_len (dict_get merged ''templates'' (JArr [])) = Inr n \<Longrightarrow>
   index_count_ok
     (JObj (AList.update ''updated_at'' u
             (AList.update ''dimension'' d
               (AList.update ''model'' m
                 (AList.update ''vectors_count'' (JInt (int n)) merged)))))"
  by (simp add: index_count_ok_def dict_get_def update_conv')

lemma etp_update_vectors_index_index:
  "s3 (snd (etp_update_vectors_index e new_embeddings w)) = s3 w
   \<or> (\<exists>doc. s3 (snd (etp_update_vectors_index e new_embeddings w))
              = (s3 w)((vectors_bucket e, ''template-embeddings/index.json'') \<mapsto> doc)
          \<and> index_count_ok doc)"
  by (auto simp: etp_update_vectors_index_def Let_def put_object_s3 index_count_ok_etp utcnow_z_def
           put_object_def
      split: prod.splits sum.splits option.splits)

text \<open>
  C9. After every index write the \<^verbatim>\<open>vectors_count\<close> of the written document is the
  number of entries of its \<^verbatim>\<open>templates\<close>. The batch save of generate_embeddings.py
  writes the index as its last step, so it has written it when it returns normally; the
  update of process_existing_templates.py either leaves the bucket as it was or has put
  such a document under the index key.
\<close>

theorem index_vectors_count:
  "(fst (eg_save_to_s3_vectors e embeddings w) = Inr () \<longrightarrow>
      (\<exists>doc. s3 (snd (eg_save_to_s3_vectors e embeddings w))
                (vectors_bucket e, ''template-embeddings/index.json'') = Some doc
           \<and> index_count_ok doc))
   \<and> (s3 (snd (etp_update_vectors_index e new_embeddings w')) = s3 w'
      \<or> (\<exists>doc. s3 (snd (etp_update_vectors_index e new_embeddings w'))
                 = (s3 w')((vectors_bucket e, ''template-embeddings/index.json'') \<mapsto> doc)
             \<and> index_count_ok doc))"
  using eg_save_to_s3_vectors_index etp_update_vectors_index_index by blast

text \<open>
  C9, witness: both writers on the templates A and B from empty stores. Each writes the
  index, and the document counts its templates.
\<close>

theorem index_vectors_count_witness:
  "fst (eg_save_to_s3_vectors demo_env [demo_embedding ''A'', demo_embedding ''B''] world0) = Inr ()
   \<and> (\<exists>doc. s3 (snd (eg_save_to_s3_vectors demo_env
                        [demo_embedding ''A'', demo_embedding ''B''] world0))
               (vectors_bucket demo_env, ''template-embeddings/index.json'') = Some doc
          \<and> index_count_ok doc)
   \<and> s3 (snd (etp_update_vectors_index demo_env
                [demo_embedding ''A'', demo_embedding ''B''] world0)) \<noteq> s3 world0
   \<and> (\<exists>doc. s3 (snd (etp_update_vectors_index demo_env
                        [demo_embedding ''A'', demo_embedding ''B''] world0))
              = (s3 world0)((vectors_bucket demo_env, ''template-embeddings/index.json'') \<mapsto> doc)
          \<and> index_count_ok doc)"
proof -
  have a: "fst (eg_save_to_s3_vectors demo_env [demo_embedding ''A'', demo_embedding ''B''] world0)
             = Inr ()"
    by (simp add: save_vectors_eval)
  have b: "s3 (snd (etp_update_vectors_index demo_env
                 [demo_embedding ''A'', demo_embedding ''B''] world0)) \<noteq> s3 world0"
    by (simp add: save_vectors_eval fun_eq_iff)
  show ?thesis
    using a b
      index_vectors_count [of demo_env "[demo_embedding ''A'', demo_embedding ''B'']" world0
        "[demo_embedding ''A'', demo_embedding ''B'']" world0]
    by blast
qed

section \<open>The embedding provider adapter\<close>

lemma truncate_take: "(if length text > n then take n text else text) = take n text"
  by simp

lemma py_get_Inr_iff: "py_get v k dflt = Inr x \<longleftrightarrow> (\<exists>d. v = JObj d \<and> x = dict_get d k dflt)"
  by (cases v) (auto simp: py_get_def)

lemma py_len_zero_vector: "py_len zero_vector = Inr EMBEDDING_DIMENSION"
  by (simp add: zero_vector_def py_len_def)

text \<open>The definitions a concrete call of the adapters unfolds.\<close>

lemmas generate_embedding_eval =
  demo_env_def failing_model_env_def empty_response_env_def short_vector_env_def
  list_response_env_def null_embedding_env_def world0_def
  eg_generate_embedding_def etp_generate_embedding_def py_get_def dict_get_def
  py_len_zero_vector logger_def

text \<open>
  C6, as amended. For every input text, what \<^verbatim>\<open>generate_embedding\<close> does is decided by
  the provider call (the client makes its retries inside that call) and by the parsed
  response. When the call raises, both adapters raise that exception. When the response is
  not a JSON object, both raise \<^verbatim>\<open>AttributeError\<close>. Otherwise the value is the
  \<^verbatim>\<open>embedding\<close> of the response, the empty list when the response has none:
  process_existing_templates.py returns it as it is, whatever it is; generate_embeddings.py
  returns it as it is when it has a length, with a warning in the log when the length is not
  the dimension, and raises \<^verbatim>\<open>TypeError\<close> when it has none. Every exception that
  generate_embeddings.py raises here is logged once, as an error, before it is raised again.
\<close>

theorem generate_embedding_outcome:
  "(\<forall>err. invoke_model e (take (MAX_INPUT_TOKENS * 4) text) = Inl err \<longrightarrow>
      eg_generate_embedding e text w
        = (Inl err, logger ERROR ''Error generating embedding: '' (Some err) w)
      \<and> etp_generate_embedding e text = Inl err)
   \<and> (\<forall>body. invoke_model e (take (MAX_INPUT_TOKENS * 4) text) = Inr body
         \<and> (\<forall>d. body \<noteq> JObj d) \<longrightarrow>
      eg_generate_embedding e text w
        = (Inl AttributeError,
           logger ERROR ''Error generating embedding: '' (Some AttributeError) w)
      \<and> etp_generate_embedding e text = Inl AttributeError)
   \<and> (\<forall>d. invoke_model e (take (MAX_INPUT_TOKENS * 4) text) = Inr (JObj d) \<longrightarrow>
      etp_generate_embedding e text = Inr (dict_get d ''embedding'' (JArr []))
      \<and> (\<forall>n. py_len (dict_get d ''embedding'' (JArr [])) = Inr n \<longrightarrow>
            eg_generate_embedding e text w
              = (Inr (dict_get d ''embedding'' (JArr [])),
                 if n = EMBEDDING_DIMENSION then w
                 else logger WARNING
                        (''Unexpected embedding dimension: '' @ py_str_of e (JInt (int n))
                           @ '', expected '' @ py_str_of e (JInt (int EMBEDDING_DIMENSION)))
                        None w))
      \<and> (\<forall>err. py_len (dict_get d ''embedding'' (JArr [])) = Inl err \<longrightarrow>
            eg_generate_embedding e text w
              = (Inl TypeError,
                 logger ERROR ''Error generating embedding: '' (Some TypeError) w)))"
proof (intro conjI allI impI)
  fix err
  assume "invoke_model e (take (MAX_INPUT_TOKENS * 4) text) = Inl err"
  then show "eg_generate_embedding e text w
        = (Inl err, logger ERROR ''Error generating embedding: '' (Some err) w)"
    and "etp_generate_embedding e text = Inl err"
    unfolding eg_generate_embedding_def etp_generate_embedding_def Let_def truncate_take
    by simp_all
next
  fix body
  assume "invoke_model e (take (MAX_INPUT_TOKENS * 4) text) = Inr body \<and> (\<forall>d. body \<noteq> JObj d)"
  then have b: "invoke_model e (take (MAX_INPUT_TOKENS * 4) text) = Inr body"
    and g: "py_get body ''embedding'' (JArr []) = Inl AttributeError"
    by (auto simp: py_get_def split: json.splits)
  from b g show "eg_generate_embedding e text w
        = (Inl AttributeError,
           logger ERROR ''Error generating embedding: '' (Some AttributeError) w)"
    and "etp_generate_embedding e text = Inl AttributeError"
    unfolding eg_generate_embedding_def etp_generate_embedding_def Let_def truncate_take
    by simp_all
next
  fix d
  assume b: "invoke_model e (take (MAX_INPUT_TOKENS * 4) text) = Inr (JObj d)"
  then show "etp_generate_embedding e text = Inr (dict_get d ''embedding'' (JArr []))"
    unfolding etp_generate_embedding_def Let_def truncate_take
    by (simp add: py_get_def)
  {
    fix n
    assume "py_len (dict_get d ''embedding'' (JArr [])) = Inr n"
    with b show "eg_generate_embedding e text w
              = (Inr (dict_get d ''embedding'' (JArr [])),
                 if n = EMBEDDING_DIMENSION then w
                 else logger WARNING
                        (''Unexpected embedding dimension: '' @ py_str_of e (JInt (int n))
                           @ '', expected '' @ py_str_of e (JInt (int EMBEDDING_DIMENSION)))
                        None w)"
      unfolding eg_generate_embedding_def Let_def truncate_take
      by (simp add: py_get_def)
  }
  {
    fix err
    assume l: "py_len (dict_get d ''embedding'' (JArr [])) = Inl err"
    then have "err = TypeError"
      by (auto simp: py_len_def split: json.splits)
    with b l show "eg_generate_embedding e text w
              = (Inl TypeError,
                 logger ERROR ''Error generating embedding: '' (Some TypeError) w)"
      unfolding eg_generate_embedding_def Let_def truncate_take
      by (simp add: py_get_def)
  }
qed

text \<open>
  C6, witness: a model whose call fails, a model that answers with a list, a model that
  answers with a full vector, and a model that answers with \<^verbatim>\<open>null\<close> for the vector.
\<close>

theorem generate_embedding_outcome_witness:
  "invoke_model failing_model_env (take (MAX_INPUT_TOKENS * 4) ''abc'')
       = Inl (ClientError ''ThrottlingException'')
   \<and> eg_generate_embedding failing_model_env ''abc'' world0
       = (Inl (ClientError ''ThrottlingException''),
          logger ERROR ''Error generating embedding: ''
            (Some (ClientError ''ThrottlingException'')) world0)
   \<and> etp_generate_embedding failing_model_env ''abc'' = Inl (ClientError ''ThrottlingException'')
   \<and> invoke_model list_response_env (take (MAX_INPUT_TOKENS * 4) ''abc'') = Inr (JArr [])
   \<and> eg_generate_embedding list_response_env ''abc'' world0
       = (Inl AttributeError,
          logger ERROR ''Error generating embedding: '' (Some AttributeError) world0)
   \<and> etp_generate_embedding list_response_env ''abc'' = Inl AttributeError
   \<and> invoke_model demo_env (take (MAX_INPUT_TOKENS * 4) ''abc'')
       = Inr (JObj [(''embedding'', zero_vector)])
   \<and> py_len zero_vector = Inr EMBEDDING_DIMENSION
   \<and> eg_generate_embedding demo_env ''abc'' world0 = (Inr zero_vector, world0)
   \<and> etp_generate_embedding demo_env ''abc'' = Inr zero_vector
   \<and> invoke_model null_embedding_env (take (MAX_INPUT_TOKENS * 4) ''abc'')
       = Inr (JObj [(''embedding'', JNull)])
   \<and> py_len JNull = Inl TypeError
   \<and> eg_generate_embedding null_embedding_env ''abc'' world0
       = (Inl TypeError, logger ERROR ''Error generating embedding: '' (Some TypeError) world0)
   \<and> etp_generate_embedding null_embedding_env ''abc'' = Inr JNull"
proof -
  have a: "invoke_model failing_model_env (take (MAX_INPUT_TOKENS * 4) ''abc'')
             = Inl (ClientError ''ThrottlingException'')"
    by (simp add: generate_embedding_eval)
  have b: "invoke_model list_response_env (take (MAX_INPUT_TOKENS * 4) ''abc'') = Inr (JArr [])"
    "\<forall>d. JArr [] \<noteq> JObj d"
    by (simp_all add: generate_embedding_eval)
  have c: "invoke_model demo_env (take (MAX_INPUT_TOKENS * 4) ''abc'')
             = Inr (JObj [(''embedding'', zero_vector)])"
    "dict_get [(''embedding'', zero_vector)] ''embedding'' (JArr []) = zero_vector"
    "py_len zero_vector = Inr EMBEDDING_DIMENSION"
    by (simp_all add: generate_embedding_eval)
  have d: "invoke_model null_embedding_env (take (MAX_INPUT_TOKENS * 4) ''abc'')
             = Inr (JObj [(''embedding'', JNull)])"
    "dict_get [(''embedding'', JNull)] ''embedding'' (JArr []) = JNull"
    "py_len JNull = Inl TypeError"
    by (simp_all add: generate_embedding_eval py_len_def)
  note t1 = generate_embedding_outcome [of failing_model_env "''abc''" world0]
  note t2 = generate_embedding_outcome [of list_response_env "''abc''" world0]
  note t3 = generate_embedding_outcome [of demo_env "''abc''" world0]
  note t4 = generate_embedding_outcome [of null_embedding_env "''abc''" world0]
  from t1 a have p1: "eg_generate_embedding failing_model_env ''abc'' world0
       = (Inl (ClientError ''ThrottlingException''),
          logger ERROR ''Error generating embedding: ''
            (Some (ClientError ''ThrottlingException'')) world0)"
    "etp_generate_embedding failing_model_env ''abc'' = Inl (ClientError ''ThrottlingException'')"
    by blast+
  from t2 b have p2: "eg_generate_embedding list_response_env ''abc'' world0
       = (Inl AttributeError,
          logger ERROR ''Error generating embedding: '' (Some AttributeError) world0)"
    "etp_generate_embedding list_response_env ''abc'' = Inl AttributeError"
    by blast+
  from t3 c have p3: "eg_generate_embedding demo_env ''abc'' world0 = (Inr zero_vector, world0)"
    "etp_generate_embedding demo_env ''abc'' = Inr zero_vector"
    by auto
  from t4 d have p4: "eg_generate_embedding null_embedding_env ''abc'' world0
       = (Inl TypeError, logger ERROR ''Error generating embedding: '' (Some TypeError) world0)"
    "etp_generate_embedding null_embedding_env ''abc'' = Inr JNull"
    by auto
  from a b(1) c(1,3) d(1,3) p1 p2 p3 p4 show ?thesis
    by (intro conjI)
qed

text \<open>
  C6, counterexample: a response without \<^verbatim>\<open>embedding\<close> makes both adapters return the
  empty list, and a response with a vector of two components makes them return it; no
  exception is raised, and neither vector has the 1024 components of the dimension. A
  response with \<^verbatim>\<open>null\<close> for the vector makes one adapter raise \<^verbatim>\<open>TypeError\<close> and the
  other return \<^verbatim>\<open>null\<close>.
\<close>

theorem generate_embedding_outcome_counterexample:
  "fst (eg_generate_embedding empty_response_env ''abc'' world0) = Inr (JArr [])
   \<and> etp_generate_embedding empty_response_env ''abc'' = Inr (JArr [])
   \<and> fst (eg_generate_embedding short_vector_env ''abc'' world0) = Inr (JArr [JFloat 1, JFloat 0])
   \<and> etp_generate_embedding short_vector_env ''abc'' = Inr (JArr [JFloat 1, JFloat 0])
   \<and> py_len (JArr []) = Inr 0
   \<and> py_len (JArr [JFloat 1, JFloat 0]) = Inr 2
   \<and> EMBEDDING_DIMENSION = 1024
   \<and> fst (eg_generate_embedding null_embedding_env ''abc'' world0) = Inl TypeError
   \<and> etp_generate_embedding null_embedding_env ''abc'' = Inr JNull"
  by (simp add: generate_embedding_eval py_len_def EMBEDDING_DIMENSION_def)

section \<open>Migrated sites\<close>

lemma etp_migrated_try_Inr:
  assumes "etp_migrated_try e site site_slug template_id w = (Inr result, w')"
  shows "(\<exists>s. site_slug = JStr s)
       \<and> map_of result ''template_id'' = Some (JStr template_id)
       \<and> map_of result ''cta_intent'' = Some (JStr ''contact'')
       \<and> map_of result ''design_style'' = Some (JStr ''wordpress-migrated'')"
  using assms
  by (cases site_slug)
     (auto simp: etp_migrated_try_def Let_def utcnow_z_def split: sum.splits prod.splits)

lemma etp_migrated_try_Inl:
  assumes "etp_migrated_try e site site_slug template_id w = (Inl err, w')"
  shows "w' = w"
  using assms
  by (cases site_slug)
     (auto simp: etp_migrated_try_def Let_def utcnow_z_def split: sum.splits prod.splits)

text \<open>The definitions a concrete run of the migrated-sites loop unfolds.\<close>

lemmas migrated_eval =
  demo_env_def failing_model_env_def world0_def site_empty_slug_def site_abc_def
  etp_migrated_try_def etp_build_embedding_text_def etp_generate_embedding_def
  dict_get_def py_get_def py_str_def utcnow_z_def logger_def Let_def




section \<open>Validation of the industry\<close>

lemma validate_metadata_industry:
  assumes "map_of content ''industry'' = Some industry" "truthy industry"
    "\<not> in_str_list industry validator_VALID_INDUSTRIES"
  shows "\<exists>errors. validate_metadata str_of (Inr (JObj content)) = Inr errors
          \<and> \<lparr>file_name = ''metadata.json'',
              message = ''Invalid industry: '' @ py_str str_of industry,
              severity = ''error''\<rparr> \<in> set errors"
  using assms by (simp add: validate_metadata_def Let_def dict_get_def)

lemma eg_process_template_industry:
  assumes "path_exists e (p @ [''metadata.json'']) = Inr True"
    "load_json_file e (p @ [''metadata.json'']) = Inr (JObj content)"
    "eg_build_embedding_text (py_str_of e) content = Inr text"
    "fst (eg_generate_embedding e text w) = Inr v"
    "map_of content ''industry'' = Some industry"
  shows "\<exists>result. fst (eg_process_template e p w) = Inr (Some result)
           \<and> map_of result ''industry'' = Some industry"
proof -
  obtain w1 where "eg_generate_embedding e text w = (Inr v, w1)"
    using assms(4) by (cases "eg_generate_embedding e text w") simp
  with assms show ?thesis
    by (simp add: eg_process_template_def eg_process_template_try_def eg_result_def utcnow_z_def
        dict_get_def split: prod.splits)
qed

text \<open>The definitions a concrete run of \<^verbatim>\<open>main\<close> of generate_embeddings.py unfolds.\<close>

lemmas eg_main_eval =
  demo_env_def spaceflight_env_def spaceflight_metadata_def t1_def world0_def
  eg_main_def eg_main_save_def eg_process_template_def eg_process_template_try_def
  eg_build_embedding_text_def eg_generate_embedding_def eg_result_def
  eg_save_to_s3_vectors_def eg_vector_doc_def eg_item_def
  put_object_def put_item_def utcnow_z_def logger_def
  vectors_bucket_def templates_bucket_def templates_table_def
  dict_index_def dict_get_def py_get_def py_len_zero_vector py_str_def py_join_def py_iter_def
  py_slice_to_def path_name_def path_parent_def path_str_def
  EMBEDDING_MODEL_ID_def MAX_INPUT_TOKENS_def
  item_field_def field_of_def nl_indent_def dict_pick.simps

text \<open>
  C3, as amended. For every metadata record whose industry is a non-empty value outside the
  list of valid industries, \<^verbatim>\<open>validate_metadata\<close> of validate_template.py reports a
  \<^verbatim>\<open>ValidationError\<close> of severity \<^verbatim>\<open>error\<close> that names the value. The indexing
  pipeline does not call the validator and checks nothing itself: whenever the text of such
  a record is built and its embedding obtained, \<^verbatim>\<open>process_template\<close> returns a result
  that carries the industry as it is.
\<close>

theorem industry_validation:
  assumes "map_of content ''industry'' = Some industry" "truthy industry"
    "\<not> in_str_list industry validator_VALID_INDUSTRIES"
  shows "(\<exists>errors. validate_metadata str_of (Inr (JObj content)) = Inr errors
          \<and> \<lparr>file_name = ''metadata.json'',
              message = ''Invalid industry: '' @ py_str str_of industry,
              severity = ''error''\<rparr> \<in> set errors)
    \<and> (path_exists e (p @ [''metadata.json'']) = Inr True
        \<and> load_json_file e (p @ [''metadata.json'']) = Inr (JObj content)
        \<and> eg_build_embedding_text (py_str_of e) content = Inr text
        \<and> fst (eg_generate_embedding e text w) = Inr v
       \<longrightarrow> (\<exists>result. fst (eg_process_template e p w) = Inr (Some result)
              \<and> map_of result ''industry'' = Some industry))"
  using validate_metadata_industry [OF assms] eg_process_template_industry [OF _ _ _ _ assms(1)]
  by blast

text \<open>
  C3, witness: the record \<open>spaceflight_metadata\<close>, in a template directory of an
  environment where nothing fails.
\<close>

theorem industry_validation_witness:
  "map_of spaceflight_metadata ''industry'' = Some (JStr ''spaceflight'')
   \<and> truthy (JStr ''spaceflight'')
   \<and> \<not> in_str_list (JStr ''spaceflight'') validator_VALID_INDUSTRIES
   \<and> (\<exists>errors. validate_metadata (py_str_of demo_env) (Inr (JObj spaceflight_metadata)) = Inr errors
          \<and> \<lparr>file_name = ''metadata.json'',
              message = ''Invalid industry: spaceflight'',
              severity = ''error''\<rparr> \<in> set errors)
   \<and> path_exists spaceflight_env ([''repo'', ''other'', ''rocket''] @ [''metadata.json''])
       = Inr True
   \<and> load_json_file spaceflight_env ([''repo'', ''other'', ''rocket''] @ [''metadata.json''])
       = Inr (JObj spaceflight_metadata)
   \<and> (\<exists>result. fst (eg_process_template spaceflight_env [''repo'', ''other'', ''rocket''] world0)
                  = Inr (Some result)
          \<and> map_of result ''industry'' = Some (JStr ''spaceflight''))"
proof -
  have a: "map_of spaceflight_metadata ''industry'' = Some (JStr ''spaceflight'')"
    by (simp add: spaceflight_metadata_def)
  have b: "truthy (JStr ''spaceflight'')"
    by simp
  have c: "\<not> in_str_list (JStr ''spaceflight'') validator_VALID_INDUSTRIES"
    by (simp add: in_str_list_def validator_VALID_INDUSTRIES_def)
  have d: "path_exists spaceflight_env ([''repo'', ''other'', ''rocket''] @ [''metadata.json''])
       = Inr True"
    "load_json_file spaceflight_env ([''repo'', ''other'', ''rocket''] @ [''metadata.json''])
       = Inr (JObj spaceflight_metadata)"
    by (simp_all add: spaceflight_env_def demo_env_def)
  obtain tx where
    t: "eg_build_embedding_text (py_str_of spaceflight_env) spaceflight_metadata = Inr tx"
    by (simp add: eg_build_embedding_text_def spaceflight_metadata_def dict_get_def py_str_def
        py_join_def py_iter_def)
  have g: "fst (eg_generate_embedding spaceflight_env tx world0) = Inr zero_vector"
    by (simp add: spaceflight_env_def generate_embedding_eval)
  show ?thesis
    using a b c d t g
      industry_validation [OF a b c, of "py_str_of demo_env" spaceflight_env
        "[''repo'', ''other'', ''rocket'']" tx world0 zero_vector]
    by (simp add: py_str_def)
qed

text \<open>
  C3, counterexample: run on the template directory that holds \<open>spaceflight_metadata\<close>,
  \<^verbatim>\<open>process_template\<close> returns a result with the industry \<^verbatim>\<open>spaceflight\<close>, and
  \<^verbatim>\<open>main\<close> ends with status 0, logs nothing, and has stored the item under that
  industry.
\<close>

theorem industry_validation_counterexample:
  "\<not> in_str_list (JStr ''spaceflight'') validator_VALID_INDUSTRIES
   \<and> JStr ''spaceflight'' \<notin> set (map JStr VALID_INDUSTRIES)
   \<and> (case fst (eg_process_template spaceflight_env [''repo'', ''other'', ''rocket''] world0) of
         Inl err \<Rightarrow> None | Inr result \<Rightarrow> field_of ''industry'' result)
       = Some (JStr ''spaceflight'')
   \<and> fst (eg_main spaceflight_env [''repo''] (Some [''other'', ''rocket'']) world0) = Inr 0
   \<and> logged (snd (eg_main spaceflight_env [''repo''] (Some [''other'', ''rocket'']) world0)) = []
   \<and> item_field (snd (eg_main spaceflight_env [''repo''] (Some [''other'', ''rocket'']) world0))
       (''rag-templates-dev'', ''TEMPLATE'', ''TEMPLATE#rocket'') ''industry''
       = Some (JStr ''spaceflight'')
   \<and> item_field (snd (eg_main spaceflight_env [''repo''] (Some [''other'', ''rocket'']) world0))
       (''rag-templates-dev'', ''TEMPLATE'', ''TEMPLATE#rocket'') ''GSI1PK''
       = Some (JStr ''INDUSTRY#spaceflight'')"
  by (simp add: eg_main_eval in_str_list_def validator_VALID_INDUSTRIES_def VALID_INDUSTRIES_def)

section \<open>The status of stored records\<close>

lemma published_or_kept_refl: "dynamodb w' = dynamodb w \<Longrightarrow> published_or_kept w w' k"
  by (simp add: published_or_kept_def)

lemma published_or_kept_trans:
  "published_or_kept w w1 k \<Longrightarrow> published_or_kept w1 w2 k \<Longrightarrow> published_or_kept w w2 k"
  by (auto simp: published_or_kept_def split: option.splits)

lemma logger_stores [simp]: "dynamodb (logger l m x w) = dynamodb w" "s3 (logger l m x w) = s3 w"
  "tick (logger l m x w) = tick w"
  by (simp_all add: logger_def)

lemma utcnow_z_stores [simp]: "dynamodb (snd (utcnow_z e w)) = dynamodb w" "s3 (snd (utcnow_z e w)) = s3 w"
  by (simp_all add: utcnow_z_def)

lemma put_object_dynamodb [simp]: "dynamodb (snd (put_object e b k doc w)) = dynamodb w"
  by (simp add: put_object_def split: option.splits)

lemma eg_generate_embedding_dynamodb [simp]:
  "dynamodb (snd (eg_generate_embedding e text w)) = dynamodb w"
  by (simp add: eg_generate_embedding_def Let_def split: sum.splits prod.splits)

lemma eg_process_template_try_dynamodb [simp]:
  "dynamodb (snd (eg_process_template_try e p w)) = dynamodb w"
proof -
  have "dynamodb (snd (eg_generate_embedding e t w)) = dynamodb w" for t by simp
  then have g: "eg_generate_embedding e t w = (r, w1) \<Longrightarrow> dynamodb w1 = dynamodb w" for t r w1
    by (metis snd_conv)
  show ?thesis
    by (auto simp: eg_process_template_try_def utcnow_z_def dest: g
        split: sum.splits json.splits prod.splits)
qed

lemma eg_process_template_try_published:
  "eg_process_template_try e p w = (Inr result, w') \<Longrightarrow> published result"
  by (auto simp: eg_process_template_try_def eg_result_def published_def utcnow_z_def
      split: sum.splits json.splits prod.splits)

lemma eg_process_template_dynamodb [simp]:
  "dynamodb (snd (eg_process_template e p w)) = dynamodb w"
proof -
  have g: "eg_process_template_try e p w = (r, w1) \<Longrightarrow> dynamodb w1 = dynamodb w" for r w1
    using eg_process_template_try_dynamodb [of e p w] by simp
  show ?thesis
    by (auto simp: eg_process_template_def dest: g split: sum.splits prod.splits bool.splits)
qed

lemma eg_process_template_published:
  "eg_process_template e p w = (Inr (Some result), w') \<Longrightarrow> published result"
  by (auto simp: eg_process_template_def dest: eg_process_template_try_published
      split: bool.splits sum.splits prod.splits)

lemma eg_process_template_dirs_inv:
  "list_all published embeddings \<Longrightarrow>
   (case fst (eg_process_template_dirs e ip names embeddings w) of
      Inl err \<Rightarrow> True | Inr embs \<Rightarrow> list_all published embs)
   \<and> dynamodb (snd (eg_process_template_dirs e ip names embeddings w)) = dynamodb w"
proof (induction names arbitrary: embeddings w)
  case Nil
  then show ?case by simp
next
  case (Cons name names)
  show ?case
  proof (cases "path_is_dir e (ip @ [name])")
    case (Inl err)
    then show ?thesis by simp
  next
    case (Inr is_dir)
    show ?thesis
    proof (cases "\<not> is_dir \<or> take 1 name = ''.''")
      case True
      with Inr Cons.IH [OF Cons.prems, of w] show ?thesis by simp
    next
      case False
      obtain r w' where r: "eg_process_template e (ip @ [name]) w = (r, w')"
        by (cases "eg_process_template e (ip @ [name]) w")
      then have d: "dynamodb w' = dynamodb w"
        using eg_process_template_dynamodb [of e "ip @ [name]" w] by simp
      show ?thesis
      proof (cases r)
        case (Inl err)
        with Inr False r d show ?thesis by simp
      next
        case res: (Inr res)
        show ?thesis
        proof (cases res)
          case None
          with Inr False r d res Cons.IH [OF Cons.prems, of w'] show ?thesis by simp
        next
          case (Some result)
          with r res have "published result" by (auto dest: eg_process_template_published)
          with Cons.prems have "list_all published
              (if truthy (JObj result) then embeddings @ [result] else embeddings)"
            by simp
          from Cons.IH [OF this, of w'] Inr False r d res Some show ?thesis by simp
        qed
      qed
    qed
  qed
qed

lemma eg_process_industries_inv:
  "list_all published embeddings \<Longrightarrow>
   (case fst (eg_process_industries e bp industries embeddings w) of
      Inl err \<Rightarrow> True | Inr embs \<Rightarrow> list_all published embs)
   \<and> dynamodb (snd (eg_process_industries e bp industries embeddings w)) = dynamodb w"
proof (induction industries arbitrary: embeddings w)
  case Nil
  then show ?case by simp
next
  case (Cons industry industries)
  show ?case
  proof (cases "path_exists e (bp @ [industry])")
    case (Inl err)
    then show ?thesis by simp
  next
    case (Inr ex)
    show ?thesis
    proof (cases ex)
      case False
      with Inr Cons.IH [OF Cons.prems, of w] show ?thesis by simp
    next
      case True
      show ?thesis
      proof (cases "path_iterdir e (bp @ [industry])")
        case (Inl err)
        with Inr True show ?thesis by simp
      next
        case names: (Inr names)
        obtain r w' where
          l: "eg_process_template_dirs e (bp @ [industry]) names embeddings w = (r, w')"
          by (cases "eg_process_template_dirs e (bp @ [industry]) names embeddings w")
        with eg_process_template_dirs_inv [OF Cons.prems, of e "bp @ [industry]" names w]
        have p: "case r of Inl err \<Rightarrow> True | Inr embs \<Rightarrow> list_all published embs"
          and d: "dynamodb w' = dynamodb w" by simp_all
        show ?thesis
        proof (cases r)
          case (Inl err)
          with Inr True names l d show ?thesis by simp
        next
          case embs: (Inr embs)
          with p have "list_all published embs" by simp
          from Cons.IH [OF this, of w'] Inr True names l d embs show ?thesis by simp
        qed
      qed
    qed
  qed
qed


lemma eg_save_vectors_loop_dynamodb [simp]:
  "dynamodb (snd (eg_save_vectors_loop e embeddings w)) = dynamodb w"
proof (induction embeddings arbitrary: w)
  case Nil
  show ?case by simp
next
  case (Cons x xs)
  have p: "put_object e b k doc w = (r, w1) \<Longrightarrow> dynamodb w1 = dynamodb w" for b k doc r w1
    using put_object_dynamodb [of e b k doc w] by simp
  show ?case
    by (auto simp: Cons dest: p split: sum.splits prod.splits)
qed

lemma eg_save_to_s3_vectors_dynamodb [simp]:
  "dynamodb (snd (eg_save_to_s3_vectors e embeddings w)) = dynamodb w"
proof -
  have l: "eg_save_vectors_loop e embeddings w = (r, w1) \<Longrightarrow> dynamodb w1 = dynamodb w" for r w1
    using eg_save_vectors_loop_dynamodb [of e embeddings w] by simp
  show ?thesis
    by (auto simp: eg_save_to_s3_vectors_def utcnow_z_def dest: l split: sum.splits prod.splits)
qed

lemma dict_index_Inr_iff: "dict_index d k = Inr v \<longleftrightarrow> map_of d k = Some v"
  by (simp add: dict_index_def split: option.splits)

lemma eg_item_published:
  assumes "eg_item str_of embedding_data = Inr (template_id, item)" "published embedding_data"
  shows "published item"
  using assms
  by (auto simp: eg_item_def published_def bind_err_Inr_iff dict_pick.simps dict_index_Inr_iff)

lemma eg_save_to_dynamodb_published:
  "list_all published embeddings \<Longrightarrow>
   published_or_kept w (snd (eg_save_to_dynamodb e embeddings w)) k"
proof (induction embeddings arbitrary: w)
  case Nil
  show ?case by (simp add: published_or_kept_def)
next
  case (Cons x xs)
  show ?case
  proof (cases "eg_item (py_str_of e) x")
    case (Inl err)
    then show ?thesis by (simp add: published_or_kept_def)
  next
    case (Inr p)
    obtain template_id item where p: "p = (template_id, item)" by (cases p)
    with Inr Cons.prems have pub: "published item"
      by (auto dest: eg_item_published)
    let ?sk = "''TEMPLATE#'' @ py_str (py_str_of e) template_id"
    show ?thesis
    proof (cases "put_item_error e (templates_table e, ''TEMPLATE'', ?sk)")
      case (Some err)
      with Inr p show ?thesis by (simp add: put_item_def published_or_kept_def)
    next
      case None
      let ?w1 = "w\<lparr>dynamodb := (dynamodb w)((templates_table e, ''TEMPLATE'', ?sk) \<mapsto> item)\<rparr>"
      have a: "published_or_kept w ?w1 k"
        using pub by (simp add: published_or_kept_def)
      have b: "published_or_kept ?w1 (snd (eg_save_to_dynamodb e xs ?w1)) k"
        using Cons.prems by (intro Cons.IH) simp
      from Inr p None have "eg_save_to_dynamodb e (x # xs) w = eg_save_to_dynamodb e xs ?w1"
        by (simp add: put_item_def)
      with published_or_kept_trans [OF a b] show ?thesis by simp
    qed
  qed
qed

lemma eg_main_save_published:
  "list_all published embeddings \<Longrightarrow> published_or_kept w (snd (eg_main_save e embeddings w)) k"
proof -
  assume pub: "list_all published embeddings"
  obtain r w1 where s: "eg_save_to_s3_vectors e embeddings w = (r, w1)"
    by (cases "eg_save_to_s3_vectors e embeddings w")
  then have d: "dynamodb w1 = dynamodb w"
    using eg_save_to_s3_vectors_dynamodb [of e embeddings w] by simp
  have "published_or_kept w1 (snd (eg_save_to_dynamodb e embeddings w1)) k"
    using pub by (rule eg_save_to_dynamodb_published)
  with d have "published_or_kept w (snd (eg_save_to_dynamodb e embeddings w1)) k"
    by (simp add: published_or_kept_def)
  with s d show ?thesis
    by (auto simp: eg_main_save_def published_or_kept_def split: sum.splits prod.splits)
qed

lemma eg_main_published: "published_or_kept w (snd (eg_main e base_path template w)) k"
proof (cases template)
  case None
  obtain r w1 where p: "eg_process_all_templates e base_path w = (r, w1)"
    by (cases "eg_process_all_templates e base_path w")
  with eg_process_industries_inv [of "[]" e base_path VALID_INDUSTRIES w]
  have d: "dynamodb w1 = dynamodb w" and l: "case r of Inl err \<Rightarrow> True | Inr embs \<Rightarrow> list_all published embs"
    by (simp_all add: eg_process_all_templates_def)
  show ?thesis
  proof (cases r)
    case (Inl err)
    with None p d show ?thesis by (simp add: eg_main_def published_or_kept_def)
  next
    case (Inr embs)
    with l have "published_or_kept w1 (snd (eg_main_save e embs w1)) k"
      by (simp add: eg_main_save_published)
    with d have "published_or_kept w (snd (eg_main_save e embs w1)) k"
      by (simp add: published_or_kept_def)
    with None p Inr show ?thesis by (simp add: eg_main_def)
  qed
next
  case (Some rel)
  show ?thesis
  proof (cases "path_exists e (base_path @ rel)")
    case (Inl err)
    with Some show ?thesis by (simp add: eg_main_def published_or_kept_def)
  next
    case (Inr ex)
    show ?thesis
    proof (cases ex)
      case False
      with Some Inr show ?thesis by (simp add: eg_main_def published_or_kept_def)
    next
      case True
      obtain r w1 where p: "eg_process_template e (base_path @ rel) w = (r, w1)"
        by (cases "eg_process_template e (base_path @ rel) w")
      then have d: "dynamodb w1 = dynamodb w"
        using eg_process_template_dynamodb [of e "base_path @ rel" w] by simp
      have keep: "published_or_kept w (snd (eg_main_save e embs w1)) k"
        if "list_all published embs" for embs
      proof -
        from that have "published_or_kept w1 (snd (eg_main_save e embs w1)) k"
          by (rule eg_main_save_published)
        with d show ?thesis by (simp add: published_or_kept_def)
      qed
      show ?thesis
      proof (cases r)
        case (Inl err)
        with Some Inr True p d show ?thesis by (simp add: eg_main_def published_or_kept_def)
      next
        case res: (Inr res)
        show ?thesis
        proof (cases res)
          case None
          with Some Inr True p res keep [of "[]"] show ?thesis by (simp add: eg_main_def)
        next
          case result: (Some result)
          with p res have "published result" by (auto dest: eg_process_template_published)
          then have "list_all published (if truthy (JObj result) then [result] else [])" by simp
          from keep [OF this] Some Inr True p res result show ?thesis by (simp add: eg_main_def)
        qed
      qed
    qed
  qed
qed


lemma etp_recreated_try_inv:
  "etp_recreated_try e template template_id w = (r, w') \<Longrightarrow>
   dynamodb w' = dynamodb w \<and> (case r of Inl err \<Rightarrow> True | Inr result \<Rightarrow> published result)"
  by (auto simp: etp_recreated_try_def utcnow_z_def published_def split: sum.splits prod.splits)

lemma etp_migrated_try_inv:
  "etp_migrated_try e site site_slug template_id w = (r, w') \<Longrightarrow>
   dynamodb w' = dynamodb w \<and> (case r of Inl err \<Rightarrow> True | Inr result \<Rightarrow> published result)"
  by (cases site_slug)
     (auto simp: etp_migrated_try_def Let_def utcnow_z_def published_def
       split: sum.splits prod.splits)

lemma etp_recreated_loop_inv:
  "list_all published embeddings \<Longrightarrow>
   (case fst (etp_recreated_loop e templates embeddings w) of
      Inl err \<Rightarrow> True | Inr embs \<Rightarrow> list_all published embs)
   \<and> dynamodb (snd (etp_recreated_loop e templates embeddings w)) = dynamodb w"
proof (induction e templates embeddings w rule: etp_recreated_loop.induct)
  case (1 e embeddings w)
  then show ?case by simp
next
  case (2 e template templates embeddings w)
  let ?tid = "dict_get template ''template_id'' JNull"
  obtain r w' where r: "etp_recreated_try e template ?tid w = (r, w')"
    by (cases "etp_recreated_try e template ?tid w")
  note inv = etp_recreated_try_inv [OF r]
  show ?case
  proof (cases r)
    case (Inl err)
    with "2.IH"(1) [OF refl r [symmetric] Inl "2.prems"] r inv show ?thesis by simp
  next
    case (Inr result)
    with inv "2.prems" have "list_all published (embeddings @ [result])" by simp
    with "2.IH"(2) [OF refl r [symmetric] Inr] r Inr inv show ?thesis by simp
  qed
qed simp_all

lemma etp_migrated_loop_inv:
  "list_all published embeddings \<Longrightarrow>
   (case fst (etp_migrated_loop e sites embeddings w) of
      Inl err \<Rightarrow> True | Inr embs \<Rightarrow> list_all published embs)
   \<and> dynamodb (snd (etp_migrated_loop e sites embeddings w)) = dynamodb w"
proof (induction e sites embeddings w rule: etp_migrated_loop.induct)
  case (1 e embeddings w)
  then show ?case by simp
next
  case (2 e site sites embeddings w)
  let ?slug = "dict_get site ''site_slug'' (dict_get site ''slug'' (JStr []))"
  let ?tid = "''migrated-'' @ py_str (py_str_of e) ?slug"
  show ?case
  proof (cases "truthy ?slug")
    case False
    with "2.IH"(1) [OF refl _ "2.prems"] show ?thesis by simp
  next
    case True
    obtain r w' where r: "etp_migrated_try e site ?slug ?tid w = (r, w')"
      by (cases "etp_migrated_try e site ?slug ?tid w")
    note inv = etp_migrated_try_inv [OF r]
    show ?thesis
    proof (cases r)
      case (Inl err)
      with "2.IH"(2) [OF refl _ refl r [symmetric] Inl "2.prems"] True r inv show ?thesis by simp
    next
      case (Inr result)
      with inv "2.prems" have "list_all published (embeddings @ [result])" by simp
      with "2.IH"(3) [OF refl _ refl r [symmetric] Inr] True r Inr inv show ?thesis by simp
    qed
  qed
qed simp_all


lemma etp_process_recreated_templates_inv:
  "(case fst (etp_process_recreated_templates e registry w) of
      Inl err \<Rightarrow> True | Inr embs \<Rightarrow> list_all published embs)
   \<and> dynamodb (snd (etp_process_recreated_templates e registry w)) = dynamodb w"
proof (cases "bind_err (py_get registry ''templates'' (JArr [])) py_iter")
  case (Inl err)
  then show ?thesis by (simp add: etp_process_recreated_templates_def)
next
  case (Inr templates)
  with etp_recreated_loop_inv [of "[]" e templates w] show ?thesis
    by (simp add: etp_process_recreated_templates_def)
qed

lemma etp_process_migrated_templates_inv:
  "(case fst (etp_process_migrated_templates e registry w) of
      Inl err \<Rightarrow> True | Inr embs \<Rightarrow> list_all published embs)
   \<and> dynamodb (snd (etp_process_migrated_templates e registry w)) = dynamodb w"
proof -
  define cw where "cw =
    (case get_object e FIGMA_ASSETS_BUCKET ''templates/migrated-sites-catalog.json'' w of
       Inl err \<Rightarrow>
         (JObj [(''sites'', JArr [])],
          logger WARNING ''Could not fetch migrated sites catalog: '' (Some err) w)
     | Inr doc \<Rightarrow> (doc, w))"
  obtain catalog w1 where cw: "cw = (catalog, w1)" by (cases cw)
  then have d: "dynamodb w1 = dynamodb w"
    by (auto simp: cw_def split: sum.splits)
  show ?thesis
  proof (cases "bind_err (py_get registry ''migrated_sites_highlights'' (JArr [])) (\<lambda>highlights.
             bind_err (py_get catalog ''sites'' highlights) py_iter)")
    case (Inl err)
    with cw d show ?thesis
      by (simp add: etp_process_migrated_templates_def cw_def [symmetric])
  next
    case (Inr sites)
    with etp_migrated_loop_inv [of "[]" e sites w1] cw d show ?thesis
      by (simp add: etp_process_migrated_templates_def cw_def [symmetric])
  qed
qed

lemma etp_save_vectors_loop_dynamodb [simp]:
  "dynamodb (snd (etp_save_vectors_loop e embeddings w)) = dynamodb w"
proof (induction embeddings arbitrary: w)
  case Nil
  show ?case by simp
next
  case (Cons x xs)
  have p: "put_object e b k doc w = (r, w1) \<Longrightarrow> dynamodb w1 = dynamodb w" for b k doc r w1
    using put_object_dynamodb [of e b k doc w] by simp
  show ?case
    by (auto simp: Cons dest: p split: sum.splits prod.splits)
qed

lemma etp_update_vectors_index_dynamodb [simp]:
  "dynamodb (snd (etp_update_vectors_index e new_embeddings w)) = dynamodb w"
  by (auto simp: etp_update_vectors_index_def Let_def utcnow_z_def put_object_def
      split: sum.splits prod.splits option.splits)

lemma etp_save_to_s3_vectors_dynamodb [simp]:
  "dynamodb (snd (etp_save_to_s3_vectors e embeddings w)) = dynamodb w"
proof -
  have l: "etp_save_vectors_loop e embeddings w = (r, w1) \<Longrightarrow> dynamodb w1 = dynamodb w" for r w1
    using etp_save_vectors_loop_dynamodb [of e embeddings w] by simp
  show ?thesis
    by (auto simp: etp_save_to_s3_vectors_def dest: l split: sum.splits prod.splits)
qed

lemma etp_item_dynamodb:
  "etp_item e embedding_data w = (r, w1) \<Longrightarrow> dynamodb w1 = dynamodb w"
  by (auto simp: etp_item_def utcnow_z_def split: sum.splits prod.splits)

lemma etp_item_published:
  assumes "etp_item e embedding_data w = (Inr (template_id, item), w1)"
    "published embedding_data"
  shows "published item"
  using assms
  by (auto simp: etp_item_def utcnow_z_def published_def bind_err_Inr_iff dict_pick.simps
        dict_index_Inr_iff
      split: sum.splits prod.splits)

lemma etp_save_to_dynamodb_published:
  "list_all published embeddings \<Longrightarrow>
   published_or_kept w (snd (etp_save_to_dynamodb e embeddings w)) k"
proof (induction embeddings arbitrary: w)
  case Nil
  show ?case by (simp add: published_or_kept_def)
next
  case (Cons x xs)
  obtain r w1 where i: "etp_item e x w = (r, w1)"
    by (cases "etp_item e x w")
  then have d: "dynamodb w1 = dynamodb w" by (rule etp_item_dynamodb)
  show ?case
  proof (cases r)
    case (Inl err)
    with i d show ?thesis by (simp add: published_or_kept_def)
  next
    case (Inr p)
    obtain template_id item where p: "p = (template_id, item)" by (cases p)
    with i Inr Cons.prems have pub: "published item"
      by (auto dest: etp_item_published)
    let ?sk = "''TEMPLATE#'' @ py_str (py_str_of e) template_id"
    show ?thesis
    proof (cases "put_item_error e (templates_table e, ''TEMPLATE'', ?sk)")
      case (Some err)
      with i Inr p d show ?thesis by (simp add: put_item_def published_or_kept_def)
    next
      case None
      let ?w2 = "w1\<lparr>dynamodb := (dynamodb w1)((templates_table e, ''TEMPLATE'', ?sk) \<mapsto> item)\<rparr>"
      have a: "published_or_kept w ?w2 k"
        using pub d by (simp add: published_or_kept_def)
      have b: "published_or_kept ?w2 (snd (etp_save_to_dynamodb e xs ?w2)) k"
        using Cons.prems by (intro Cons.IH) simp
      from i Inr p None have "etp_save_to_dynamodb e (x # xs) w = etp_save_to_dynamodb e xs ?w2"
        by (simp add: put_item_def)
      with published_or_kept_trans [OF a b] show ?thesis by simp
    qed
  qed
qed

lemma etp_main_published:
  "published_or_kept w (snd (etp_main e recreated_only migrated_only w)) k"
proof (cases "bind_err (fetch_registry e w) (\<lambda>registry.
          bind_err (py_get registry ''total_templates'' (JInt 0)) (\<lambda>_. Inr registry))")
  case (Inl err)
  then show ?thesis by (simp add: etp_main_def published_or_kept_def)
next
  case (Inr registry)
  define p1 where "p1 = (if \<not> migrated_only then etp_process_recreated_templates e registry w
                else (Inr [], w))"
  obtain r1 w1 where p1: "p1 = (r1, w1)" by (cases p1)
  have i1: "(case r1 of Inl err \<Rightarrow> True | Inr embs \<Rightarrow> list_all published embs)
             \<and> dynamodb w1 = dynamodb w"
    using etp_process_recreated_templates_inv [of e registry w] p1
    by (auto simp: p1_def split: if_splits)
  show ?thesis
  proof (cases r1)
    case (Inl err)
    with Inr p1 i1 show ?thesis
      by (simp add: etp_main_def published_or_kept_def p1_def [symmetric])
  next
    case recreated: (Inr recreated)
    define p2 where "p2 = (if \<not> recreated_only then etp_process_migrated_templates e registry w1
                     else (Inr [], w1))"
    obtain r2 w2 where p2: "p2 = (r2, w2)" by (cases p2)
    have i2: "(case r2 of Inl err \<Rightarrow> True | Inr embs \<Rightarrow> list_all published embs)
               \<and> dynamodb w2 = dynamodb w1"
      using etp_process_migrated_templates_inv [of e registry w1] p2
      by (auto simp: p2_def split: if_splits)
    show ?thesis
    proof (cases r2)
      case (Inl err)
      with Inr p1 recreated p2 i1 i2 show ?thesis
        by (simp add: etp_main_def published_or_kept_def p1_def [symmetric] p2_def [symmetric])
    next
      case migrated: (Inr migrated)
      from i1 i2 recreated migrated have pub: "list_all published (recreated @ migrated)"
        by simp
      obtain r3 w3 where s: "etp_save_to_s3_vectors e (recreated @ migrated) w2 = (r3, w3)"
        by (cases "etp_save_to_s3_vectors e (recreated @ migrated) w2")
      then have d3: "dynamodb w3 = dynamodb w"
        using etp_save_to_s3_vectors_dynamodb [of e "recreated @ migrated" w2] i1 i2 by simp
      have "published_or_kept w3 (snd (etp_save_to_dynamodb e (recreated @ migrated) w3)) k"
        using pub by (rule etp_save_to_dynamodb_published)
      with d3 have "published_or_kept w (snd (etp_save_to_dynamodb e (recreated @ migrated) w3)) k"
        by (simp add: published_or_kept_def)
      with Inr p1 recreated p2 migrated s d3 i1 i2 show ?thesis
        by (auto simp: etp_main_def published_or_kept_def p1_def [symmetric] p2_def [symmetric]
            Let_def split: sum.splits)
    qed
  qed
qed

text \<open>The definitions a concrete run of \<^verbatim>\<open>main\<close> of process_existing_templates.py unfolds.\<close>

lemmas etp_main_eval =
  demo_env_def world0_def registry_world_def demo_registry_def demo_catalog_def site_abc_def
  etp_main_def fetch_registry_def get_object_def
  etp_process_recreated_templates_def etp_recreated_try_def
  etp_process_migrated_templates_def etp_migrated_try_def
  etp_build_embedding_text_def etp_generate_embedding_def
  etp_save_to_s3_vectors_def etp_vector_doc_def etp_update_vectors_index_def etp_item_def
  setdefault_append_def dict_setdefault_def py_in_set_def py_eq_def py_getitem_def
  put_object_def put_item_def utcnow_z_def logger_def
  vectors_bucket_def templates_table_def
  dict_index_def dict_get_def py_get_def py_len_def py_str_def py_join_def py_iter_def
  EMBEDDING_MODEL_ID_def MAX_INPUT_TOKENS_def FIGMA_ASSETS_BUCKET_def MIGRATED_SITES_BUCKET_def
  item_field_def field_of_def nl_indent_def dict_pick.simps Let_def

text \<open>
  C7, as amended. Every record that a run of either script writes to the metadata store
  carries the status value \<^verbatim>\<open>PUBLISHED\<close>, in upper case, the only status value the
  pipeline produces, and none is written without a status: whatever the run meets, the item
  under a key of the table is the one that was there before, or one whose \<^verbatim>\<open>status\<close> is
  \<^verbatim>\<open>PUBLISHED\<close>.
\<close>

theorem status_published:
  "(dynamodb (snd (eg_main e base_path template w)) k = dynamodb w k
    \<or> (\<exists>item. dynamodb (snd (eg_main e base_path template w)) k = Some item
          \<and> map_of item ''status'' = Some (JStr ''PUBLISHED'')))
   \<and> (dynamodb (snd (etp_main e recreated_only migrated_only w)) k = dynamodb w k
    \<or> (\<exists>item. dynamodb (snd (etp_main e recreated_only migrated_only w)) k = Some item
          \<and> map_of item ''status'' = Some (JStr ''PUBLISHED'')))"
  using eg_main_published [of w e base_path template k]
    etp_main_published [of w e recreated_only migrated_only k]
  by (auto simp: published_or_kept_def published_def split: option.splits)

text \<open>
  C7, witness: a run of each script in an environment where nothing fails. The item of the
  template \<open>t1\<close>, and the item of the migrated site \<open>abc\<close>, were not there before
  and are written with the status \<^verbatim>\<open>PUBLISHED\<close>.
\<close>

theorem status_published_witness:
  "dynamodb world0 (''rag-templates-dev'', ''TEMPLATE'', ''TEMPLATE#t1'') = None
   \<and> (\<exists>item. dynamodb (snd (eg_main demo_env [''repo''] (Some [''finance'', ''t1'']) world0))
                (''rag-templates-dev'', ''TEMPLATE'', ''TEMPLATE#t1'') = Some item
          \<and> map_of item ''status'' = Some (JStr ''PUBLISHED''))
   \<and> dynamodb registry_world (''rag-templates-dev'', ''TEMPLATE'', ''TEMPLATE#migrated-abc'') = None
   \<and> (\<exists>item. dynamodb (snd (etp_main demo_env False False registry_world))
                (''rag-templates-dev'', ''TEMPLATE'', ''TEMPLATE#migrated-abc'') = Some item
          \<and> map_of item ''status'' = Some (JStr ''PUBLISHED''))"
proof -
  have a: "dynamodb world0 (''rag-templates-dev'', ''TEMPLATE'', ''TEMPLATE#t1'') = None"
    "dynamodb registry_world (''rag-templates-dev'', ''TEMPLATE'', ''TEMPLATE#migrated-abc'') = None"
    by (simp_all add: world0_def registry_world_def)
  have b: "item_field (snd (eg_main demo_env [''repo''] (Some [''finance'', ''t1'']) world0))
             (''rag-templates-dev'', ''TEMPLATE'', ''TEMPLATE#t1'') ''template_id''
           = Some (JStr ''t1'')"
    by (simp add: eg_main_eval)
  have c: "item_field (snd (etp_main demo_env False False registry_world))
             (''rag-templates-dev'', ''TEMPLATE'', ''TEMPLATE#migrated-abc'') ''template_id''
           = Some (JStr ''migrated-abc'')"
    by (simp add: etp_main_eval)
  from b have b': "dynamodb (snd (eg_main demo_env [''repo''] (Some [''finance'', ''t1'']) world0))
                     (''rag-templates-dev'', ''TEMPLATE'', ''TEMPLATE#t1'') \<noteq> None"
    by (auto simp: item_field_def field_of_def split: option.splits)
  from c have c': "dynamodb (snd (etp_main demo_env False False registry_world))
                     (''rag-templates-dev'', ''TEMPLATE'', ''TEMPLATE#migrated-abc'') \<noteq> None"
    by (auto simp: item_field_def field_of_def split: option.splits)
  show ?thesis
    using a b' c'
      status_published [of demo_env "[''repo'']" "Some [''finance'', ''t1'']" world0
        "(''rag-templates-dev'', ''TEMPLATE'', ''TEMPLATE#t1'')"]
      status_published [of demo_env _ _ registry_world
        "(''rag-templates-dev'', ''TEMPLATE'', ''TEMPLATE#migrated-abc'')" False False]
    by auto
qed

text \<open>
  C7, counterexample: the item that \<^verbatim>\<open>main\<close> of generate_embeddings.py stores for the
  template \<open>t1\<close> has the status \<^verbatim>\<open>PUBLISHED\<close> and the sort key
  \<^verbatim>\<open>STATUS#PUBLISHED#t1\<close>; the value \<^verbatim>\<open>published\<close> of the claim is another string.
\<close>

theorem status_published_counterexample:
  "item_field (snd (eg_main demo_env [''repo''] (Some [''finance'', ''t1'']) world0))
     (''rag-templates-dev'', ''TEMPLATE'', ''TEMPLATE#t1'') ''status''
     = Some (JStr ''PUBLISHED'')
   \<and> item_field (snd (eg_main demo_env [''repo''] (Some [''finance'', ''t1'']) world0))
     (''rag-templates-dev'', ''TEMPLATE'', ''TEMPLATE#t1'') ''GSI1SK''
     = Some (JStr ''STATUS#PUBLISHED#t1'')
   \<and> JStr ''PUBLISHED'' \<noteq> JStr ''published''"
  by (simp add: eg_main_eval)

section \<open>What processing leaves untouched\<close>

lemma put_object_s3_stores [simp]: "logged (snd (put_object e b k doc w)) = logged w"
  by (simp add: put_object_def split: option.splits)

lemma eg_generate_embedding_s3 [simp]:
  "s3 (snd (eg_generate_embedding e text w)) = s3 w"
  by (simp add: eg_generate_embedding_def Let_def split: sum.splits prod.splits)

lemma eg_process_template_try_s3 [simp]:
  "s3 (snd (eg_process_template_try e p w)) = s3 w"
proof -
  have g: "eg_generate_embedding e t w = (r, w1) \<Longrightarrow> s3 w1 = s3 w" for t r w1
    using eg_generate_embedding_s3 [of e t w] by simp
  show ?thesis
    by (auto simp: eg_process_template_try_def utcnow_z_def dest: g
        split: sum.splits json.splits prod.splits)
qed

lemma eg_process_template_s3 [simp]:
  "s3 (snd (eg_process_template e p w)) = s3 w"
proof -
  have g: "eg_process_template_try e p w = (r, w1) \<Longrightarrow> s3 w1 = s3 w" for r w1
    using eg_process_template_try_s3 [of e p w] by simp
  show ?thesis
    by (auto simp: eg_process_template_def dest: g split: sum.splits prod.splits bool.splits)
qed

section \<open>Failures of a template and failures of a store\<close>

lemma eg_save_vectors_loop_append:
  "eg_save_vectors_loop e (xs @ ys) w =
     (case eg_save_vectors_loop e xs w of
        (Inl err, w1) \<Rightarrow> (Inl err, w1)
      | (Inr u, w1) \<Rightarrow> eg_save_vectors_loop e ys w1)"
  by (induction xs arbitrary: w) (auto split: sum.splits prod.splits)

lemma eg_save_to_dynamodb_append:
  "eg_save_to_dynamodb e (xs @ ys) w =
     (case eg_save_to_dynamodb e xs w of
        (Inl err, w1) \<Rightarrow> (Inl err, w1)
      | (Inr u, w1) \<Rightarrow> eg_save_to_dynamodb e ys w1)"
  by (induction xs arbitrary: w) (auto split: sum.splits prod.splits)

lemma logged_last_path:
  assumes "w' = logger lvl (a @ path_str p @ b) exc w0"
  shows "\<exists>lvl msg exc. logged w' \<noteq> [] \<and> last (logged w') = Log lvl msg exc
           \<and> sublist (path_str p) msg"
  using assms by (auto simp: logger_def intro: sublist_appendI)

lemma eg_process_template_None_logged:
  assumes "fst (eg_process_template e p w) = Inr None"
  shows "\<exists>lvl msg exc.
           logged (snd (eg_process_template e p w)) \<noteq> []
         \<and> last (logged (snd (eg_process_template e p w))) = Log lvl msg exc
         \<and> sublist (path_str p) msg"
proof (cases "path_exists e (p @ [''metadata.json''])")
  case (Inl err)
  with assms show ?thesis by (simp add: eg_process_template_def)
next
  case (Inr ex)
  show ?thesis
  proof (cases ex)
    case False
    with Inr have "snd (eg_process_template e p w)
                 = logger WARNING (''No metadata.json found in '' @ path_str p @ []) None w"
      by (simp add: eg_process_template_def)
    then show ?thesis by (rule logged_last_path)
  next
    case True
    obtain r w1 where r: "eg_process_template_try e p w = (r, w1)"
      by (cases "eg_process_template_try e p w")
    show ?thesis
    proof (cases r)
      case (Inl err)
      with Inr True r have "snd (eg_process_template e p w)
                 = logger ERROR (''Error processing template '' @ path_str p @ '': '') (Some err) w1"
        by (simp add: eg_process_template_def)
      then show ?thesis by (rule logged_last_path)
    next
      case res: (Inr result)
      with Inr True r assms show ?thesis
        by (simp add: eg_process_template_def)
    qed
  qed
qed

lemma eg_process_template_Some_truthy:
  assumes "fst (eg_process_template e p w) = Inr (Some result)"
  shows "truthy (JObj result)"
  using assms
  by (auto simp: eg_process_template_def eg_process_template_try_def eg_result_def utcnow_z_def
      split: bool.splits sum.splits json.splits prod.splits)

lemma eg_process_template_missing:
  assumes "path_exists e (p @ [''metadata.json'']) = Inr False"
  shows "eg_process_template e p w
           = (Inr None, logger WARNING (''No metadata.json found in '' @ path_str p) None w)"
  using assms by (simp add: eg_process_template_def)

lemma eg_process_template_load_fails:
  assumes "path_exists e (p @ [''metadata.json'']) = Inr True"
    "load_json_file e (p @ [''metadata.json'']) = Inl err"
  shows "eg_process_template e p w
           = (Inr None,
              logger ERROR (''Error processing template '' @ path_str p @ '': '') (Some err) w)"
  using assms by (simp add: eg_process_template_def eg_process_template_try_def)

lemma eg_process_template_not_a_dict:
  assumes "path_exists e (p @ [''metadata.json'']) = Inr True"
    "load_json_file e (p @ [''metadata.json'']) = Inr v" "\<forall>d. v \<noteq> JObj d"
  shows "eg_process_template e p w
           = (Inr None,
              logger ERROR (''Error processing template '' @ path_str p @ '': '')
                (Some AttributeError) w)"
  using assms
  by (cases v) (simp_all add: eg_process_template_def eg_process_template_try_def)

lemma eg_process_template_text_fails:
  assumes "path_exists e (p @ [''metadata.json'']) = Inr True"
    "load_json_file e (p @ [''metadata.json'']) = Inr (JObj metadata)"
    "eg_build_embedding_text (py_str_of e) metadata = Inl err"
  shows "eg_process_template e p w
           = (Inr None,
              logger ERROR (''Error processing template '' @ path_str p @ '': '') (Some err) w)"
  using assms by (simp add: eg_process_template_def eg_process_template_try_def)

lemma eg_process_template_embedding_fails:
  assumes "path_exists e (p @ [''metadata.json'']) = Inr True"
    "load_json_file e (p @ [''metadata.json'']) = Inr (JObj metadata)"
    "eg_build_embedding_text (py_str_of e) metadata = Inr tx"
    "fst (eg_generate_embedding e tx w) = Inl err"
  shows "eg_process_template e p w
           = (Inr None,
              logger ERROR (''Error processing template '' @ path_str p @ '': '') (Some err)
                (snd (eg_generate_embedding e tx w)))"
proof -
  obtain w1 where "eg_generate_embedding e tx w = (Inl err, w1)"
    using assms(4) by (cases "eg_generate_embedding e tx w") simp
  with assms show ?thesis
    by (simp add: eg_process_template_def eg_process_template_try_def)
qed

lemma eg_process_template_succeeds:
  assumes "path_exists e (p @ [''metadata.json'']) = Inr True"
    "load_json_file e (p @ [''metadata.json'']) = Inr (JObj metadata)"
    "eg_build_embedding_text (py_str_of e) metadata = Inr tx"
    "fst (eg_generate_embedding e tx w) = Inr v"
  shows "\<exists>result. fst (eg_process_template e p w) = Inr (Some result)
           \<and> map_of result ''template_id''
               = Some (dict_get metadata ''template_id'' (JStr (path_name p)))
           \<and> map_of result ''embedding'' = Some v"
proof -
  obtain w1 where "eg_generate_embedding e tx w = (Inr v, w1)"
    using assms(4) by (cases "eg_generate_embedding e tx w") simp
  with assms show ?thesis
    by (simp add: eg_process_template_def eg_process_template_try_def eg_result_def utcnow_z_def
        split: prod.splits)
qed

lemma eg_process_template_raises:
  assumes "path_exists e (p @ [''metadata.json'']) = Inl err"
  shows "eg_process_template e p w = (Inl err, w)"
  using assms by (simp add: eg_process_template_def)

lemma eg_process_template_dirs_step:
  assumes "path_is_dir e (ip @ [name]) = Inr True" "take 1 name \<noteq> ''.''"
  shows "(fst (eg_process_template e (ip @ [name]) w) = Inr None \<longrightarrow>
            eg_process_template_dirs e ip (name # names) embeddings w
              = eg_process_template_dirs e ip names embeddings
                  (snd (eg_process_template e (ip @ [name]) w)))
       \<and> (\<forall>result. fst (eg_process_template e (ip @ [name]) w) = Inr (Some result) \<longrightarrow>
            eg_process_template_dirs e ip (name # names) embeddings w
              = eg_process_template_dirs e ip names (embeddings @ [result])
                  (snd (eg_process_template e (ip @ [name]) w)))
       \<and> (\<forall>err. fst (eg_process_template e (ip @ [name]) w) = Inl err \<longrightarrow>
            eg_process_template_dirs e ip (name # names) embeddings w
              = (Inl err, snd (eg_process_template e (ip @ [name]) w)))"
proof (cases "eg_process_template e (ip @ [name]) w")
  case (Pair r w1)
  show ?thesis
  proof (cases r)
    case (Inl err)
    with Pair assms show ?thesis by simp
  next
    case res: (Inr res)
    show ?thesis
    proof (cases res)
      case None
      with Pair res assms show ?thesis by simp
    next
      case (Some result)
      with Pair res have "truthy (JObj result)"
        by (intro eg_process_template_Some_truthy [of e "ip @ [name]" w]) simp
      with Pair res Some assms show ?thesis by simp
    qed
  qed
qed

lemma eg_process_template_dirs_raises:
  assumes "path_is_dir e (ip @ [name]) = Inl err"
  shows "eg_process_template_dirs e ip (name # names) embeddings w = (Inl err, w)"
  using assms by simp

lemma eg_main_save_put_object_fails:
  assumes "fst (eg_save_vectors_loop e written w) = Inr ()"
    "eg_vector_doc x = Inr (tid, doc)"
    "put_object_error e (vectors_bucket e,
        ''template-embeddings/'' @ py_str (py_str_of e) tid @ ''.json'') = Some err"
  shows "eg_main_save e (written @ x # rest) w = (Inl err, snd (eg_save_vectors_loop e written w))"
proof -
  obtain w1 where d: "eg_save_vectors_loop e written w = (Inr (), w1)"
    using assms(1) by (cases "eg_save_vectors_loop e written w") auto
  with assms(2,3) have "eg_save_vectors_loop e (written @ x # rest) w = (Inl err, w1)"
    by (simp add: eg_save_vectors_loop_append put_object_def)
  with d show ?thesis
    by (simp add: eg_main_save_def eg_save_to_s3_vectors_def)
qed

lemma eg_main_save_put_item_fails:
  assumes "fst (eg_save_to_s3_vectors e (written @ x # rest) w) = Inr ()"
    "fst (eg_save_to_dynamodb e written (snd (eg_save_to_s3_vectors e (written @ x # rest) w))) = Inr ()"
    "eg_item (py_str_of e) x = Inr (tid, item)"
    "put_item_error e (templates_table e, ''TEMPLATE'',
        ''TEMPLATE#'' @ py_str (py_str_of e) tid) = Some err"
  shows "eg_main_save e (written @ x # rest) w =
           (Inl err, snd (eg_save_to_dynamodb e written
                            (snd (eg_save_to_s3_vectors e (written @ x # rest) w))))"
proof -
  obtain w1 where s: "eg_save_to_s3_vectors e (written @ x # rest) w = (Inr (), w1)"
    using assms(1) by (cases "eg_save_to_s3_vectors e (written @ x # rest) w") auto
  obtain w2 where d: "eg_save_to_dynamodb e written w1 = (Inr (), w2)"
    using assms(2) s by (cases "eg_save_to_dynamodb e written w1") auto
  with assms(3,4) have "eg_save_to_dynamodb e (written @ x # rest) w1 = (Inl err, w2)"
    by (simp add: eg_save_to_dynamodb_append put_item_def)
  with s d show ?thesis
    by (simp add: eg_main_save_def)
qed

text \<open>The definitions a concrete run of the template loop and of the writers unfolds.\<close>

lemmas isolation_eval =
  bad_metadata_env_def put_failing_env_def item_failing_env_def demo_env_def world0_def
  missing_metadata_env_def list_metadata_env_def bad_sections_env_def bad_sections_metadata_def
  unreadable_file_env_def unreadable_dir_env_def failing_model_env_def
  demo_embedding_def t1_def
  eg_main_save_def eg_process_template_def eg_process_template_try_def
  eg_build_embedding_text_def eg_generate_embedding_def eg_result_def
  eg_save_to_s3_vectors_def eg_vector_doc_def eg_item_def
  put_object_def put_item_def utcnow_z_def logger_def
  vectors_bucket_def templates_bucket_def templates_table_def
  dict_index_def dict_get_def py_get_def py_len_zero_vector py_str_def py_join_def py_iter_def
  py_slice_to_def path_name_def path_parent_def path_str_def
  EMBEDDING_MODEL_ID_def MAX_INPUT_TOKENS_def nl_indent_def dict_pick.simps

text \<open>
  C2, as amended. For every batch of templates, a failure while a template is processed is
  caught and logged with the path of the template: when the metadata file is missing, cannot
  be read or parsed, or is not a dictionary, when the text cannot be built, or when the
  embedding call fails, \<^verbatim>\<open>process_template\<close> returns \<^verbatim>\<open>None\<close> and adds to the log
  the record of the failure, with the exception that was caught; it writes to no store. That
  template alone is left out of the embeddings, and the loop goes on with the remaining
  directories; a template whose text is built and whose embedding is obtained is in the
  embeddings, with its own vector. Two kinds of failure are not caught. An error that the
  file system raises when \<^verbatim>\<open>exists\<close> or \<^verbatim>\<open>is_dir\<close> is asked ends the loops, and
  \<^verbatim>\<open>main\<close>, with that error. A failure of a store write ends the run with the exception of the store: when the
  vector of a template, or its item, cannot be written, the state is the one that the writes
  before it have left, and the templates after it are not written.
\<close>

theorem failure_isolation:
  "(path_exists e (p @ [''metadata.json'']) = Inr False \<longrightarrow>
      eg_process_template e p w
        = (Inr None, logger WARNING (''No metadata.json found in '' @ path_str p) None w))
   \<and> (\<forall>err. path_exists e (p @ [''metadata.json'']) = Inr True
         \<and> load_json_file e (p @ [''metadata.json'']) = Inl err \<longrightarrow>
      eg_process_template e p w
        = (Inr None,
           logger ERROR (''Error processing template '' @ path_str p @ '': '') (Some err) w))
   \<and> (\<forall>v. path_exists e (p @ [''metadata.json'']) = Inr True
         \<and> load_json_file e (p @ [''metadata.json'']) = Inr v \<and> (\<forall>d. v \<noteq> JObj d) \<longrightarrow>
      eg_process_template e p w
        = (Inr None,
           logger ERROR (''Error processing template '' @ path_str p @ '': '')
             (Some AttributeError) w))
   \<and> (\<forall>metadata err. path_exists e (p @ [''metadata.json'']) = Inr True
         \<and> load_json_file e (p @ [''metadata.json'']) = Inr (JObj metadata)
         \<and> eg_build_embedding_text (py_str_of e) metadata = Inl err \<longrightarrow>
      eg_process_template e p w
        = (Inr None,
           logger ERROR (''Error processing template '' @ path_str p @ '': '') (Some err) w))
   \<and> (\<forall>metadata tx err. path_exists e (p @ [''metadata.json'']) = Inr True
         \<and> load_json_file e (p @ [''metadata.json'']) = Inr (JObj metadata)
         \<and> eg_build_embedding_text (py_str_of e) metadata = Inr tx
         \<and> fst (eg_generate_embedding e tx w) = Inl err \<longrightarrow>
      eg_process_template e p w
        = (Inr None,
           logger ERROR (''Error processing template '' @ path_str p @ '': '') (Some err)
             (snd (eg_generate_embedding e tx w))))
   \<and> (\<forall>metadata tx v. path_exists e (p @ [''metadata.json'']) = Inr True
         \<and> load_json_file e (p @ [''metadata.json'']) = Inr (JObj metadata)
         \<and> eg_build_embedding_text (py_str_of e) metadata = Inr tx
         \<and> fst (eg_generate_embedding e tx w) = Inr v \<longrightarrow>
      (\<exists>result. fst (eg_process_template e p w) = Inr (Some result)
         \<and> map_of result ''template_id''
             = Some (dict_get metadata ''template_id'' (JStr (path_name p)))
         \<and> map_of result ''embedding'' = Some v))
   \<and> (fst (eg_process_template e p w) = Inr None \<longrightarrow>
      (\<exists>lvl msg exc.
          logged (snd (eg_process_template e p w)) \<noteq> []
        \<and> last (logged (snd (eg_process_template e p w))) = Log lvl msg exc
        \<and> sublist (path_str p) msg))
   \<and> s3 (snd (eg_process_template e p w)) = s3 w
   \<and> dynamodb (snd (eg_process_template e p w)) = dynamodb w
   \<and> (path_is_dir e (ip @ [name]) = Inr True \<and> take 1 name \<noteq> ''.'' \<longrightarrow>
        (fst (eg_process_template e (ip @ [name]) w) = Inr None \<longrightarrow>
           eg_process_template_dirs e ip (name # names) embeddings w
             = eg_process_template_dirs e ip names embeddings
                 (snd (eg_process_template e (ip @ [name]) w)))
      \<and> (\<forall>result. fst (eg_process_template e (ip @ [name]) w) = Inr (Some result) \<longrightarrow>
           eg_process_template_dirs e ip (name # names) embeddings w
             = eg_process_template_dirs e ip names (embeddings @ [result])
                 (snd (eg_process_template e (ip @ [name]) w)))
      \<and> (\<forall>err. fst (eg_process_template e (ip @ [name]) w) = Inl err \<longrightarrow>
           eg_process_template_dirs e ip (name # names) embeddings w
             = (Inl err, snd (eg_process_template e (ip @ [name]) w))))
   \<and> (\<forall>err. path_exists e (p @ [''metadata.json'']) = Inl err \<longrightarrow>
        eg_process_template e p w = (Inl err, w))
   \<and> (\<forall>err. path_is_dir e (ip @ [name]) = Inl err \<longrightarrow>
        eg_process_template_dirs e ip (name # names) embeddings w = (Inl err, w))
   \<and> (\<forall>names' err. path_exists e (base_path @ [industry]) = Inr True
        \<and> path_iterdir e (base_path @ [industry]) = Inr names'
        \<and> fst (eg_process_template_dirs e (base_path @ [industry]) names' embeddings w) = Inl err
        \<longrightarrow>
        eg_process_industries e base_path (industry # industries) embeddings w
          = (Inl err,
             snd (eg_process_template_dirs e (base_path @ [industry]) names' embeddings w)))
   \<and> (\<forall>err. fst (eg_process_all_templates e base_path w) = Inl err \<longrightarrow>
        eg_main e base_path None w = (Inl err, snd (eg_process_all_templates e base_path w)))
   \<and> (\<forall>rel err. path_exists e (base_path @ rel) = Inr True
        \<and> fst (eg_process_template e (base_path @ rel) w) = Inl err \<longrightarrow>
        eg_main e base_path (Some rel) w
          = (Inl err, snd (eg_process_template e (base_path @ rel) w)))
   \<and> (\<forall>tid doc err. fst (eg_save_vectors_loop e written w) = Inr ()
        \<and> eg_vector_doc x = Inr (tid, doc)
        \<and> put_object_error e (vectors_bucket e,
              ''template-embeddings/'' @ py_str (py_str_of e) tid @ ''.json'') = Some err \<longrightarrow>
        eg_main_save e (written @ x # rest) w = (Inl err, snd (eg_save_vectors_loop e written w)))
   \<and> (\<forall>tid item err. fst (eg_save_to_s3_vectors e (written @ x # rest) w) = Inr ()
        \<and> fst (eg_save_to_dynamodb e written (snd (eg_save_to_s3_vectors e (written @ x # rest) w)))
            = Inr ()
        \<and> eg_item (py_str_of e) x = Inr (tid, item)
        \<and> put_item_error e (templates_table e, ''TEMPLATE'',
              ''TEMPLATE#'' @ py_str (py_str_of e) tid) = Some err \<longrightarrow>
        eg_main_save e (written @ x # rest) w =
          (Inl err, snd (eg_save_to_dynamodb e written
                           (snd (eg_save_to_s3_vectors e (written @ x # rest) w)))))"
proof -
  have a1: "path_exists e (p @ [''metadata.json'']) = Inr False \<longrightarrow>
      eg_process_template e p w
        = (Inr None, logger WARNING (''No metadata.json found in '' @ path_str p) None w)"
    by (simp add: eg_process_template_missing)
  have a2: "\<forall>err. path_exists e (p @ [''metadata.json'']) = Inr True
         \<and> load_json_file e (p @ [''metadata.json'']) = Inl err \<longrightarrow>
      eg_process_template e p w
        = (Inr None,
           logger ERROR (''Error processing template '' @ path_str p @ '': '') (Some err) w)"
    by (simp add: eg_process_template_load_fails)
  have a3: "\<forall>v. path_exists e (p @ [''metadata.json'']) = Inr True
         \<and> load_json_file e (p @ [''metadata.json'']) = Inr v \<and> (\<forall>d. v \<noteq> JObj d) \<longrightarrow>
      eg_process_template e p w
        = (Inr None,
           logger ERROR (''Error processing template '' @ path_str p @ '': '')
             (Some AttributeError) w)"
    using eg_process_template_not_a_dict [of e p _ w] by blast
  have a4: "\<forall>metadata err. path_exists e (p @ [''metadata.json'']) = Inr True
         \<and> load_json_file e (p @ [''metadata.json'']) = Inr (JObj metadata)
         \<and> eg_build_embedding_text (py_str_of e) metadata = Inl err \<longrightarrow>
      eg_process_template e p w
        = (Inr None,
           logger ERROR (''Error processing template '' @ path_str p @ '': '') (Some err) w)"
    using eg_process_template_text_fails [of e p _ _ w] by blast
  have a5: "\<forall>metadata tx err. path_exists e (p @ [''metadata.json'']) = Inr True
         \<and> load_json_file e (p @ [''metadata.json'']) = Inr (JObj metadata)
         \<and> eg_build_embedding_text (py_str_of e) metadata = Inr tx
         \<and> fst (eg_generate_embedding e tx w) = Inl err \<longrightarrow>
      eg_process_template e p w
        = (Inr None,
           logger ERROR (''Error processing template '' @ path_str p @ '': '') (Some err)
             (snd (eg_generate_embedding e tx w)))"
    using eg_process_template_embedding_fails [of e p _ _ w] by blast
  have a6: "\<forall>metadata tx v. path_exists e (p @ [''metadata.json'']) = Inr True
         \<and> load_json_file e (p @ [''metadata.json'']) = Inr (JObj metadata)
         \<and> eg_build_embedding_text (py_str_of e) metadata = Inr tx
         \<and> fst (eg_generate_embedding e tx w) = Inr v \<longrightarrow>
      (\<exists>result. fst (eg_process_template e p w) = Inr (Some result)
         \<and> map_of result ''template_id''
             = Some (dict_get metadata ''template_id'' (JStr (path_name p)))
         \<and> map_of result ''embedding'' = Some v)"
    using eg_process_template_succeeds [of e p _ _ w] by blast
  have b: "fst (eg_process_template e p w) = Inr None \<longrightarrow>
      (\<exists>lvl msg exc.
          logged (snd (eg_process_template e p w)) \<noteq> []
        \<and> last (logged (snd (eg_process_template e p w))) = Log lvl msg exc
        \<and> sublist (path_str p) msg)"
    using eg_process_template_None_logged [of e p w] by blast
  have c: "path_is_dir e (ip @ [name]) = Inr True \<and> take 1 name \<noteq> ''.'' \<longrightarrow>
        (fst (eg_process_template e (ip @ [name]) w) = Inr None \<longrightarrow>
           eg_process_template_dirs e ip (name # names) embeddings w
             = eg_process_template_dirs e ip names embeddings
                 (snd (eg_process_template e (ip @ [name]) w)))
      \<and> (\<forall>result. fst (eg_process_template e (ip @ [name]) w) = Inr (Some result) \<longrightarrow>
           eg_process_template_dirs e ip (name # names) embeddings w
             = eg_process_template_dirs e ip names (embeddings @ [result])
                 (snd (eg_process_template e (ip @ [name]) w)))
      \<and> (\<forall>err. fst (eg_process_template e (ip @ [name]) w) = Inl err \<longrightarrow>
           eg_process_template_dirs e ip (name # names) embeddings w
             = (Inl err, snd (eg_process_template e (ip @ [name]) w)))"
    using eg_process_template_dirs_step [of e ip name w names embeddings] by blast
  have d1: "\<forall>err. path_exists e (p @ [''metadata.json'']) = Inl err \<longrightarrow>
        eg_process_template e p w = (Inl err, w)"
    by (simp add: eg_process_template_raises)
  have d2: "\<forall>err. path_is_dir e (ip @ [name]) = Inl err \<longrightarrow>
        eg_process_template_dirs e ip (name # names) embeddings w = (Inl err, w)"
    by simp
  have d3: "\<forall>names' err. path_exists e (base_path @ [industry]) = Inr True
        \<and> path_iterdir e (base_path @ [industry]) = Inr names'
        \<and> fst (eg_process_template_dirs e (base_path @ [industry]) names' embeddings w) = Inl err
        \<longrightarrow>
        eg_process_industries e base_path (industry # industries) embeddings w
          = (Inl err,
             snd (eg_process_template_dirs e (base_path @ [industry]) names' embeddings w))"
    by (auto split: prod.splits)
  have d4: "\<forall>err. fst (eg_process_all_templates e base_path w) = Inl err \<longrightarrow>
        eg_main e base_path None w = (Inl err, snd (eg_process_all_templates e base_path w))"
    by (auto simp: eg_main_def split: prod.splits)
  have d5: "\<forall>rel err. path_exists e (base_path @ rel) = Inr True
        \<and> fst (eg_process_template e (base_path @ rel) w) = Inl err \<longrightarrow>
        eg_main e base_path (Some rel) w
          = (Inl err, snd (eg_process_template e (base_path @ rel) w))"
    by (auto simp: eg_main_def split: prod.splits)
  have s1: "\<forall>tid doc err. fst (eg_save_vectors_loop e written w) = Inr ()
        \<and> eg_vector_doc x = Inr (tid, doc)
        \<and> put_object_error e (vectors_bucket e,
              ''template-embeddings/'' @ py_str (py_str_of e) tid @ ''.json'') = Some err \<longrightarrow>
        eg_main_save e (written @ x # rest) w = (Inl err, snd (eg_save_vectors_loop e written w))"
    using eg_main_save_put_object_fails [of e written w x _ _ _ rest] by blast
  have s2: "\<forall>tid item err. fst (eg_save_to_s3_vectors e (written @ x # rest) w) = Inr ()
        \<and> fst (eg_save_to_dynamodb e written (snd (eg_save_to_s3_vectors e (written @ x # rest) w)))
            = Inr ()
        \<and> eg_item (py_str_of e) x = Inr (tid, item)
        \<and> put_item_error e (templates_table e, ''TEMPLATE'',
              ''TEMPLATE#'' @ py_str (py_str_of e) tid) = Some err \<longrightarrow>
        eg_main_save e (written @ x # rest) w =
          (Inl err, snd (eg_save_to_dynamodb e written
                           (snd (eg_save_to_s3_vectors e (written @ x # rest) w))))"
    using eg_main_save_put_item_fails [of e written x rest w] by blast
  have st: "s3 (snd (eg_process_template e p w)) = s3 w"
    "dynamodb (snd (eg_process_template e p w)) = dynamodb w"
    by simp_all
  from a1 a2 a3 a4 a5 a6 b st c d1 d2 d3 d4 d5 s1 s2 show ?thesis
    by (intro conjI)
qed

text \<open>
  C2, witness. The directory \<^verbatim>\<open>finance/b\<close> fails in each of the ways that are caught:
  its metadata is missing, does not parse, is a list, has a number for its sections, or the
  model refuses the call; each time \<^verbatim>\<open>process_template\<close> returns \<^verbatim>\<open>None\<close> and
  logs the failure. Where nothing fails the result carries the identifier and the vector.
  With the metadata of \<^verbatim>\<open>finance/b\<close> malformed, the loop over the directories b and c
  goes on after b and returns the one embedding of c. When the file system raises, the error
  comes out of \<^verbatim>\<open>process_template\<close>, of the loops and of \<^verbatim>\<open>main\<close>. With the
  vector of A, or the item of A, refused by its store, \<^verbatim>\<open>main\<close> ends with the
  exception of the store.
\<close>

theorem failure_isolation_witness:
  "path_exists missing_metadata_env ([''repo'', ''finance'', ''b''] @ [''metadata.json'']) = Inr False
   \<and> eg_process_template missing_metadata_env [''repo'', ''finance'', ''b''] world0
       = (Inr None, logger WARNING (''No metadata.json found in '' @ path_str [''repo'', ''finance'', ''b'']) None world0)
   \<and> path_exists bad_metadata_env ([''repo'', ''finance'', ''b''] @ [''metadata.json'']) = Inr True
   \<and> load_json_file bad_metadata_env ([''repo'', ''finance'', ''b''] @ [''metadata.json'']) = Inl JSONDecodeError
   \<and> eg_process_template bad_metadata_env [''repo'', ''finance'', ''b''] world0
       = (Inr None,
          logger ERROR (''Error processing template '' @ path_str [''repo'', ''finance'', ''b''] @ '': '')
            (Some JSONDecodeError) world0)
   \<and> path_exists list_metadata_env ([''repo'', ''finance'', ''b''] @ [''metadata.json'']) = Inr True
   \<and> load_json_file list_metadata_env ([''repo'', ''finance'', ''b''] @ [''metadata.json'']) = Inr (JArr [])
   \<and> eg_process_template list_metadata_env [''repo'', ''finance'', ''b''] world0
       = (Inr None,
          logger ERROR (''Error processing template '' @ path_str [''repo'', ''finance'', ''b''] @ '': '')
            (Some AttributeError) world0)
   \<and> path_exists bad_sections_env ([''repo'', ''finance'', ''b''] @ [''metadata.json'']) = Inr True
   \<and> load_json_file bad_sections_env ([''repo'', ''finance'', ''b''] @ [''metadata.json'']) = Inr (JObj bad_sections_metadata)
   \<and> eg_build_embedding_text (py_str_of bad_sections_env) bad_sections_metadata = Inl TypeError
   \<and> eg_process_template bad_sections_env [''repo'', ''finance'', ''b''] world0
       = (Inr None,
          logger ERROR (''Error processing template '' @ path_str [''repo'', ''finance'', ''b''] @ '': '')
            (Some TypeError) world0)
   \<and> path_exists failing_model_env ([''repo'', ''finance'', ''b''] @ [''metadata.json'']) = Inr True
   \<and> load_json_file failing_model_env ([''repo'', ''finance'', ''b''] @ [''metadata.json'']) = Inr (JObj t1)
   \<and> eg_build_embedding_text (py_str_of failing_model_env) t1 = Inr t1_text
   \<and> fst (eg_generate_embedding failing_model_env t1_text world0)
       = Inl (ClientError ''ThrottlingException'')
   \<and> eg_process_template failing_model_env [''repo'', ''finance'', ''b''] world0
       = (Inr None,
          logger ERROR (''Error processing template '' @ path_str [''repo'', ''finance'', ''b''] @ '': '')
            (Some (ClientError ''ThrottlingException'')) (snd (eg_generate_embedding failing_model_env t1_text world0)))
   \<and> path_exists demo_env ([''repo'', ''finance'', ''b''] @ [''metadata.json'']) = Inr True
   \<and> load_json_file demo_env ([''repo'', ''finance'', ''b''] @ [''metadata.json'']) = Inr (JObj t1)
   \<and> eg_build_embedding_text (py_str_of demo_env) t1 = Inr t1_text
   \<and> fst (eg_generate_embedding demo_env t1_text world0) = Inr zero_vector
   \<and> (\<exists>result. fst (eg_process_template demo_env [''repo'', ''finance'', ''b''] world0) = Inr (Some result)
         \<and> map_of result ''template_id'' = Some (JStr ''t1'')
         \<and> map_of result ''embedding'' = Some zero_vector)
   \<and> path_is_dir bad_metadata_env ([''repo'', ''finance''] @ [''b'']) = Inr True
   \<and> take 1 ''b'' \<noteq> ''.''
   \<and> fst (eg_process_template bad_metadata_env ([''repo'', ''finance''] @ [''b'']) world0) = Inr None
   \<and> (\<exists>lvl msg exc.
          logged (snd (eg_process_template bad_metadata_env [''repo'', ''finance'', ''b''] world0)) \<noteq> []
        \<and> last (logged (snd (eg_process_template bad_metadata_env [''repo'', ''finance'', ''b''] world0)))
            = Log lvl msg exc
        \<and> sublist (path_str [''repo'', ''finance'', ''b'']) msg)
   \<and> eg_process_template_dirs bad_metadata_env [''repo'', ''finance''] [''b'', ''c''] [] world0
       = eg_process_template_dirs bad_metadata_env [''repo'', ''finance''] [''c''] []
           (snd (eg_process_template bad_metadata_env ([''repo'', ''finance''] @ [''b'']) world0))
   \<and> map_sum id length
       (fst (eg_process_template_dirs bad_metadata_env [''repo'', ''finance''] [''b'', ''c''] []
               world0)) = Inr 1
   \<and> path_exists unreadable_file_env ([''repo'', ''finance'', ''b''] @ [''metadata.json'']) = Inl FileError
   \<and> eg_process_template unreadable_file_env [''repo'', ''finance'', ''b''] world0 = (Inl FileError, world0)
   \<and> path_is_dir unreadable_dir_env ([''repo'', ''finance''] @ [''b'']) = Inl FileError
   \<and> eg_process_template_dirs unreadable_dir_env [''repo'', ''finance''] (''b'' # [''c'']) [] world0
       = (Inl FileError, world0)
   \<and> path_exists unreadable_tree_env ([''repo''] @ [''finance'']) = Inr True
   \<and> path_iterdir unreadable_tree_env ([''repo''] @ [''finance'']) = Inr [''b'']
   \<and> fst (eg_process_template_dirs unreadable_tree_env ([''repo''] @ [''finance'']) [''b''] [] world0)
       = Inl FileError
   \<and> eg_process_industries unreadable_tree_env [''repo''] (''finance'' # []) [] world0
       = (Inl FileError,
          snd (eg_process_template_dirs unreadable_tree_env ([''repo''] @ [''finance'']) [''b''] [] world0))
   \<and> fst (eg_process_all_templates unreadable_tree_env [''repo''] world0) = Inl FileError
   \<and> eg_main unreadable_tree_env [''repo''] None world0
       = (Inl FileError, snd (eg_process_all_templates unreadable_tree_env [''repo''] world0))
   \<and> path_exists unreadable_file_env ([''repo''] @ [''finance'', ''b'']) = Inr True
   \<and> fst (eg_process_template unreadable_file_env ([''repo''] @ [''finance'', ''b'']) world0) = Inl FileError
   \<and> eg_main unreadable_file_env [''repo''] (Some [''finance'', ''b'']) world0
       = (Inl FileError,
          snd (eg_process_template unreadable_file_env ([''repo''] @ [''finance'', ''b'']) world0))
   \<and> fst (eg_save_vectors_loop put_failing_env [] world0) = Inr ()
   \<and> put_object_error put_failing_env
        (vectors_bucket put_failing_env,
         ''template-embeddings/'' @ py_str (py_str_of put_failing_env) (JStr ''A'') @ ''.json'')
       = Some (ClientError ''AccessDenied'')
   \<and> eg_main_save put_failing_env ([] @ demo_embedding ''A'' # [demo_embedding ''B'']) world0
       = (Inl (ClientError ''AccessDenied''), snd (eg_save_vectors_loop put_failing_env [] world0))
   \<and> fst (eg_save_to_s3_vectors item_failing_env
             ([] @ demo_embedding ''A'' # [demo_embedding ''B'']) world0) = Inr ()
   \<and> put_item_error item_failing_env
        (templates_table item_failing_env, ''TEMPLATE'',
         ''TEMPLATE#'' @ py_str (py_str_of item_failing_env) (JStr ''A''))
       = Some (ClientError ''ProvisionedThroughputExceededException'')
   \<and> eg_main_save item_failing_env ([] @ demo_embedding ''A'' # [demo_embedding ''B'']) world0
       = (Inl (ClientError ''ProvisionedThroughputExceededException''),
          snd (eg_save_to_dynamodb item_failing_env []
                 (snd (eg_save_to_s3_vectors item_failing_env
                         ([] @ demo_embedding ''A'' # [demo_embedding ''B'']) world0))))"
proof -
  have hm:
    "path_exists missing_metadata_env ([''repo'', ''finance'', ''b''] @ [''metadata.json'']) = Inr False"
    by (simp_all add: isolation_eval)
  have hb:
    "path_exists bad_metadata_env ([''repo'', ''finance'', ''b''] @ [''metadata.json'']) = Inr True"
    "load_json_file bad_metadata_env ([''repo'', ''finance'', ''b''] @ [''metadata.json'']) = Inl JSONDecodeError"
    by (simp_all add: isolation_eval)
  have hl:
    "path_exists list_metadata_env ([''repo'', ''finance'', ''b''] @ [''metadata.json'']) = Inr True"
    "load_json_file list_metadata_env ([''repo'', ''finance'', ''b''] @ [''metadata.json'']) = Inr (JArr [])"
    "\<forall>d. JArr [] \<noteq> JObj d"
    by (simp_all add: isolation_eval)
  have hs:
    "path_exists bad_sections_env ([''repo'', ''finance'', ''b''] @ [''metadata.json'']) = Inr True"
    "load_json_file bad_sections_env ([''repo'', ''finance'', ''b''] @ [''metadata.json'']) = Inr (JObj bad_sections_metadata)"
    "eg_build_embedding_text (py_str_of bad_sections_env) bad_sections_metadata = Inl TypeError"
    by (simp_all add: isolation_eval)
  have hf:
    "path_exists failing_model_env ([''repo'', ''finance'', ''b''] @ [''metadata.json'']) = Inr True"
    "load_json_file failing_model_env ([''repo'', ''finance'', ''b''] @ [''metadata.json'']) = Inr (JObj t1)"
    by (simp_all add: isolation_eval)
  have hft:
    "eg_build_embedding_text (py_str_of failing_model_env) t1 = Inr t1_text"
    by (rule eg_build_embedding_text_t1)
  have hfg:
    "fst (eg_generate_embedding failing_model_env t1_text world0)
         = Inl (ClientError ''ThrottlingException'')"
    by (simp add: failing_model_env_def demo_env_def eg_generate_embedding_def)
  have ho:
    "path_exists demo_env ([''repo'', ''finance'', ''b''] @ [''metadata.json'']) = Inr True"
    "load_json_file demo_env ([''repo'', ''finance'', ''b''] @ [''metadata.json'']) = Inr (JObj t1)"
    by (simp_all add: isolation_eval)
  have hot:
    "eg_build_embedding_text (py_str_of demo_env) t1 = Inr t1_text"
    by (rule eg_build_embedding_text_t1)
  have hog:
    "fst (eg_generate_embedding demo_env t1_text world0) = Inr zero_vector"
    by (simp add: generate_embedding_eval)
  have hot1:
    "dict_get t1 ''template_id'' (JStr (path_name [''repo'', ''finance'', ''b''])) = JStr ''t1''"
    by (simp add: t1_def dict_get_def)
  have hl1:
    "path_is_dir bad_metadata_env ([''repo'', ''finance''] @ [''b'']) = Inr True"
    "take 1 ''b'' \<noteq> ''.''"
    by (simp_all add: isolation_eval)
  have hl2:
    "fst (eg_process_template bad_metadata_env ([''repo'', ''finance''] @ [''b'']) world0) = Inr None"
    by (simp add: isolation_eval)
  have el:
    "map_sum id length
         (fst (eg_process_template_dirs bad_metadata_env [''repo'', ''finance''] [''b'', ''c''] []
                 world0)) = Inr 1"
    by (simp add: isolation_eval)
  have huf:
    "path_exists unreadable_file_env ([''repo'', ''finance'', ''b''] @ [''metadata.json'']) = Inl FileError"
    by (simp_all add: isolation_eval)
  have hud:
    "path_is_dir unreadable_dir_env ([''repo'', ''finance''] @ [''b'']) = Inl FileError"
    by (simp_all add: isolation_eval)
  have hp:
    "fst (eg_save_vectors_loop put_failing_env [] world0) = Inr ()"
    "put_object_error put_failing_env
          (vectors_bucket put_failing_env,
           ''template-embeddings/'' @ py_str (py_str_of put_failing_env) (JStr ''A'') @ ''.json'')
         = Some (ClientError ''AccessDenied'')"
    by (simp_all add: isolation_eval)
  obtain doc where doc: "eg_vector_doc (demo_embedding ''A'') = Inr (JStr ''A'', doc)"
    by (simp add: isolation_eval)
  have hi:
    "fst (eg_save_to_s3_vectors item_failing_env
               ([] @ demo_embedding ''A'' # [demo_embedding ''B'']) world0) = Inr ()"
    "put_item_error item_failing_env
          (templates_table item_failing_env, ''TEMPLATE'',
           ''TEMPLATE#'' @ py_str (py_str_of item_failing_env) (JStr ''A''))
         = Some (ClientError ''ProvisionedThroughputExceededException'')"
    by (simp_all add: isolation_eval)
  have g: "fst (eg_save_to_dynamodb item_failing_env [] w) = Inr ()" for w
    by simp
  obtain item where item: "eg_item (py_str_of item_failing_env) (demo_embedding ''A'')
                             = Inr (JStr ''A'', item)"
    by (simp add: isolation_eval)
  note tm = failure_isolation [where e = missing_metadata_env and p = "[''repo'', ''finance'', ''b'']"
      and w = world0 and ip = "[''repo'', ''finance'']" and name = "''b''" and names = "[''c'']"
      and embeddings = "[]" and written = "[]" and x = "demo_embedding ''A''"
      and rest = "[demo_embedding ''B'']" and base_path = "[''repo'']"
      and industry = "''finance''" and industries = "[]"]
  note tb = failure_isolation [where e = bad_metadata_env and p = "[''repo'', ''finance'', ''b'']"
      and w = world0 and ip = "[''repo'', ''finance'']" and name = "''b''" and names = "[''c'']"
      and embeddings = "[]" and written = "[]" and x = "demo_embedding ''A''"
      and rest = "[demo_embedding ''B'']" and base_path = "[''repo'']"
      and industry = "''finance''" and industries = "[]"]
  note tl = failure_isolation [where e = list_metadata_env and p = "[''repo'', ''finance'', ''b'']"
      and w = world0 and ip = "[''repo'', ''finance'']" and name = "''b''" and names = "[''c'']"
      and embeddings = "[]" and written = "[]" and x = "demo_embedding ''A''"
      and rest = "[demo_embedding ''B'']" and base_path = "[''repo'']"
      and industry = "''finance''" and industries = "[]"]
  note ts = failure_isolation [where e = bad_sections_env and p = "[''repo'', ''finance'', ''b'']"
      and w = world0 and ip = "[''repo'', ''finance'']" and name = "''b''" and names = "[''c'']"
      and embeddings = "[]" and written = "[]" and x = "demo_embedding ''A''"
      and rest = "[demo_embedding ''B'']" and base_path = "[''repo'']"
      and industry = "''finance''" and industries = "[]"]
  note tf = failure_isolation [where e = failing_model_env and p = "[''repo'', ''finance'', ''b'']"
      and w = world0 and ip = "[''repo'', ''finance'']" and name = "''b''" and names = "[''c'']"
      and embeddings = "[]" and written = "[]" and x = "demo_embedding ''A''"
      and rest = "[demo_embedding ''B'']" and base_path = "[''repo'']"
      and industry = "''finance''" and industries = "[]"]
  note to = failure_isolation [where e = demo_env and p = "[''repo'', ''finance'', ''b'']"
      and w = world0 and ip = "[''repo'', ''finance'']" and name = "''b''" and names = "[''c'']"
      and embeddings = "[]" and written = "[]" and x = "demo_embedding ''A''"
      and rest = "[demo_embedding ''B'']" and base_path = "[''repo'']"
      and industry = "''finance''" and industries = "[]"]
  note tuf = failure_isolation [where e = unreadable_file_env and p = "[''repo'', ''finance'', ''b'']"
      and w = world0 and ip = "[''repo'', ''finance'']" and name = "''b''" and names = "[''c'']"
      and embeddings = "[]" and written = "[]" and x = "demo_embedding ''A''"
      and rest = "[demo_embedding ''B'']" and base_path = "[''repo'']"
      and industry = "''finance''" and industries = "[]"]
  note tud = failure_isolation [where e = unreadable_dir_env and p = "[''repo'', ''finance'', ''b'']"
      and w = world0 and ip = "[''repo'', ''finance'']" and name = "''b''" and names = "[''c'']"
      and embeddings = "[]" and written = "[]" and x = "demo_embedding ''A''"
      and rest = "[demo_embedding ''B'']" and base_path = "[''repo'']"
      and industry = "''finance''" and industries = "[]"]
  note tp = failure_isolation [where e = put_failing_env and p = "[''repo'', ''finance'', ''b'']"
      and w = world0 and ip = "[''repo'', ''finance'']" and name = "''b''" and names = "[''c'']"
      and embeddings = "[]" and written = "[]" and x = "demo_embedding ''A''"
      and rest = "[demo_embedding ''B'']" and base_path = "[''repo'']"
      and industry = "''finance''" and industries = "[]"]
  note ti = failure_isolation [where e = item_failing_env and p = "[''repo'', ''finance'', ''b'']"
      and w = world0 and ip = "[''repo'', ''finance'']" and name = "''b''" and names = "[''c'']"
      and embeddings = "[]" and written = "[]" and x = "demo_embedding ''A''"
      and rest = "[demo_embedding ''B'']" and base_path = "[''repo'']"
      and industry = "''finance''" and industries = "[]"]
  from tm [THEN conjunct1] hm have pm:
    "eg_process_template missing_metadata_env [''repo'', ''finance'', ''b''] world0
         = (Inr None, logger WARNING (''No metadata.json found in '' @ path_str [''repo'', ''finance'', ''b'']) None world0)"
    by blast
  from tb [THEN conjunct2, THEN conjunct1] hb have pb:
    "eg_process_template bad_metadata_env [''repo'', ''finance'', ''b''] world0
         = (Inr None,
            logger ERROR (''Error processing template '' @ path_str [''repo'', ''finance'', ''b''] @ '': '')
              (Some JSONDecodeError) world0)"
    by blast
  from tl [THEN conjunct2, THEN conjunct2, THEN conjunct1] hl have pl:
    "eg_process_template list_metadata_env [''repo'', ''finance'', ''b''] world0
         = (Inr None,
            logger ERROR (''Error processing template '' @ path_str [''repo'', ''finance'', ''b''] @ '': '')
              (Some AttributeError) world0)"
    by blast
  from ts [THEN conjunct2, THEN conjunct2, THEN conjunct2, THEN conjunct1] hs have ps:
    "eg_process_template bad_sections_env [''repo'', ''finance'', ''b''] world0
         = (Inr None,
            logger ERROR (''Error processing template '' @ path_str [''repo'', ''finance'', ''b''] @ '': '')
              (Some TypeError) world0)"
    by blast
  from tf [THEN conjunct2, THEN conjunct2, THEN conjunct2, THEN conjunct2, THEN conjunct1] hf hft hfg have pf:
    "eg_process_template failing_model_env [''repo'', ''finance'', ''b''] world0
         = (Inr None,
            logger ERROR (''Error processing template '' @ path_str [''repo'', ''finance'', ''b''] @ '': '')
              (Some (ClientError ''ThrottlingException'')) (snd (eg_generate_embedding failing_model_env t1_text world0)))"
    by blast
  from to [THEN conjunct2, THEN conjunct2, THEN conjunct2, THEN conjunct2, THEN conjunct2, THEN conjunct1] ho hot hog have "\<exists>result. fst (eg_process_template demo_env [''repo'', ''finance'', ''b''] world0) = Inr (Some result)
         \<and> map_of result ''template_id''
             = Some (dict_get t1 ''template_id'' (JStr (path_name [''repo'', ''finance'', ''b''])))
         \<and> map_of result ''embedding'' = Some zero_vector"
    by blast
  with hot1 have po:
    "(\<exists>result. fst (eg_process_template demo_env [''repo'', ''finance'', ''b''] world0) = Inr (Some result)
           \<and> map_of result ''template_id'' = Some (JStr ''t1'')
           \<and> map_of result ''embedding'' = Some zero_vector)"
    by simp
  have hl2': "fst (eg_process_template bad_metadata_env [''repo'', ''finance'', ''b''] world0) = Inr None"
    using hl2 by simp
  from tb [THEN conjunct2, THEN conjunct2, THEN conjunct2, THEN conjunct2, THEN conjunct2, THEN conjunct2, THEN conjunct1] hl2' have pl1:
    "(\<exists>lvl msg exc.
            logged (snd (eg_process_template bad_metadata_env [''repo'', ''finance'', ''b''] world0)) \<noteq> []
          \<and> last (logged (snd (eg_process_template bad_metadata_env [''repo'', ''finance'', ''b''] world0)))
              = Log lvl msg exc
          \<and> sublist (path_str [''repo'', ''finance'', ''b'']) msg)"
    by blast
  from tb [THEN conjunct2, THEN conjunct2, THEN conjunct2, THEN conjunct2, THEN conjunct2, THEN conjunct2, THEN conjunct2, THEN conjunct2, THEN conjunct2, THEN conjunct1] hl1 hl2 have pl2:
    "eg_process_template_dirs bad_metadata_env [''repo'', ''finance''] [''b'', ''c''] [] world0
         = eg_process_template_dirs bad_metadata_env [''repo'', ''finance''] [''c''] []
             (snd (eg_process_template bad_metadata_env ([''repo'', ''finance''] @ [''b'']) world0))"
    by blast
  from tuf [THEN conjunct2, THEN conjunct2, THEN conjunct2, THEN conjunct2, THEN conjunct2, THEN conjunct2, THEN conjunct2, THEN conjunct2, THEN conjunct2, THEN conjunct2, THEN conjunct1] huf have puf:
    "eg_process_template unreadable_file_env [''repo'', ''finance'', ''b''] world0 = (Inl FileError, world0)"
    by blast
  from tud [THEN conjunct2, THEN conjunct2, THEN conjunct2, THEN conjunct2, THEN conjunct2, THEN conjunct2, THEN conjunct2, THEN conjunct2, THEN conjunct2, THEN conjunct2, THEN conjunct2, THEN conjunct1] hud have pud:
    "eg_process_template_dirs unreadable_dir_env [''repo'', ''finance''] (''b'' # [''c'']) [] world0
         = (Inl FileError, world0)"
    by blast
  from tp [THEN conjunct2, THEN conjunct2, THEN conjunct2, THEN conjunct2, THEN conjunct2, THEN conjunct2, THEN conjunct2, THEN conjunct2, THEN conjunct2, THEN conjunct2, THEN conjunct2, THEN conjunct2, THEN conjunct2, THEN conjunct2, THEN conjunct2, THEN conjunct1] hp doc have pp:
    "eg_main_save put_failing_env ([] @ demo_embedding ''A'' # [demo_embedding ''B'']) world0
         = (Inl (ClientError ''AccessDenied''), snd (eg_save_vectors_loop put_failing_env [] world0))"
    by blast
  from ti [THEN conjunct2, THEN conjunct2, THEN conjunct2, THEN conjunct2, THEN conjunct2, THEN conjunct2, THEN conjunct2, THEN conjunct2, THEN conjunct2, THEN conjunct2, THEN conjunct2, THEN conjunct2, THEN conjunct2, THEN conjunct2, THEN conjunct2, THEN conjunct2] hi g item have pi:
    "eg_main_save item_failing_env ([] @ demo_embedding ''A'' # [demo_embedding ''B'']) world0
         = (Inl (ClientError ''ProvisionedThroughputExceededException''),
            snd (eg_save_to_dynamodb item_failing_env []
                   (snd (eg_save_to_s3_vectors item_failing_env
                           ([] @ demo_embedding ''A'' # [demo_embedding ''B'']) world0))))"
    by blast
  note tt = failure_isolation [where e = unreadable_tree_env and p = "[''repo'', ''finance'', ''b'']"
      and w = world0 and ip = "[''repo'', ''finance'']" and name = "''b''" and names = "[''c'']"
      and embeddings = "[]" and written = "[]" and x = "demo_embedding ''A''"
      and rest = "[demo_embedding ''B'']" and base_path = "[''repo'']"
      and industry = "''finance''" and industries = "[]"]
  have h3:
    "path_exists unreadable_tree_env ([''repo''] @ [''finance'']) = Inr True"
    "path_iterdir unreadable_tree_env ([''repo''] @ [''finance'']) = Inr [''b'']"
    "fst (eg_process_template_dirs unreadable_tree_env ([''repo''] @ [''finance'']) [''b''] [] world0)
         = Inl FileError"
    by (simp_all add: unreadable_tree_env_def demo_env_def)
  have h4:
    "fst (eg_process_all_templates unreadable_tree_env [''repo''] world0) = Inl FileError"
    by (simp add: unreadable_tree_env_def demo_env_def eg_process_all_templates_def
        VALID_INDUSTRIES_def)
  have h5:
    "path_exists unreadable_file_env ([''repo''] @ [''finance'', ''b'']) = Inr True"
    "fst (eg_process_template unreadable_file_env ([''repo''] @ [''finance'', ''b'']) world0) = Inl FileError"
    by (simp_all add: isolation_eval)
  from tt [THEN conjunct2, THEN conjunct2, THEN conjunct2, THEN conjunct2, THEN conjunct2, THEN conjunct2, THEN conjunct2, THEN conjunct2, THEN conjunct2, THEN conjunct2, THEN conjunct2, THEN conjunct2, THEN conjunct1] h3 have p3:
    "eg_process_industries unreadable_tree_env [''repo''] (''finance'' # []) [] world0
         = (Inl FileError,
            snd (eg_process_template_dirs unreadable_tree_env ([''repo''] @ [''finance'']) [''b''] [] world0))"
    by blast
  from tt [THEN conjunct2, THEN conjunct2, THEN conjunct2, THEN conjunct2, THEN conjunct2, THEN conjunct2, THEN conjunct2, THEN conjunct2, THEN conjunct2, THEN conjunct2, THEN conjunct2, THEN conjunct2, THEN conjunct2, THEN conjunct1] h4 have p4:
    "eg_main unreadable_tree_env [''repo''] None world0
         = (Inl FileError, snd (eg_process_all_templates unreadable_tree_env [''repo''] world0))"
    by blast
  from tuf [THEN conjunct2, THEN conjunct2, THEN conjunct2, THEN conjunct2, THEN conjunct2, THEN conjunct2, THEN conjunct2, THEN conjunct2, THEN conjunct2, THEN conjunct2, THEN conjunct2, THEN conjunct2, THEN conjunct2, THEN conjunct2, THEN conjunct1] h5 have p5:
    "eg_main unreadable_file_env [''repo''] (Some [''finance'', ''b'']) world0
         = (Inl FileError,
            snd (eg_process_template unreadable_file_env ([''repo''] @ [''finance'', ''b'']) world0))"
    by blast
  from hm pm hb pb hl(1,2) pl hs ps hf hft hfg pf ho hot hog po hl1 hl2 pl1 pl2 el huf puf hud pud
    h3 p3 h4 p4 h5 p5 hp pp hi pi
  show ?thesis
    by (intro conjI)
qed

text \<open>
  C2, counterexample. The batch is B, A, C and the vectors bucket refuses the vector of A.
  \<^verbatim>\<open>main\<close> ends with the exception of the store and logs nothing; the vector of B has
  been written, the vector of C and the index have not, and no item at all has reached the
  metadata store, that of B and C included.
\<close>

theorem failure_isolation_counterexample:
  "fst (eg_main_save put_failing_env
          [demo_embedding ''B'', demo_embedding ''A'', demo_embedding ''C''] world0)
     = Inl (ClientError ''AccessDenied'')
   \<and> logged (snd (eg_main_save put_failing_env
          [demo_embedding ''B'', demo_embedding ''A'', demo_embedding ''C''] world0)) = []
   \<and> s3 (snd (eg_main_save put_failing_env
          [demo_embedding ''B'', demo_embedding ''A'', demo_embedding ''C''] world0))
        (''bbws-dev-vectors'', ''template-embeddings/B.json'') \<noteq> None
   \<and> s3 (snd (eg_main_save put_failing_env
          [demo_embedding ''B'', demo_embedding ''A'', demo_embedding ''C''] world0))
        (''bbws-dev-vectors'', ''template-embeddings/C.json'') = None
   \<and> s3 (snd (eg_main_save put_failing_env
          [demo_embedding ''B'', demo_embedding ''A'', demo_embedding ''C''] world0))
        (''bbws-dev-vectors'', ''template-embeddings/index.json'') = None
   \<and> dynamodb (snd (eg_main_save put_failing_env
          [demo_embedding ''B'', demo_embedding ''A'', demo_embedding ''C''] world0))
        (''rag-templates-dev'', ''TEMPLATE'', ''TEMPLATE#B'') = None
   \<and> dynamodb (snd (eg_main_save put_failing_env
          [demo_embedding ''B'', demo_embedding ''A'', demo_embedding ''C''] world0))
        (''rag-templates-dev'', ''TEMPLATE'', ''TEMPLATE#C'') = None"
  by (simp add: isolation_eval)

section \<open>Running the pipeline again\<close>

text \<open>
  Records that agree up to a list \<open>T\<close> of time fields are read alike by the writers: the
  vector documents and the index entries are the same, the items agree up to \<open>T\<close>.
\<close>

lemma bind_err_Inr_E:
  assumes "bind_err m f = Inr y"
  obtains x where "m = Inr x" "f x = Inr y"
  using assms by (auto simp: bind_err_Inr_iff)

lemma blank_fields_Nil [simp]: "blank_fields [] d = d"
  by (induction d) (auto simp: blank_fields_def)

lemma blank_doc_Nil [simp]: "blank_doc [] doc = doc"
  by (cases doc) (simp_all add: blank_doc_def)

lemma blank_fields_simps [simp]:
  "blank_fields T [] = []"
  "blank_fields T ((k, v) # d) = (k, if k \<in> set T then JNull else v) # blank_fields T d"
  "blank_fields T (a @ b) = blank_fields T a @ blank_fields T b"
  by (simp_all add: blank_fields_def)

lemma blank_fields_empty_iff:
  "blank_fields T d = blank_fields T d' \<Longrightarrow> (d = []) = (d' = [])"
  by (cases d; cases d') (auto simp: blank_fields_def)

lemma map_of_blank_fields:
  "map_of (blank_fields T d) k
     = (if k \<in> set T then map_option (\<lambda>v. JNull) (map_of d k) else map_of d k)"
  by (induction d) (auto simp: blank_fields_def)

lemma dict_index_blank:
  assumes "blank_fields T x = blank_fields T x'" "k \<notin> set T"
  shows "dict_index x k = dict_index x' k"
proof -
  have "map_of (blank_fields T x) k = map_of (blank_fields T x') k"
    using assms(1) by simp
  with assms(2) have "map_of x k = map_of x' k"
    by (simp add: map_of_blank_fields)
  then show ?thesis by (simp add: dict_index_def)
qed

lemma dict_pick_blank:
  assumes "blank_fields T x = blank_fields T x'" "set ks \<inter> set T = {}"
  shows "dict_pick x ks = dict_pick x' ks"
  using assms(2)
proof (induction ks)
  case Nil
  show ?case by (simp add: dict_pick.simps)
next
  case (Cons k ks)
  then have "dict_index x k = dict_index x' k" "dict_pick x ks = dict_pick x' ks"
    using dict_index_blank [OF assms(1), of k] by auto
  then show ?case by (simp add: dict_pick.simps)
qed

lemma dict_pick_blank_rel:
  assumes "blank_fields T x = blank_fields T x'"
  shows "map_sum id (blank_fields T) (dict_pick x ks)
       = map_sum id (blank_fields T) (dict_pick x' ks)"
proof (induction ks)
  case Nil
  show ?case by (simp add: dict_pick.simps)
next
  case (Cons k ks)
  have "map_of (blank_fields T x) k = map_of (blank_fields T x') k"
    using assms by simp
  then have m: "if k \<in> set T
                then (map_of x k = None) = (map_of x' k = None)
                else map_of x k = map_of x' k"
    by (auto simp: map_of_blank_fields split: if_splits)
  show ?case
    using Cons m
    by (cases "dict_pick x ks"; cases "dict_pick x' ks"; cases "map_of x k"; cases "map_of x' k")
       (auto simp: dict_pick.simps dict_index_def split: if_splits)
qed

lemma not_time_field:
  assumes "set T \<subseteq> set time_fields"
  shows "''template_id'' \<notin> set T" "''embedding'' \<notin> set T" "''industry'' \<notin> set T"
    "''status'' \<notin> set T"
    "set [''name'', ''industry'', ''cta_intent'', ''design_style'', ''sections'',
          ''keywords'', ''status'', ''s3_path'', ''preview_url''] \<inter> set T = {}"
    "set [''template_id'', ''name'', ''industry''] \<inter> set T = {}"
    "set [''name'', ''industry'', ''cta_intent'', ''design_style'', ''sections'',
          ''keywords'', ''color_palette'', ''customizable_fields'', ''css_variables'',
          ''description'', ''figma_source'', ''s3_path'', ''preview_url''] \<inter> set T = {}"
  using assms by (auto simp: time_fields_def)

lemma eg_vector_doc_blank:
  assumes "set T \<subseteq> set time_fields" "blank_fields T x = blank_fields T x'"
  shows "eg_vector_doc x = eg_vector_doc x'"
  unfolding eg_vector_doc_def
  by (simp only: dict_index_blank [OF assms(2) not_time_field(1) [OF assms(1)]]
      dict_index_blank [OF assms(2) not_time_field(2) [OF assms(1)]]
      dict_pick_blank [OF assms(2) not_time_field(5) [OF assms(1)]])

lemma eg_save_vectors_loop_blank:
  assumes "set T \<subseteq> set time_fields"
  shows "map (blank_fields T) E = map (blank_fields T) E' \<Longrightarrow>
         eg_save_vectors_loop e E w = eg_save_vectors_loop e E' w"
proof (induction E arbitrary: E' w)
  case Nil
  then show ?case by simp
next
  case (Cons x xs)
  then obtain x' xs' where E': "E' = x' # xs'" "blank_fields T x = blank_fields T x'"
    "map (blank_fields T) xs = map (blank_fields T) xs'"
    by (cases E') auto
  from eg_vector_doc_blank [OF assms E'(2)] Cons.IH [OF E'(3)] E'(1) show ?case
    by (simp split: sum.splits prod.splits)
qed

lemma eg_index_templates_blank:
  assumes "set T \<subseteq> set time_fields"
  shows "map (blank_fields T) E = map (blank_fields T) E' \<Longrightarrow>
         eg_index_templates E = eg_index_templates E'"
proof (induction E arbitrary: E')
  case Nil
  then show ?case by simp
next
  case (Cons x xs)
  then obtain x' xs' where E': "E' = x' # xs'" "blank_fields T x = blank_fields T x'"
    "map (blank_fields T) xs = map (blank_fields T) xs'"
    by (cases E') auto
  from dict_pick_blank [OF E'(2) not_time_field(6) [OF assms]] Cons.IH [OF E'(3)] E'(1)
  show ?case by simp
qed

lemma eg_save_to_s3_vectors_blank:
  assumes "set T \<subseteq> set time_fields" "map (blank_fields T) E = map (blank_fields T) E'"
  shows "eg_save_to_s3_vectors e E w = eg_save_to_s3_vectors e E' w"
proof -
  have len: "length E = length E'"
    using assms(2) by (rule map_eq_imp_length_eq)
  show ?thesis
    unfolding eg_save_to_s3_vectors_def eg_save_vectors_loop_blank [OF assms]
      eg_index_templates_blank [OF assms] len ..
qed

lemma eg_item_blank:
  assumes "set T \<subseteq> set time_fields" "blank_fields T x = blank_fields T x'"
  shows "map_sum id (map_prod id (blank_fields T)) (eg_item str_of x)
       = map_sum id (map_prod id (blank_fields T)) (eg_item str_of x')"
proof -
  note i1 = dict_index_blank [OF assms(2) not_time_field(1) [OF assms(1)]]
  note i2 = dict_index_blank [OF assms(2) not_time_field(3) [OF assms(1)]]
  note i3 = dict_index_blank [OF assms(2) not_time_field(4) [OF assms(1)]]
  note p1 = dict_pick_blank [OF assms(2) not_time_field(7) [OF assms(1)]]
  note p2 = dict_pick_blank_rel [OF assms(2),
      of "[''embedding_model'', ''status'', ''created_at'', ''updated_at'']"]
  have nt: "''PK'' \<notin> set T" "''SK'' \<notin> set T" "''vector_id'' \<notin> set T" "''GSI1PK'' \<notin> set T"
    "''GSI1SK'' \<notin> set T" "''template_id'' \<notin> set T"
    using assms(1) by (auto simp: time_fields_def)
  show ?thesis
    unfolding eg_item_def i1 i2 i3 p1
    using p2 nt
    by (cases "dict_pick x [''embedding_model'', ''status'', ''created_at'', ''updated_at'']";
        cases "dict_pick x' [''embedding_model'', ''status'', ''created_at'', ''updated_at'']")
       (auto simp: bind_err_def split: sum.splits)
qed

text \<open>
  Stores that become two others by the same writes up to \<open>f\<close>; writing twice what was
  written once changes nothing up to \<open>f\<close>.
\<close>

lemma map_option_comp_add:
  "map_option f \<circ> (m ++ n) = (map_option f \<circ> m) ++ (map_option f \<circ> n)"
  by (rule ext) (simp add: map_add_def split: option.splits)

lemma map_add_twice: "a ++ b ++ b = a ++ b"
  by (rule ext) (simp add: map_add_def split: option.splits)

lemma map_option_ident_comp: "map_option (\<lambda>v. v) \<circ> m = m"
  by (rule ext) (simp add: option.map_ident)

lemma same_writes_refl: "same_writes f m m m' m'"
  unfolding same_writes_def by (intro exI [of _ Map.empty]) simp

lemma same_writes_trans:
  assumes "same_writes f m m1 m' m1'" "same_writes f m1 m2 m1' m2'"
  shows "same_writes f m m2 m' m2'"
proof -
  from assms(1) obtain M M' where 1: "m1 = m ++ M" "m1' = m' ++ M'"
    "map_option f \<circ> M = map_option f \<circ> M'"
    unfolding same_writes_def by blast
  from assms(2) obtain N N' where 2: "m2 = m1 ++ N" "m2' = m1' ++ N'"
    "map_option f \<circ> N = map_option f \<circ> N'"
    unfolding same_writes_def by blast
  show ?thesis
    unfolding same_writes_def
    using 1 2 by (intro exI [of _ "M ++ N"] exI [of _ "M' ++ N'"]) (simp add: map_option_comp_add)
qed

lemma same_writes_upd:
  assumes "f v = f v'"
  shows "same_writes f m (m(k \<mapsto> v)) m' (m'(k \<mapsto> v'))"
  unfolding same_writes_def
  using assms by (intro exI [of _ "[k \<mapsto> v]"] exI [of _ "[k \<mapsto> v']"]) (auto simp: fun_eq_iff)

lemma same_writes_again:
  assumes "same_writes f m m1 m1 m2"
  shows "map_option f \<circ> m2 = map_option f \<circ> m1"
proof -
  from assms obtain M M' where 1: "m1 = m ++ M" "m2 = m1 ++ M'"
    "map_option f \<circ> M = map_option f \<circ> M'"
    unfolding same_writes_def by blast
  from 1 show ?thesis by (simp add: map_option_comp_add map_add_twice)
qed

lemma same_writes_id:
  assumes "same_writes (\<lambda>v. v) m m1 m1 m2"
  shows "m2 = m1"
  using same_writes_again [OF assms] by (simp add: map_option_ident_comp)

lemma map_option_comp_dom:
  assumes "map_option f \<circ> m = map_option f \<circ> m'"
  shows "dom m = dom m'"
proof -
  have "(m k = None) = (m' k = None)" for k
    using fun_cong [OF assms, of k] by (cases "m k"; cases "m' k") simp_all
  then show ?thesis by (auto simp: dom_def)
qed

text \<open>
  Two calls of the processing stage, in any two worlds, return the same records up to the
  fields of \<open>T\<close>, when the clock stands still or \<open>T\<close> holds the fields that read it.
\<close>

lemma eg_generate_embedding_fst:
  "fst (eg_generate_embedding e text w) = fst (eg_generate_embedding e text w')"
  by (simp add: eg_generate_embedding_def Let_def split: sum.splits prod.splits)

lemma eg_result_blank:
  assumes "(\<forall>n. clock e n = clock e 0) \<or> set time_fields \<subseteq> set T"
  shows "blank_fields T (eg_result e p m tx v (clock e a @ ''Z'') (clock e b @ ''Z''))
       = blank_fields T (eg_result e p m tx v (clock e a' @ ''Z'') (clock e b' @ ''Z''))"
  using assms
proof
  assume c: "\<forall>n. clock e n = clock e 0"
  have "clock e a = clock e a'" "clock e b = clock e b'"
    using c [rule_format, of a] c [rule_format, of a'] c [rule_format, of b]
      c [rule_format, of b'] by simp_all
  then show ?thesis by simp
next
  assume "set time_fields \<subseteq> set T"
  then have "''created_at'' \<in> set T" "''updated_at'' \<in> set T"
    by (auto simp: time_fields_def)
  then show ?thesis by (simp add: eg_result_def)
qed

lemma eg_process_template_try_rel:
  assumes "(\<forall>n. clock e n = clock e 0) \<or> set time_fields \<subseteq> set T"
  shows "map_sum id (blank_fields T) (fst (eg_process_template_try e p w))
       = map_sum id (blank_fields T) (fst (eg_process_template_try e p w'))"
proof (cases "load_json_file e (p @ [''metadata.json''])")
  case (Inl err)
  then show ?thesis by (simp add: eg_process_template_try_def)
next
  case (Inr j)
  show ?thesis
  proof (cases "\<exists>metadata. j = JObj metadata")
    case False
    with Inr show ?thesis by (cases j) (simp_all add: eg_process_template_try_def)
  next
    case True
    then obtain metadata where j: "j = JObj metadata" by blast
    show ?thesis
    proof (cases "eg_build_embedding_text (py_str_of e) metadata")
      case (Inl err)
      with Inr j show ?thesis by (simp add: eg_process_template_try_def)
    next
      case tx: (Inr embedding_text)
      obtain r w1 where r: "eg_generate_embedding e embedding_text w = (r, w1)"
        by (cases "eg_generate_embedding e embedding_text w")
      obtain r' w1' where r': "eg_generate_embedding e embedding_text w' = (r', w1')"
        by (cases "eg_generate_embedding e embedding_text w'")
      from eg_generate_embedding_fst [of e embedding_text w w'] r r' have "r' = r" by simp
      with Inr j tx r r' show ?thesis
        by (cases r)
           (simp_all add: eg_process_template_try_def utcnow_z_def eg_result_blank [OF assms])
    qed
  qed
qed

lemma eg_process_template_rel:
  assumes "(\<forall>n. clock e n = clock e 0) \<or> set time_fields \<subseteq> set T"
  shows "map_sum id (map_option (blank_fields T)) (fst (eg_process_template e p w))
       = map_sum id (map_option (blank_fields T)) (fst (eg_process_template e p w'))"
proof -
  obtain r w1 where r: "eg_process_template_try e p w = (r, w1)"
    by (cases "eg_process_template_try e p w")
  obtain r' w1' where r': "eg_process_template_try e p w' = (r', w1')"
    by (cases "eg_process_template_try e p w'")
  from eg_process_template_try_rel [OF assms, of p w w'] r r'
  have "map_sum id (blank_fields T) r = map_sum id (blank_fields T) r'" by simp
  with r r' show ?thesis
    by (cases r; cases r')
       (simp_all add: eg_process_template_def split: sum.splits bool.splits)
qed

lemma eg_process_template_dirs_rel:
  assumes "(\<forall>n. clock e n = clock e 0) \<or> set time_fields \<subseteq> set T"
  shows "map (blank_fields T) embs = map (blank_fields T) embs' \<Longrightarrow>
         map_sum id (map (blank_fields T)) (fst (eg_process_template_dirs e ip names embs w))
       = map_sum id (map (blank_fields T)) (fst (eg_process_template_dirs e ip names embs' w'))"
proof (induction names arbitrary: embs embs' w w')
  case Nil
  then show ?case by simp
next
  case (Cons name names)
  show ?case
  proof (cases "path_is_dir e (ip @ [name])")
    case (Inl err)
    then show ?thesis by simp
  next
    case (Inr is_dir)
    show ?thesis
    proof (cases "\<not> is_dir \<or> take 1 name = ''.''")
      case True
      with Inr Cons.IH [OF Cons.prems, of w w'] show ?thesis by simp
    next
      case False
      obtain r w1 where r: "eg_process_template e (ip @ [name]) w = (r, w1)"
        by (cases "eg_process_template e (ip @ [name]) w")
      obtain r' w1' where r': "eg_process_template e (ip @ [name]) w' = (r', w1')"
        by (cases "eg_process_template e (ip @ [name]) w'")
      from eg_process_template_rel [OF assms, of "ip @ [name]" w w'] r r'
      have rel: "map_sum id (map_option (blank_fields T)) r
                   = map_sum id (map_option (blank_fields T)) r'" by simp
      show ?thesis
      proof (cases r)
        case (Inl err)
        with rel have "r' = Inl err" by (cases r') simp_all
        with Inl Inr False r r' show ?thesis by simp
      next
        case res: (Inr res)
        with rel obtain res' where res': "r' = Inr res'"
          "map_option (blank_fields T) res = map_option (blank_fields T) res'"
          by (cases r') simp_all
        show ?thesis
        proof (cases res)
          case None
          with res'(2) have "res' = None" by simp
          with None res res'(1) Inr False r r' Cons.IH [OF Cons.prems, of w1 w1']
          show ?thesis by simp
        next
          case (Some result)
          with res'(2) obtain result' where result': "res' = Some result'"
            "blank_fields T result = blank_fields T result'"
            by (cases res') simp_all
          from blank_fields_empty_iff [OF result'(2)]
          have t: "truthy (JObj result) = truthy (JObj result')" by simp
          have "map (blank_fields T)
                  (if truthy (JObj result) then embs @ [result] else embs)
              = map (blank_fields T)
                  (if truthy (JObj result') then embs' @ [result'] else embs')"
            using t result'(2) Cons.prems by simp
          from Cons.IH [OF this, of w1 w1'] Some result'(1) res res'(1) Inr False r r'
          show ?thesis by simp
        qed
      qed
    qed
  qed
qed

lemma eg_process_template_dirs_stores:
  "s3 (snd (eg_process_template_dirs e ip names embeddings w)) = s3 w
   \<and> dynamodb (snd (eg_process_template_dirs e ip names embeddings w)) = dynamodb w"
proof (induction names arbitrary: embeddings w)
  case Nil
  show ?case by simp
next
  case (Cons name names)
  obtain r w1 where r: "eg_process_template e (ip @ [name]) w = (r, w1)"
    by (cases "eg_process_template e (ip @ [name]) w")
  then have "s3 w1 = s3 w" "dynamodb w1 = dynamodb w"
    using eg_process_template_s3 [of e "ip @ [name]" w]
      eg_process_template_dynamodb [of e "ip @ [name]" w] by simp_all
  with r Cons.IH show ?case
    by (auto split: sum.splits option.splits)
qed

lemma eg_process_industries_stores:
  "s3 (snd (eg_process_industries e bp industries embeddings w)) = s3 w
   \<and> dynamodb (snd (eg_process_industries e bp industries embeddings w)) = dynamodb w"
proof (induction industries arbitrary: embeddings w)
  case Nil
  show ?case by simp
next
  case (Cons industry industries)
  have d: "eg_process_template_dirs e (bp @ [industry]) names embeddings w = (r, w1) \<Longrightarrow>
           s3 w1 = s3 w \<and> dynamodb w1 = dynamodb w" for names r w1
    using eg_process_template_dirs_stores [of e "bp @ [industry]" names embeddings w] by simp
  show ?case
    using Cons.IH by (auto split: sum.splits bool.splits prod.splits dest!: d)
qed

lemma eg_process_industries_rel:
  assumes "(\<forall>n. clock e n = clock e 0) \<or> set time_fields \<subseteq> set T"
  shows "map (blank_fields T) embs = map (blank_fields T) embs' \<Longrightarrow>
         map_sum id (map (blank_fields T)) (fst (eg_process_industries e bp industries embs w))
       = map_sum id (map (blank_fields T)) (fst (eg_process_industries e bp industries embs' w'))"
proof (induction industries arbitrary: embs embs' w w')
  case Nil
  then show ?case by simp
next
  case (Cons industry industries)
  show ?case
  proof (cases "path_exists e (bp @ [industry])")
    case (Inl err)
    then show ?thesis by simp
  next
    case (Inr ex)
    show ?thesis
    proof (cases ex)
      case False
      with Inr Cons.IH [OF Cons.prems, of w w'] show ?thesis by simp
    next
      case True
      show ?thesis
      proof (cases "path_iterdir e (bp @ [industry])")
        case (Inl err)
        with Inr True show ?thesis by simp
      next
        case names: (Inr names)
        obtain r w1 where r: "eg_process_template_dirs e (bp @ [industry]) names embs w = (r, w1)"
          by (cases "eg_process_template_dirs e (bp @ [industry]) names embs w")
        obtain r' w1' where
          r': "eg_process_template_dirs e (bp @ [industry]) names embs' w' = (r', w1')"
          by (cases "eg_process_template_dirs e (bp @ [industry]) names embs' w'")
        from eg_process_template_dirs_rel [OF assms Cons.prems, where ip = "bp @ [industry]"
            and names = names and w = w and w' = w']
          r r'
        have rel: "map_sum id (map (blank_fields T)) r = map_sum id (map (blank_fields T)) r'"
          by simp
        show ?thesis
        proof (cases r)
          case (Inl err)
          with rel have "r' = Inl err" by (cases r') simp_all
          with Inl Inr True names r r' show ?thesis by simp
        next
          case E: (Inr E)
          with rel obtain E' where E': "r' = Inr E'"
            "map (blank_fields T) E = map (blank_fields T) E'"
            by (cases r') simp_all
          from Cons.IH [OF E'(2), of w1 w1'] E E'(1) Inr True names r r' show ?thesis by simp
        qed
      qed
    qed
  qed
qed

lemma same_writes_add: "same_writes f m (m ++ M) m' (m' ++ M)"
  unfolding same_writes_def by blast

lemma map_upd_add: "m(k \<mapsto> v) ++ M = m ++ ([k \<mapsto> v] ++ M)"
  by (rule ext) (simp add: map_add_def split: option.splits)

lemma eg_save_vectors_loop_effect:
  "\<exists>M R. \<forall>w. fst (eg_save_vectors_loop e embeddings w) = R
         \<and> s3 (snd (eg_save_vectors_loop e embeddings w)) = s3 w ++ M
         \<and> dynamodb (snd (eg_save_vectors_loop e embeddings w)) = dynamodb w
         \<and> tick (snd (eg_save_vectors_loop e embeddings w)) = tick w"
proof (induction embeddings)
  case Nil
  show ?case by (intro exI [of _ Map.empty] exI [of _ "Inr ()"]) simp
next
  case (Cons x xs)
  then obtain M R where IH: "\<And>w. fst (eg_save_vectors_loop e xs w) = R
         \<and> s3 (snd (eg_save_vectors_loop e xs w)) = s3 w ++ M
         \<and> dynamodb (snd (eg_save_vectors_loop e xs w)) = dynamodb w
         \<and> tick (snd (eg_save_vectors_loop e xs w)) = tick w"
    by blast
  show ?case
  proof (cases "eg_vector_doc x")
    case (Inl err)
    then show ?thesis by (intro exI [of _ Map.empty] exI [of _ "Inl err"]) simp
  next
    case (Inr p)
    obtain tid doc where p: "p = (tid, doc)" by (cases p)
    let ?k = "(vectors_bucket e, ''template-embeddings/'' @ py_str (py_str_of e) tid @ ''.json'')"
    show ?thesis
    proof (cases "put_object_error e ?k")
      case (Some err)
      with Inr p show ?thesis
        by (intro exI [of _ Map.empty] exI [of _ "Inl err"]) (simp add: put_object_def)
    next
      case None
      have "eg_save_vectors_loop e (x # xs) w
              = eg_save_vectors_loop e xs (w\<lparr>s3 := (s3 w)(?k \<mapsto> JObj doc)\<rparr>)" for w
        using Inr p None by (simp add: put_object_def)
      then show ?thesis
        using IH by (intro exI [of _ "[?k \<mapsto> JObj doc] ++ M"] exI [of _ R])
          (simp add: map_upd_add [symmetric])
    qed
  qed
qed

lemma eg_save_to_dynamodb_s3 [simp]:
  "s3 (snd (eg_save_to_dynamodb e embeddings w)) = s3 w"
proof (induction embeddings arbitrary: w)
  case Nil
  show ?case by simp
next
  case (Cons x xs)
  show ?case
    by (auto simp: Cons put_item_def split: sum.splits prod.splits option.splits)
qed

lemma eg_save_to_dynamodb_two:
  assumes T: "set T \<subseteq> set time_fields"
  shows "map (blank_fields T) E = map (blank_fields T) E' \<Longrightarrow>
     fst (eg_save_to_dynamodb e E w) = fst (eg_save_to_dynamodb e E' w')
     \<and> same_writes (blank_fields T) (dynamodb w) (dynamodb (snd (eg_save_to_dynamodb e E w)))
         (dynamodb w') (dynamodb (snd (eg_save_to_dynamodb e E' w')))"
proof (induction E arbitrary: E' w w')
  case Nil
  then show ?case by (simp add: same_writes_refl)
next
  case (Cons x xs)
  then obtain x' xs' where E': "E' = x' # xs'" "blank_fields T x = blank_fields T x'"
    "map (blank_fields T) xs = map (blank_fields T) xs'"
    by (cases E') auto
  note rel = eg_item_blank [OF T E'(2), of "py_str_of e"]
  show ?case
  proof (cases "eg_item (py_str_of e) x")
    case (Inl err)
    with rel have "eg_item (py_str_of e) x' = Inl err"
      by (cases "eg_item (py_str_of e) x'") simp_all
    with Inl E'(1) show ?thesis by (simp add: same_writes_refl)
  next
    case (Inr p)
    obtain tid item where p: "p = (tid, item)" by (cases p)
    with Inr rel obtain item' where item': "eg_item (py_str_of e) x' = Inr (tid, item')"
      "blank_fields T item = blank_fields T item'"
      by (cases "eg_item (py_str_of e) x'") auto
    let ?k = "(templates_table e, ''TEMPLATE'', ''TEMPLATE#'' @ py_str (py_str_of e) tid)"
    show ?thesis
    proof (cases "put_item_error e ?k")
      case (Some err)
      with Inr p item'(1) E'(1) show ?thesis by (simp add: put_item_def same_writes_refl)
    next
      case None
      let ?w1 = "w\<lparr>dynamodb := (dynamodb w)(?k \<mapsto> item)\<rparr>"
      let ?w1' = "w'\<lparr>dynamodb := (dynamodb w')(?k \<mapsto> item')\<rparr>"
      have s: "eg_save_to_dynamodb e (x # xs) w = eg_save_to_dynamodb e xs ?w1"
        "eg_save_to_dynamodb e (x' # xs') w' = eg_save_to_dynamodb e xs' ?w1'"
        using Inr p None item'(1) by (simp_all add: put_item_def)
      have sel: "dynamodb ?w1 = (dynamodb w)(?k \<mapsto> item)"
        "dynamodb ?w1' = (dynamodb w')(?k \<mapsto> item')"
        by simp_all
      note ih = Cons.IH [OF E'(3), of ?w1 ?w1', unfolded sel]
      note f = ih [THEN conjunct1] and r = ih [THEN conjunct2]
      have u: "same_writes (blank_fields T) (dynamodb w) ((dynamodb w)(?k \<mapsto> item))
                 (dynamodb w') ((dynamodb w')(?k \<mapsto> item'))"
        using item'(2) by (rule same_writes_upd)
      from f same_writes_trans [OF u r] s E'(1) show ?thesis by simp
    qed
  qed
qed

lemma index_doc_blank:
  assumes "(\<forall>n. clock e n = clock e 0) \<or> set time_fields \<subseteq> set T"
  shows "blank_doc T (JObj [(''vectors_count'', c), (''model'', m), (''dimension'', d),
                            (''generated_at'', JStr (clock e a @ ''Z'')), (''templates'', ts)])
       = blank_doc T (JObj [(''vectors_count'', c), (''model'', m), (''dimension'', d),
                            (''generated_at'', JStr (clock e b @ ''Z'')), (''templates'', ts)])"
  using assms
proof
  assume c: "\<forall>n. clock e n = clock e 0"
  have "clock e a = clock e b"
    using c [rule_format, of a] c [rule_format, of b] by simp
  then show ?thesis by simp
next
  assume "set time_fields \<subseteq> set T"
  then have "''generated_at'' \<in> set T"
    by (auto simp: time_fields_def)
  then show ?thesis by (simp add: blank_doc_def)
qed

lemma eg_save_to_s3_vectors_two:
  assumes H: "(\<forall>n. clock e n = clock e 0) \<or> set time_fields \<subseteq> set T"
  shows "fst (eg_save_to_s3_vectors e E w) = fst (eg_save_to_s3_vectors e E w')
     \<and> same_writes (blank_doc T) (s3 w) (s3 (snd (eg_save_to_s3_vectors e E w)))
         (s3 w') (s3 (snd (eg_save_to_s3_vectors e E w')))"
proof -
  obtain M R where L: "\<And>w. fst (eg_save_vectors_loop e E w) = R
         \<and> s3 (snd (eg_save_vectors_loop e E w)) = s3 w ++ M
         \<and> dynamodb (snd (eg_save_vectors_loop e E w)) = dynamodb w
         \<and> tick (snd (eg_save_vectors_loop e E w)) = tick w"
    using eg_save_vectors_loop_effect [of e E] by blast
  have L': "eg_save_vectors_loop e E w = (r, w1) \<Longrightarrow>
              r = R \<and> s3 w1 = s3 w ++ M \<and> tick w1 = tick w" for w r w1
    using L [of w] by simp
  let ?k = "(vectors_bucket e, ''template-embeddings/index.json'')"
  have fails: ?thesis
    if "\<And>w. fst (eg_save_to_s3_vectors e E w) = Inl err
             \<and> s3 (snd (eg_save_to_s3_vectors e E w)) = s3 w ++ M" for err
    using that [of w] that [of w'] by (simp add: same_writes_add)
  show ?thesis
  proof (cases R)
    case (Inl err)
    show ?thesis
      by (rule fails [of err])
         (auto simp: eg_save_to_s3_vectors_def Inl dest!: L' split: prod.splits sum.splits)
  next
    case (Inr un)
    show ?thesis
    proof (cases "eg_index_templates E")
      case (Inl err)
      show ?thesis
        by (rule fails [of err])
           (auto simp: eg_save_to_s3_vectors_def Inr Inl utcnow_z_def dest!: L'
             split: prod.splits sum.splits)
    next
      case templates: (Inr templates)
      show ?thesis
      proof (cases "put_object_error e ?k")
        case (Some err)
        show ?thesis
          by (rule fails [of err])
             (auto simp: eg_save_to_s3_vectors_def Inr templates Some put_object_def utcnow_z_def
               dest!: L' split: prod.splits sum.splits)
      next
        case None
        define D where "D g = JObj [(''vectors_count'', JInt (int (length E))),
                          (''model'', JStr EMBEDDING_MODEL_ID),
                          (''dimension'', JInt (int EMBEDDING_DIMENSION)),
                          (''generated_at'', JStr g),
                          (''templates'', JArr templates)]" for g
        have S: "fst (eg_save_to_s3_vectors e E w) = Inr ()
               \<and> s3 (snd (eg_save_to_s3_vectors e E w))
                   = (s3 w ++ M)(?k \<mapsto> D (clock e (tick w) @ ''Z''))" for w
          by (auto simp: eg_save_to_s3_vectors_def Inr templates None put_object_def utcnow_z_def
              D_def dest!: L' split: prod.splits sum.splits)
        have "blank_doc T (D (clock e (tick w) @ ''Z'')) = blank_doc T (D (clock e (tick w') @ ''Z''))"
          unfolding D_def by (rule index_doc_blank [OF H])
        then have "same_writes (blank_doc T) (s3 w ++ M)
                     ((s3 w ++ M)(?k \<mapsto> D (clock e (tick w) @ ''Z'')))
                     (s3 w' ++ M) ((s3 w' ++ M)(?k \<mapsto> D (clock e (tick w') @ ''Z'')))"
          by (rule same_writes_upd)
        from same_writes_trans [OF same_writes_add this] S [of w] S [of w'] show ?thesis
          by simp
      qed
    qed
  qed
qed

lemma eg_main_save_two:
  assumes T: "set T \<subseteq> set time_fields"
    and H: "(\<forall>n. clock e n = clock e 0) \<or> set time_fields \<subseteq> set T"
    and E: "map (blank_fields T) E = map (blank_fields T) E'"
  shows "fst (eg_main_save e E w) = fst (eg_main_save e E' w')
     \<and> same_writes (blank_doc T) (s3 w) (s3 (snd (eg_main_save e E w)))
         (s3 w') (s3 (snd (eg_main_save e E' w')))
     \<and> same_writes (blank_fields T) (dynamodb w) (dynamodb (snd (eg_main_save e E w)))
         (dynamodb w') (dynamodb (snd (eg_main_save e E' w')))"
proof (cases "E = []")
  case True
  with E have "E' = []" by simp
  with True show ?thesis by (simp add: eg_main_save_def same_writes_refl)
next
  case False
  with E have ne: "E' \<noteq> []" by auto
  obtain rs ws where s: "eg_save_to_s3_vectors e E w = (rs, ws)"
    by (cases "eg_save_to_s3_vectors e E w")
  obtain rs' ws' where s': "eg_save_to_s3_vectors e E w' = (rs', ws')"
    by (cases "eg_save_to_s3_vectors e E w'")
  have s'': "eg_save_to_s3_vectors e E' w' = (rs', ws')"
    using eg_save_to_s3_vectors_blank [OF T E, of e w'] s' by simp
  from eg_save_to_s3_vectors_two [OF H, of E w w'] s s'
  have rs: "rs' = rs" and ss: "same_writes (blank_doc T) (s3 w) (s3 ws) (s3 w') (s3 ws')"
    by simp_all
  have ds: "dynamodb ws = dynamodb w" "dynamodb ws' = dynamodb w'"
    using eg_save_to_s3_vectors_dynamodb [of e E w] eg_save_to_s3_vectors_dynamodb [of e E w'] s s'
    by simp_all
  show ?thesis
  proof (cases rs)
    case (Inl err)
    with rs s s'' ss ds False ne show ?thesis
      by (simp add: eg_main_save_def same_writes_refl)
  next
    case (Inr un)
    obtain rd wd where d: "eg_save_to_dynamodb e E ws = (rd, wd)"
      by (cases "eg_save_to_dynamodb e E ws")
    obtain rd' wd' where d': "eg_save_to_dynamodb e E' ws' = (rd', wd')"
      by (cases "eg_save_to_dynamodb e E' ws'")
    from eg_save_to_dynamodb_two [OF T E, of e ws ws'] d d' ds
    have rd: "rd' = rd"
      and sd: "same_writes (blank_fields T) (dynamodb w) (dynamodb wd) (dynamodb w') (dynamodb wd')"
      by simp_all
    have s3d: "s3 wd = s3 ws" "s3 wd' = s3 ws'"
      using eg_save_to_dynamodb_s3 [of e E ws] eg_save_to_dynamodb_s3 [of e E' ws'] d d'
      by simp_all
    from Inr rs s s'' d d' rd sd ss s3d False ne show ?thesis
      by (cases rd) (simp_all add: eg_main_save_def)
  qed
qed

lemma eg_main_two:
  assumes T: "set T \<subseteq> set time_fields"
    and H: "(\<forall>n. clock e n = clock e 0) \<or> set time_fields \<subseteq> set T"
  shows "fst (eg_main e base_path template w) = fst (eg_main e base_path template w')
     \<and> same_writes (blank_doc T) (s3 w) (s3 (snd (eg_main e base_path template w)))
         (s3 w') (s3 (snd (eg_main e base_path template w')))
     \<and> same_writes (blank_fields T) (dynamodb w) (dynamodb (snd (eg_main e base_path template w)))
         (dynamodb w') (dynamodb (snd (eg_main e base_path template w')))"
proof (cases template)
  case None
  obtain r w1 where r: "eg_process_all_templates e base_path w = (r, w1)"
    by (cases "eg_process_all_templates e base_path w")
  obtain r' w1' where r': "eg_process_all_templates e base_path w' = (r', w1')"
    by (cases "eg_process_all_templates e base_path w'")
  have st: "s3 w1 = s3 w" "dynamodb w1 = dynamodb w" "s3 w1' = s3 w'" "dynamodb w1' = dynamodb w'"
    using eg_process_industries_stores [of e base_path VALID_INDUSTRIES "[]" w]
      eg_process_industries_stores [of e base_path VALID_INDUSTRIES "[]" w'] r r'
    by (simp_all add: eg_process_all_templates_def)
  have rel: "map_sum id (map (blank_fields T)) r = map_sum id (map (blank_fields T)) r'"
    using eg_process_industries_rel [OF H, of "[]" "[]" base_path VALID_INDUSTRIES w w'] r r'
    by (simp add: eg_process_all_templates_def)
  show ?thesis
  proof (cases r)
    case (Inl err)
    with rel have "r' = Inl err" by (cases r') simp_all
    with Inl None r r' st show ?thesis by (simp add: eg_main_def same_writes_refl)
  next
    case (Inr E)
    with rel obtain E' where E': "r' = Inr E'" "map (blank_fields T) E = map (blank_fields T) E'"
      by (cases r') simp_all
    from eg_main_save_two [OF T H E'(2), of w1 w1'] Inr E'(1) None r r' st show ?thesis
      by (simp add: eg_main_def)
  qed
next
  case (Some rel)
  show ?thesis
  proof (cases "path_exists e (base_path @ rel)")
    case (Inl err)
    with Some show ?thesis by (simp add: eg_main_def same_writes_refl)
  next
    case (Inr ex)
    show ?thesis
    proof (cases ex)
      case False
      with Some Inr show ?thesis by (simp add: eg_main_def same_writes_refl)
    next
      case True
      obtain r w1 where r: "eg_process_template e (base_path @ rel) w = (r, w1)"
        by (cases "eg_process_template e (base_path @ rel) w")
      obtain r' w1' where r': "eg_process_template e (base_path @ rel) w' = (r', w1')"
        by (cases "eg_process_template e (base_path @ rel) w'")
      have st: "s3 w1 = s3 w" "dynamodb w1 = dynamodb w" "s3 w1' = s3 w'"
        "dynamodb w1' = dynamodb w'"
        using eg_process_template_s3 [of e "base_path @ rel" w]
          eg_process_template_dynamodb [of e "base_path @ rel" w]
          eg_process_template_s3 [of e "base_path @ rel" w']
          eg_process_template_dynamodb [of e "base_path @ rel" w'] r r'
        by simp_all
      have rl: "map_sum id (map_option (blank_fields T)) r
                  = map_sum id (map_option (blank_fields T)) r'"
        using eg_process_template_rel [OF H, of "base_path @ rel" w w'] r r' by simp
      show ?thesis
      proof (cases r)
        case (Inl err)
        with rl have "r' = Inl err" by (cases r') simp_all
        with Inl Some Inr True r r' st show ?thesis by (simp add: eg_main_def same_writes_refl)
      next
        case res: (Inr res)
        with rl obtain res' where res': "r' = Inr res'"
          "map_option (blank_fields T) res = map_option (blank_fields T) res'"
          by (cases r') simp_all
        show ?thesis
        proof (cases res)
          case None
          with res'(2) have n: "res' = None" by simp
          have "map (blank_fields T) [] = map (blank_fields T) []" by simp
          from eg_main_save_two [OF T H this, of w1 w1'] None n res res'(1) Some Inr True r r' st
          show ?thesis by (simp add: eg_main_def)
        next
          case result: (Some result)
          with res'(2) obtain result' where result': "res' = Some result'"
            "blank_fields T result = blank_fields T result'"
            by (cases res') simp_all
          from blank_fields_empty_iff [OF result'(2)]
          have t: "truthy (JObj result) = truthy (JObj result')" by simp
          have "map (blank_fields T) (if truthy (JObj result) then [result] else [])
              = map (blank_fields T) (if truthy (JObj result') then [result'] else [])"
            using t result'(2) by simp
          from eg_main_save_two [OF T H this, of w1 w1'] result result'(1) res res'(1)
            Some Inr True r r' st
          show ?thesis by (simp add: eg_main_def)
        qed
      qed
    qed
  qed
qed

lemma eg_main_again:
  assumes T: "set T \<subseteq> set time_fields"
    and H: "(\<forall>n. clock e n = clock e 0) \<or> set time_fields \<subseteq> set T"
  shows "fst (eg_main e base_path template (snd (eg_main e base_path template w)))
           = fst (eg_main e base_path template w)
     \<and> map_option (blank_doc T)
          \<circ> s3 (snd (eg_main e base_path template (snd (eg_main e base_path template w))))
       = map_option (blank_doc T) \<circ> s3 (snd (eg_main e base_path template w))
     \<and> map_option (blank_fields T)
          \<circ> dynamodb (snd (eg_main e base_path template (snd (eg_main e base_path template w))))
       = map_option (blank_fields T) \<circ> dynamodb (snd (eg_main e base_path template w))"
  using eg_main_two [OF T H, of base_path template w "snd (eg_main e base_path template w)"]
  by (auto dest: same_writes_again)

lemma eg_save_vectors_loop_keeps:
  "s3 w k \<noteq> None \<Longrightarrow> s3 (snd (eg_save_vectors_loop e embeddings w)) k \<noteq> None"
proof (induction embeddings arbitrary: w)
  case Nil
  then show ?case by simp
next
  case (Cons x xs)
  show ?case
  proof (cases "eg_vector_doc x")
    case (Inl err)
    with Cons.prems show ?thesis by simp
  next
    case (Inr p)
    obtain tid doc where p: "p = (tid, doc)" by (cases p)
    let ?k = "(vectors_bucket e, ''template-embeddings/'' @ py_str (py_str_of e) tid @ ''.json'')"
    show ?thesis
    proof (cases "put_object_error e ?k")
      case (Some err)
      with Inr p Cons.prems show ?thesis by (simp add: put_object_def)
    next
      case None
      have "s3 (snd (eg_save_vectors_loop e xs (w\<lparr>s3 := (s3 w)(?k \<mapsto> JObj doc)\<rparr>))) k \<noteq> None"
        using Cons.prems by (intro Cons.IH) simp
      with Inr p None show ?thesis by (simp add: put_object_def)
    qed
  qed
qed

lemma eg_save_vectors_loop_written:
  "fst (eg_save_vectors_loop e embeddings w) = Inr () \<Longrightarrow> x \<in> set embeddings \<Longrightarrow>
   \<exists>tid doc. eg_vector_doc x = Inr (tid, doc)
     \<and> s3 (snd (eg_save_vectors_loop e embeddings w))
          (vectors_bucket e, ''template-embeddings/'' @ py_str (py_str_of e) tid @ ''.json'')
         \<noteq> None"
proof (induction embeddings arbitrary: w)
  case Nil
  then show ?case by simp
next
  case (Cons y ys)
  show ?case
  proof (cases "eg_vector_doc y")
    case (Inl err)
    with Cons.prems show ?thesis by simp
  next
    case (Inr p)
    obtain tid doc where p: "p = (tid, doc)" by (cases p)
    let ?k = "(vectors_bucket e, ''template-embeddings/'' @ py_str (py_str_of e) tid @ ''.json'')"
    let ?w1 = "w\<lparr>s3 := (s3 w)(?k \<mapsto> JObj doc)\<rparr>"
    show ?thesis
    proof (cases "put_object_error e ?k")
      case (Some err)
      with Inr p Cons.prems show ?thesis by (simp add: put_object_def)
    next
      case None
      with Inr p have step: "eg_save_vectors_loop e (y # ys) w = eg_save_vectors_loop e ys ?w1"
        by (simp add: put_object_def)
      show ?thesis
      proof (cases "x = y")
        case True
        have "s3 (snd (eg_save_vectors_loop e ys ?w1)) ?k \<noteq> None"
          by (rule eg_save_vectors_loop_keeps) simp
        with True Inr p step show ?thesis by simp
      next
        case False
        with Cons.prems step have "fst (eg_save_vectors_loop e ys ?w1) = Inr ()" "x \<in> set ys"
          by simp_all
        from Cons.IH [OF this] step show ?thesis by simp
      qed
    qed
  qed
qed

lemma eg_save_to_dynamodb_keeps:
  "dynamodb w k \<noteq> None \<Longrightarrow> dynamodb (snd (eg_save_to_dynamodb e embeddings w)) k \<noteq> None"
proof (induction embeddings arbitrary: w)
  case Nil
  then show ?case by simp
next
  case (Cons x xs)
  show ?case
  proof (cases "eg_item (py_str_of e) x")
    case (Inl err)
    with Cons.prems show ?thesis by simp
  next
    case (Inr p)
    obtain tid item where p: "p = (tid, item)" by (cases p)
    let ?k = "(templates_table e, ''TEMPLATE'', ''TEMPLATE#'' @ py_str (py_str_of e) tid)"
    show ?thesis
    proof (cases "put_item_error e ?k")
      case (Some err)
      with Inr p Cons.prems show ?thesis by (simp add: put_item_def)
    next
      case None
      have "dynamodb (snd (eg_save_to_dynamodb e xs (w\<lparr>dynamodb := (dynamodb w)(?k \<mapsto> item)\<rparr>))) k
              \<noteq> None"
        using Cons.prems by (intro Cons.IH) simp
      with Inr p None show ?thesis by (simp add: put_item_def)
    qed
  qed
qed

lemma eg_save_to_dynamodb_written:
  "fst (eg_save_to_dynamodb e embeddings w) = Inr () \<Longrightarrow> x \<in> set embeddings \<Longrightarrow>
   \<exists>tid item. eg_item (py_str_of e) x = Inr (tid, item)
     \<and> dynamodb (snd (eg_save_to_dynamodb e embeddings w))
          (templates_table e, ''TEMPLATE'', ''TEMPLATE#'' @ py_str (py_str_of e) tid) \<noteq> None"
proof (induction embeddings arbitrary: w)
  case Nil
  then show ?case by simp
next
  case (Cons y ys)
  show ?case
  proof (cases "eg_item (py_str_of e) y")
    case (Inl err)
    with Cons.prems show ?thesis by simp
  next
    case (Inr p)
    obtain tid item where p: "p = (tid, item)" by (cases p)
    let ?k = "(templates_table e, ''TEMPLATE'', ''TEMPLATE#'' @ py_str (py_str_of e) tid)"
    let ?w1 = "w\<lparr>dynamodb := (dynamodb w)(?k \<mapsto> item)\<rparr>"
    show ?thesis
    proof (cases "put_item_error e ?k")
      case (Some err)
      with Inr p Cons.prems show ?thesis by (simp add: put_item_def)
    next
      case None
      with Inr p have step: "eg_save_to_dynamodb e (y # ys) w = eg_save_to_dynamodb e ys ?w1"
        by (simp add: put_item_def)
      show ?thesis
      proof (cases "x = y")
        case True
        have "dynamodb (snd (eg_save_to_dynamodb e ys ?w1)) ?k \<noteq> None"
          by (rule eg_save_to_dynamodb_keeps) simp
        with True Inr p step show ?thesis by simp
      next
        case False
        with Cons.prems step have "fst (eg_save_to_dynamodb e ys ?w1) = Inr ()" "x \<in> set ys"
          by simp_all
        from Cons.IH [OF this] step show ?thesis by simp
      qed
    qed
  qed
qed

lemma eg_item_template_id:
  "eg_item str_of x = Inr (tid, item) \<Longrightarrow> dict_index x ''template_id'' = Inr tid"
  by (auto simp: eg_item_def elim!: bind_err_Inr_E)

lemma eg_vector_doc_template_id:
  "eg_vector_doc x = Inr (tid, doc) \<Longrightarrow> dict_index x ''template_id'' = Inr tid"
  by (auto simp: eg_vector_doc_def elim!: bind_err_Inr_E)

lemma eg_main_save_written:
  assumes "fst (eg_main_save e embeddings w) = Inr 0" "x \<in> set embeddings"
  shows "\<exists>tid. dict_index x ''template_id'' = Inr tid
     \<and> s3 (snd (eg_main_save e embeddings w))
          (vectors_bucket e, ''template-embeddings/'' @ py_str (py_str_of e) tid @ ''.json'')
         \<noteq> None
     \<and> dynamodb (snd (eg_main_save e embeddings w))
          (templates_table e, ''TEMPLATE'', ''TEMPLATE#'' @ py_str (py_str_of e) tid) \<noteq> None"
proof -
  from assms(2) have ne: "embeddings \<noteq> []" by auto
  obtain rl wl where l: "eg_save_vectors_loop e embeddings w = (rl, wl)"
    by (cases "eg_save_vectors_loop e embeddings w")
  obtain rs ws where s: "eg_save_to_s3_vectors e embeddings w = (rs, ws)"
    by (cases "eg_save_to_s3_vectors e embeddings w")
  obtain rd wd where d: "eg_save_to_dynamodb e embeddings ws = (rd, wd)"
    by (cases "eg_save_to_dynamodb e embeddings ws")
  from assms(1) ne s d have ok: "rs = Inr ()" "rd = Inr ()" and w': "snd (eg_main_save e embeddings w) = wd"
    by (auto simp: eg_main_save_def split: sum.splits)
  from s ok(1) l have rl: "rl = Inr ()"
    by (auto simp: eg_save_to_s3_vectors_def split: sum.splits prod.splits)
  from eg_save_vectors_loop_written [of e embeddings w x] l rl assms(2)
  obtain tid doc where v: "eg_vector_doc x = Inr (tid, doc)"
    and vs: "s3 wl (vectors_bucket e,
               ''template-embeddings/'' @ py_str (py_str_of e) tid @ ''.json'') \<noteq> None"
    by auto
  have "s3 ws k \<noteq> None" if "s3 wl k \<noteq> None" for k
    using s l rl that
    by (auto simp: eg_save_to_s3_vectors_def utcnow_z_def put_object_def
        split: sum.splits prod.splits option.splits)
  with vs have vs': "s3 ws (vectors_bucket e,
               ''template-embeddings/'' @ py_str (py_str_of e) tid @ ''.json'') \<noteq> None"
    by simp
  have s3d: "s3 wd = s3 ws"
    using eg_save_to_dynamodb_s3 [of e embeddings ws] d by simp
  from eg_save_to_dynamodb_written [of e embeddings ws x] d ok(2) assms(2)
  obtain tid' item where i: "eg_item (py_str_of e) x = Inr (tid', item)"
    and ds: "dynamodb wd (templates_table e, ''TEMPLATE'',
               ''TEMPLATE#'' @ py_str (py_str_of e) tid') \<noteq> None"
    by auto
  from eg_item_template_id [OF i] eg_vector_doc_template_id [OF v] have "tid' = tid" by simp
  with vs' s3d ds w' eg_vector_doc_template_id [OF v] show ?thesis by auto
qed

lemma eg_process_template_created_at:
  assumes "fst (eg_process_template e p w) = Inr (Some result)"
    "load_json_file e (p @ [''metadata.json'']) = Inr (JObj metadata)"
    "map_of metadata ''created_at'' = Some c"
  shows "map_of result ''created_at'' = Some c"
  using assms
  by (auto simp: eg_process_template_def eg_process_template_try_def eg_result_def utcnow_z_def
      dict_get_def split: bool.splits sum.splits prod.splits)

lemma eg_item_time_fields:
  assumes "eg_item str_of x = Inr (tid, item)"
  shows "map_of item ''created_at'' = map_of x ''created_at''
       \<and> map_of item ''updated_at'' = map_of x ''updated_at''"
  using assms
  by (auto simp: eg_item_def bind_err_Inr_iff dict_pick.simps dict_index_Inr_iff)




end
